theory Spec2Isabelle
  imports Main "HOL-Library.Word" "HOL-Library.Sublist"
begin

unbundle bit_operations_syntax

section \<open>The platform: strings, SHA-256 and POSIX paths\<close>

text \<open>
  The checkpoint subsystem consists of \<^verbatim>\<open>Storage\<close> (config/storage.ts), which derives
  the per-project directories, and \<^verbatim>\<open>GitService\<close> (services/gitService.ts), which
  drives a shadow git repository. Both sit on Node's \<^verbatim>\<open>crypto\<close>, \<^verbatim>\<open>path\<close>,
  \<^verbatim>\<open>fs\<close> and \<^verbatim>\<open>child_process\<close> modules and on the simple-git package. This
  section models the pure part of that platform. A JavaScript string is modelled by its
  UTF-8 bytes, which is also what \<^verbatim>\<open>hash.update(string)\<close> feeds to the digest.
\<close>

subsection \<open>SHA-256 (FIPS 180-4), as computed by \<^verbatim>\<open>crypto.createHash('sha256')\<close>\<close>

type_synonym u8 = "8 word"
type_synonym u32 = "32 word"

definition rotr :: "nat \<Rightarrow> u32 \<Rightarrow> u32" where
  "rotr n x = word_rotr n x"

definition Ch :: "u32 \<Rightarrow> u32 \<Rightarrow> u32 \<Rightarrow> u32" where
  "Ch x y z = (x AND y) XOR (NOT x AND z)"

definition Maj :: "u32 \<Rightarrow> u32 \<Rightarrow> u32 \<Rightarrow> u32" where
  "Maj x y z = (x AND y) XOR (x AND z) XOR (y AND z)"

definition Sigma0 :: "u32 \<Rightarrow> u32" where
  "Sigma0 x = rotr 2 x XOR rotr 13 x XOR rotr 22 x"

definition Sigma1 :: "u32 \<Rightarrow> u32" where
  "Sigma1 x = rotr 6 x XOR rotr 11 x XOR rotr 25 x"

definition sigma0 :: "u32 \<Rightarrow> u32" where
  "sigma0 x = rotr 7 x XOR rotr 18 x XOR drop_bit 3 x"

definition sigma1 :: "u32 \<Rightarrow> u32" where
  "sigma1 x = rotr 17 x XOR rotr 19 x XOR drop_bit 10 x"

definition K256 :: "u32 list" where
  "K256 =
     [0x428a2f98, 0x71374491, 0xb5c0fbcf, 0xe9b5dba5, 0x3956c25b, 0x59f111f1, 0x923f82a4, 0xab1c5ed5] @
     [0xd807aa98, 0x12835b01, 0x243185be, 0x550c7dc3, 0x72be5d74, 0x80deb1fe, 0x9bdc06a7, 0xc19bf174] @
     [0xe49b69c1, 0xefbe4786, 0x0fc19dc6, 0x240ca1cc, 0x2de92c6f, 0x4a7484aa, 0x5cb0a9dc, 0x76f988da] @
     [0x983e5152, 0xa831c66d, 0xb00327c8, 0xbf597fc7, 0xc6e00bf3, 0xd5a79147, 0x06ca6351, 0x14292967] @
     [0x27b70a85, 0x2e1b2138, 0x4d2c6dfc, 0x53380d13, 0x650a7354, 0x766a0abb, 0x81c2c92e, 0x92722c85] @
     [0xa2bfe8a1, 0xa81a664b, 0xc24b8b70, 0xc76c51a3, 0xd192e819, 0xd6990624, 0xf40e3585, 0x106aa070] @
     [0x19a4c116, 0x1e376c08, 0x2748774c, 0x34b0bcb5, 0x391c0cb3, 0x4ed8aa4a, 0x5b9cca4f, 0x682e6ff3] @
     [0x748f82ee, 0x78a5636f, 0x84c87814, 0x8cc70208, 0x90befffa, 0xa4506ceb, 0xbef9a3f7, 0xc67178f2]"

definition H256 :: "u32 list" where
  "H256 = [0x6a09e667, 0xbb67ae85, 0x3c6ef372, 0xa54ff53a,
           0x510e527f, 0x9b05688c, 0x1f83d9ab, 0x5be0cd19]"

text \<open>The message length in bits, as eight bytes, most significant first.\<close>

definition length_bytes :: "nat \<Rightarrow> u8 list" where
  "length_bytes n =
     map (\<lambda>i. ucast (drop_bit (8 * i) (of_nat (8 * n) :: 64 word))) (rev [0..<8])"

definition pad :: "u8 list \<Rightarrow> u8 list" where
  "pad bs = bs @ [0x80] @ replicate ((119 - length bs mod 64) mod 64) 0
               @ length_bytes (length bs)"

definition be_word :: "u8 list \<Rightarrow> u32" where
  "be_word bs = foldl (\<lambda>a b. push_bit 8 a OR ucast b) 0 bs"

function chunks :: "nat \<Rightarrow> 'a list \<Rightarrow> 'a list list" where
  "chunks n xs = (if n = 0 \<or> xs = [] then [] else take n xs # chunks n (drop n xs))"
  by pat_completeness auto
termination
  by (relation "measure (\<lambda>(n, xs). length xs)") auto

text \<open>Message schedule: the window holds the last sixteen words, oldest first.\<close>

fun schedule :: "nat \<Rightarrow> u32 list \<Rightarrow> u32 list" where
  "schedule 0 win = []"
| "schedule (Suc n) win =
     (let w = sigma1 (win ! 14) + win ! 9 + sigma0 (win ! 1) + win ! 0
      in w # schedule n (tl win @ [w]))"

definition round256 :: "u32 list \<Rightarrow> u32 \<times> u32 \<Rightarrow> u32 list" where
  "round256 s kw =
     (case s of [a, b, c, d, e, f, g, h] \<Rightarrow>
        (let t1 = h + Sigma1 e + Ch e f g + fst kw + snd kw;
             t2 = Sigma0 a + Maj a b c
         in [t1 + t2, a, b, c, d + t1, e, f, g])
      | _ \<Rightarrow> s)"

definition compress :: "u32 list \<Rightarrow> u8 list \<Rightarrow> u32 list" where
  "compress hs block =
     (let m = map be_word (chunks 4 block);
          w = m @ schedule 48 m
      in map2 (+) hs (foldl round256 hs (zip K256 w)))"

definition sha256 :: "u8 list \<Rightarrow> u32 list" where
  "sha256 bs = foldl compress H256 (chunks 64 (pad bs))"

definition hex_digit :: "nat \<Rightarrow> char" where
  "hex_digit n = ''0123456789abcdef'' ! (n mod 16)"

definition hex_word :: "u32 \<Rightarrow> string" where
  "hex_word w = map (\<lambda>i. hex_digit (unat (drop_bit (4 * i) w AND 15))) (rev [0..<8])"

text \<open>\<^verbatim>\<open>crypto.createHash('sha256').update(s).digest('hex')\<close>\<close>

definition sha256_hex :: "string \<Rightarrow> string" where
  "sha256_hex s = concat (map hex_word (sha256 (map of_char s)))"

subsection \<open>\<^verbatim>\<open>node:path\<close> on POSIX\<close>

text \<open>
  \<^verbatim>\<open>path.join\<close>, \<^verbatim>\<open>path.normalize\<close> and \<^verbatim>\<open>path.resolve\<close> of Node's POSIX
  implementation, on the level of path segments: Node's \<^verbatim>\<open>normalizeString\<close> scans the
  characters and keeps the segments it has accepted; an empty segment and \<^verbatim>\<open>.\<close> are
  dropped, \<^verbatim>\<open>..\<close> removes the last accepted segment unless there is none or it is
  \<^verbatim>\<open>..\<close> itself, in which case \<^verbatim>\<open>..\<close> is kept when the path is relative. None of
  these functions looks at the file system: symbolic links are not resolved.
\<close>

fun split_on :: "char \<Rightarrow> string \<Rightarrow> string list" where
  "split_on c [] = [[]]"
| "split_on c (x # xs) =
     (if x = c then [] # split_on c xs
      else (case split_on c xs of [] \<Rightarrow> [[x]] | s # ss \<Rightarrow> (x # s) # ss))"

fun join_with :: "string \<Rightarrow> string list \<Rightarrow> string" where
  "join_with sep [] = []"
| "join_with sep [s] = s"
| "join_with sep (s # t # ss) = s @ sep @ join_with sep (t # ss)"

text \<open>The accepted segments are kept newest first.\<close>

definition normalize_step :: "bool \<Rightarrow> string list \<Rightarrow> string \<Rightarrow> string list" where
  "normalize_step allowAboveRoot res seg =
     (if seg = [] \<or> seg = ''.'' then res
      else if seg = ''..'' then
        (if res \<noteq> [] \<and> hd res \<noteq> ''..'' then tl res
         else if allowAboveRoot then ''..'' # res
         else res)
      else seg # res)"

definition normalizeString :: "string \<Rightarrow> bool \<Rightarrow> string" where
  "normalizeString path allowAboveRoot =
     join_with ''/'' (rev (foldl (normalize_step allowAboveRoot) [] (split_on CHR ''/'' path)))"

definition path_normalize :: "string \<Rightarrow> string" where
  "path_normalize path =
     (if path = [] then ''.''
      else
        let isAbsolute = (hd path = CHR ''/'');
            trailingSeparator = (last path = CHR ''/'');
            p = normalizeString path (\<not> isAbsolute)
        in if p = [] then
             (if isAbsolute then ''/'' else if trailingSeparator then ''./'' else ''.'')
           else (if isAbsolute then ''/'' else []) @ p @ (if trailingSeparator then ''/'' else []))"

definition path_join :: "string list \<Rightarrow> string" where
  "path_join args =
     (let joined = join_with ''/'' (filter (\<lambda>arg. arg \<noteq> []) args)
      in if joined = [] then ''.'' else path_normalize joined)"

text \<open>
  \<^verbatim>\<open>path.resolve\<close> walks its arguments from the last one to the first and then the
  current working directory, until the path collected so far is absolute.
\<close>

fun resolve_loop :: "string list \<Rightarrow> string \<times> bool \<Rightarrow> string \<times> bool" where
  "resolve_loop [] acc = acc"
| "resolve_loop (path # rest) (resolvedPath, resolvedAbsolute) =
     (if resolvedAbsolute then (resolvedPath, resolvedAbsolute)
      else if path = [] then resolve_loop rest (resolvedPath, resolvedAbsolute)
      else resolve_loop rest (path @ ''/'' @ resolvedPath, hd path = CHR ''/''))"

definition path_resolve :: "string \<Rightarrow> string list \<Rightarrow> string" where
  "path_resolve cwd args =
     (case resolve_loop (rev args @ [cwd]) ([], False) of
        (resolvedPath, resolvedAbsolute) \<Rightarrow>
          (let p = normalizeString resolvedPath (\<not> resolvedAbsolute)
           in if resolvedAbsolute then ''/'' @ p
              else if p \<noteq> [] then p else ''.''))"

section \<open>Storage (config/storage.ts)\<close>

text \<open>What the process reads from its operating system environment.\<close>

record os_env =
  homedir :: string \<comment> \<open>\<^verbatim>\<open>os.homedir()\<close>\<close>
  tmpdir :: string \<comment> \<open>\<^verbatim>\<open>os.tmpdir()\<close>\<close>
  cwd :: string \<comment> \<open>\<^verbatim>\<open>process.cwd()\<close>\<close>

record Storage =
  targetDir :: string

definition GEMINI_DIR :: string where
  "GEMINI_DIR = ''.gemini''"

definition TMP_DIR_NAME :: string where
  "TMP_DIR_NAME = ''tmp''"

definition Storage_new :: "string \<Rightarrow> Storage" where
  "Storage_new dir = \<lparr>targetDir = dir\<rparr>"

definition getGlobalGeminiDir :: "os_env \<Rightarrow> string" where
  "getGlobalGeminiDir env =
     (let homeDir = homedir env
      in if homeDir = [] then path_join [tmpdir env, ''.gemini'']
         else path_join [homeDir, GEMINI_DIR])"

definition getGlobalTempDir :: "os_env \<Rightarrow> string" where
  "getGlobalTempDir env = path_join [getGlobalGeminiDir env, TMP_DIR_NAME]"

definition getProjectRoot :: "Storage \<Rightarrow> string" where
  "getProjectRoot this = targetDir this"

definition getFilePathHash :: "string \<Rightarrow> string" where
  "getFilePathHash filePath = sha256_hex filePath"

definition getProjectTempDir :: "os_env \<Rightarrow> Storage \<Rightarrow> string" where
  "getProjectTempDir env this =
     (let hash = getFilePathHash (getProjectRoot this);
          tempDir = getGlobalTempDir env
      in path_join [tempDir, hash])"

definition getHistoryDir :: "os_env \<Rightarrow> Storage \<Rightarrow> string" where
  "getHistoryDir env this =
     (let hash = getFilePathHash (getProjectRoot this);
          historyDir = path_join [getGlobalGeminiDir env, ''history'']
      in path_join [historyDir, hash])"

section \<open>Errors, the world outside the process, and suspending calls\<close>

text \<open>
  A value thrown in the program (or the reason of a rejected promise). The subsystem
  itself only creates plain \<^verbatim>\<open>Error\<close> objects; Node's system calls raise
  errors that carry an errno code; simple-git raises its own errors; and JavaScript
  allows throwing a value that is no \<^verbatim>\<open>Error\<close> at all.
\<close>

datatype thrown =
    Error string \<comment> \<open>\<^verbatim>\<open>new Error(message)\<close>\<close>
  | NodeError string string \<comment> \<open>errno code and message of a system error\<close>
  | GitError string \<comment> \<open>message of an error raised by simple-git\<close>
  | NonError string \<comment> \<open>a thrown value that is not an instance of \<^verbatim>\<open>Error\<close>\<close>

fun instanceof_Error :: "thrown \<Rightarrow> bool" where
  "instanceof_Error (NonError v) = False"
| "instanceof_Error e = True"

text \<open>The \<^verbatim>\<open>message\<close> property; the program reads it of \<^verbatim>\<open>Error\<close> instances only.\<close>

fun message_of :: "thrown \<Rightarrow> string" where
  "message_of (Error m) = m"
| "message_of (NodeError c m) = m"
| "message_of (GitError m) = m"
| "message_of (NonError v) = []"

text \<open>
  Modelled from the spec: \<^verbatim>\<open>isNodeError\<close> of utils/errors.js is not among the
  sources. By its name and its use it recognises the errors of Node's system calls,
  which carry a \<^verbatim>\<open>code\<close>; together with the test on \<^verbatim>\<open>ENOENT\<close> this gives the
  spec's "missing-file is not an error; any other read failure is".
\<close>

fun isNodeError :: "thrown \<Rightarrow> bool" where
  "isNodeError (NodeError c m) = True"
| "isNodeError e = False"

fun code_of :: "thrown \<Rightarrow> string" where
  "code_of (NodeError c m) = c"
| "code_of e = []"

subsection \<open>simple-git handles and tasks\<close>

record SimpleGit =
  baseDir :: string
  envVars :: "(string \<times> string) list option"
    \<comment> \<open>\<^verbatim>\<open>None\<close>: the child process inherits the environment of the process\<close>

definition simpleGit :: "string \<Rightarrow> SimpleGit" where
  "simpleGit dir = \<lparr>baseDir = dir, envVars = None\<rparr>"

definition with_env :: "SimpleGit \<Rightarrow> (string \<times> string) list \<Rightarrow> SimpleGit" where
  "with_env g vars = g\<lparr>envVars := Some vars\<rparr>"

datatype CheckRepoActions = BARE | IN_TREE | IS_REPO_ROOT

type_synonym git_options = "(string \<times> string option) list"

datatype git_task =
    CheckIsRepo CheckRepoActions
  | Init bool git_options
  | Commit string git_options
  | Add string
  | Raw "string list"
  | Clean string "string list"

datatype git_result = GBool bool | GText string | GDone

subsection \<open>The world\<close>

datatype fs_call = Mkdir string | WriteFile string | ReadFile string

text \<open>
  The file system names a file by its path string. \<open>fs_fault\<close> lets the operating
  system refuse a call with an errno code (permissions, a full disk); \<open>git\<close> is the
  state the version-control engine keeps, that is, the contents of its metadata
  directories.
\<close>

record 'g world =
  exec_error :: "string \<Rightarrow> thrown option"
    \<comment> \<open>the error \<^verbatim>\<open>child_process.exec\<close> reports for a command line, if any\<close>
  dirs :: "string set"
  files :: "string \<rightharpoonup> string"
  fs_fault :: "fs_call \<Rightarrow> string option"
  git :: 'g

text \<open>Every call that leaves the process is logged with its outcome.\<close>

datatype event =
    Exec string "thrown option"
  | FsMkdir string "thrown option"
  | FsWriteFile string string "thrown option"
  | FsReadFile string "thrown + string"
  | Git SimpleGit git_task "thrown + git_result"

record 'g state =
  world :: "'g world"
  trace :: "event list"

text \<open>
  An \<^verbatim>\<open>async\<close> function: it returns a value or rejects with a thrown value, and in
  both cases leaves a state behind.
\<close>

type_synonym ('g, 'a) prog = "'g state \<Rightarrow> (thrown + 'a) \<times> 'g state"

definition resolved :: "'a \<Rightarrow> ('g, 'a) prog" where
  "resolved x s = (Inr x, s)"

definition throw :: "thrown \<Rightarrow> ('g, 'a) prog" where
  "throw e s = (Inl e, s)"

definition await :: "('g, 'a) prog \<Rightarrow> ('a \<Rightarrow> ('g, 'b) prog) \<Rightarrow> ('g, 'b) prog" where
  "await m f s = (case m s of (Inl e, s') \<Rightarrow> (Inl e, s') | (Inr x, s') \<Rightarrow> f x s')"

definition try_catch :: "('g, 'a) prog \<Rightarrow> (thrown \<Rightarrow> ('g, 'a) prog) \<Rightarrow> ('g, 'a) prog" where
  "try_catch m h s = (case m s of (Inl e, s') \<Rightarrow> h e s' | (Inr x, s') \<Rightarrow> (Inr x, s'))"

definition emit :: "event \<Rightarrow> 'g state \<Rightarrow> 'g state" where
  "emit ev s = s\<lparr>trace := trace s @ [ev]\<rparr>"

subsection \<open>\<^verbatim>\<open>child_process.exec\<close> and \<^verbatim>\<open>node:fs/promises\<close>\<close>

definition exec :: "string \<Rightarrow> 'g state \<Rightarrow> thrown option \<times> 'g state" where
  "exec command s =
     (let error = exec_error (world s) command in (error, emit (Exec command error) s))"

definition errno_text :: "string \<Rightarrow> string" where
  "errno_text c =
     (if c = ''ENOENT'' then ''no such file or directory''
      else if c = ''EACCES'' then ''permission denied''
      else if c = ''EISDIR'' then ''illegal operation on a directory''
      else if c = ''ENOTDIR'' then ''not a directory''
      else if c = ''EEXIST'' then ''file already exists''
      else ''unknown error'')"

definition errno :: "string \<Rightarrow> string \<Rightarrow> string \<Rightarrow> thrown" where
  "errno c syscall path =
     NodeError c (c @ '': '' @ errno_text c @ '', '' @ syscall @ '' '' @ [CHR 0x27] @ path @ [CHR 0x27])"

text \<open>The directories above a path, outermost first: every proper prefix that ends before a separator.\<close>

definition ancestors :: "string \<Rightarrow> string list" where
  "ancestors p = map (\<lambda>i. take i p) (filter (\<lambda>i. p ! i = CHR ''/'') [1..<length p])"

definition mkdir_error :: "'g world \<Rightarrow> string \<Rightarrow> thrown option" where
  "mkdir_error w p =
     (case fs_fault w (Mkdir p) of
        Some c \<Rightarrow> Some (errno c ''mkdir'' p)
      | None \<Rightarrow>
          if files w p \<noteq> None then Some (errno ''EEXIST'' ''mkdir'' p)
          else if list_ex (\<lambda>a. files w a \<noteq> None) (ancestors p) then Some (errno ''ENOTDIR'' ''mkdir'' p)
          else None)"

text \<open>\<^verbatim>\<open>fs.mkdir(p, { recursive: true })\<close>\<close>

definition fs_mkdir :: "string \<Rightarrow> ('g, unit) prog" where
  "fs_mkdir p s =
     (let w = world s; r = mkdir_error w p; s' = emit (FsMkdir p r) s
      in case r of
           Some e \<Rightarrow> (Inl e, s')
         | None \<Rightarrow> (Inr (), s'\<lparr>world := w\<lparr>dirs := dirs w \<union> set (ancestors p) \<union> {p}\<rparr>\<rparr>))"

definition writeFile_error :: "'g world \<Rightarrow> string \<Rightarrow> thrown option" where
  "writeFile_error w p =
     (case fs_fault w (WriteFile p) of
        Some c \<Rightarrow> Some (errno c ''open'' p)
      | None \<Rightarrow>
          if p \<in> dirs w then Some (errno ''EISDIR'' ''open'' p)
          else if list_ex (\<lambda>a. files w a \<noteq> None) (ancestors p) then Some (errno ''ENOTDIR'' ''open'' p)
          else if list_ex (\<lambda>a. a \<notin> dirs w) (ancestors p) then Some (errno ''ENOENT'' ''open'' p)
          else None)"

text \<open>\<^verbatim>\<open>fs.writeFile(p, data)\<close>: creates the file or replaces its contents.\<close>

definition fs_writeFile :: "string \<Rightarrow> string \<Rightarrow> ('g, unit) prog" where
  "fs_writeFile p data s =
     (let w = world s; r = writeFile_error w p; s' = emit (FsWriteFile p data r) s
      in case r of
           Some e \<Rightarrow> (Inl e, s')
         | None \<Rightarrow> (Inr (), s'\<lparr>world := w\<lparr>files := (files w)(p \<mapsto> data)\<rparr>\<rparr>))"

text \<open>
  Reading opens the path and then reads the descriptor. Opening fails under a regular
  file and on a missing file; a directory opens, and it is the read of its
  descriptor that fails, with a message that names no path.
\<close>

definition errno_fd :: "string \<Rightarrow> string \<Rightarrow> thrown" where
  "errno_fd c syscall = NodeError c (c @ '': '' @ errno_text c @ '', '' @ syscall)"

definition readFile_result :: "'g world \<Rightarrow> string \<Rightarrow> thrown + string" where
  "readFile_result w p =
     (case fs_fault w (ReadFile p) of
        Some c \<Rightarrow> Inl (errno c ''open'' p)
      | None \<Rightarrow>
          if p \<in> dirs w then Inl (errno_fd ''EISDIR'' ''read'')
          else if list_ex (\<lambda>a. files w a \<noteq> None) (ancestors p) then Inl (errno ''ENOTDIR'' ''open'' p)
          else (case files w p of
                  None \<Rightarrow> Inl (errno ''ENOENT'' ''open'' p)
                | Some data \<Rightarrow> Inr data))"

text \<open>\<^verbatim>\<open>fs.readFile(p, 'utf-8')\<close>\<close>

definition fs_readFile :: "string \<Rightarrow> ('g, string) prog" where
  "fs_readFile p s =
     (let r = readFile_result (world s) p in (r, emit (FsReadFile p r) s))"

subsection \<open>The version-control engine behind simple-git\<close>

text \<open>
  The engine is a capability the subsystem is given, not part of it: each task of the
  simple-git interface that the program uses is a function of the handle, the
  arguments and the world, which yields a result or an error and the world it leaves
  behind. \<open>commit\<close> yields the \<^verbatim>\<open>commit\<close> field of simple-git's result.
\<close>

record 'g engine =
  checkIsRepo :: "SimpleGit \<Rightarrow> CheckRepoActions \<Rightarrow> 'g world \<Rightarrow> (thrown + bool) \<times> 'g world"
  init :: "SimpleGit \<Rightarrow> bool \<Rightarrow> git_options \<Rightarrow> 'g world \<Rightarrow> (thrown + unit) \<times> 'g world"
  commit :: "SimpleGit \<Rightarrow> string \<Rightarrow> git_options \<Rightarrow> 'g world \<Rightarrow> (thrown + string) \<times> 'g world"
  add :: "SimpleGit \<Rightarrow> string \<Rightarrow> 'g world \<Rightarrow> (thrown + unit) \<times> 'g world"
  raw :: "SimpleGit \<Rightarrow> string list \<Rightarrow> 'g world \<Rightarrow> (thrown + string) \<times> 'g world"
  clean :: "SimpleGit \<Rightarrow> string \<Rightarrow> string list \<Rightarrow> 'g world \<Rightarrow> (thrown + unit) \<times> 'g world"

text \<open>
  The call \<^verbatim>\<open>simpleGit(dir)\<close>: simple-git looks the directory up and refuses one that
  is no existing directory, before any task is issued; otherwise it hands out the
  handle \<open>simpleGit dir\<close>. The root directory always exists.
\<close>

definition cannot_use_directory :: thrown where
  "cannot_use_directory = GitError ''Cannot use simple-git on a directory that does not exist''"

definition folder_exists :: "'g world \<Rightarrow> string \<Rightarrow> bool" where
  "folder_exists w dir = (dir = ''/'' \<or> dir \<in> dirs w)"

definition simpleGit_call :: "string \<Rightarrow> ('g, SimpleGit) prog" where
  "simpleGit_call dir s =
     (if folder_exists (world s) dir then (Inr (simpleGit dir), s) else (Inl cannot_use_directory, s))"

text \<open>Running a task: the engine acts on the world, the call is logged with its outcome.\<close>

definition run_task ::
  "SimpleGit \<Rightarrow> git_task \<Rightarrow> ('a \<Rightarrow> git_result) \<Rightarrow> ('g world \<Rightarrow> (thrown + 'a) \<times> 'g world) \<Rightarrow> ('g, 'a) prog" where
  "run_task g task log f s =
     (case f (world s) of
        (r, w') \<Rightarrow> (r, emit (Git g task (map_sum id log r)) (s\<lparr>world := w'\<rparr>)))"

definition repo_checkIsRepo :: "'g engine \<Rightarrow> SimpleGit \<Rightarrow> CheckRepoActions \<Rightarrow> ('g, bool) prog" where
  "repo_checkIsRepo eng g action = run_task g (CheckIsRepo action) GBool (checkIsRepo eng g action)"

definition repo_init :: "'g engine \<Rightarrow> SimpleGit \<Rightarrow> bool \<Rightarrow> git_options \<Rightarrow> ('g, unit) prog" where
  "repo_init eng g bare options = run_task g (Init bare options) (\<lambda>_. GDone) (init eng g bare options)"

definition repo_commit :: "'g engine \<Rightarrow> SimpleGit \<Rightarrow> string \<Rightarrow> git_options \<Rightarrow> ('g, string) prog" where
  "repo_commit eng g message options =
     run_task g (Commit message options) GText (commit eng g message options)"

definition repo_add :: "'g engine \<Rightarrow> SimpleGit \<Rightarrow> string \<Rightarrow> ('g, unit) prog" where
  "repo_add eng g pathspec = run_task g (Add pathspec) (\<lambda>_. GDone) (add eng g pathspec)"

definition repo_raw :: "'g engine \<Rightarrow> SimpleGit \<Rightarrow> string list \<Rightarrow> ('g, string) prog" where
  "repo_raw eng g args = run_task g (Raw args) GText (raw eng g args)"

definition repo_clean :: "'g engine \<Rightarrow> SimpleGit \<Rightarrow> string \<Rightarrow> string list \<Rightarrow> ('g, unit) prog" where
  "repo_clean eng g mode options = run_task g (Clean mode options) (\<lambda>_. GDone) (clean eng g mode options)"

subsection \<open>\<^verbatim>\<open>String.prototype.trim\<close>\<close>



section \<open>GitService (services/gitService.ts)\<close>

record GitService =
  projectRoot :: string
  storage :: Storage

definition GitService_new :: "os_env \<Rightarrow> string \<Rightarrow> Storage \<Rightarrow> GitService" where
  "GitService_new os root st = \<lparr>projectRoot = path_resolve (cwd os) [root], storage = st\<rparr>"

definition GitService_getHistoryDir :: "os_env \<Rightarrow> GitService \<Rightarrow> string" where
  "GitService_getHistoryDir os this = getHistoryDir os (storage this)"

text \<open>The promise of \<^verbatim>\<open>verifyGitAvailability\<close> has no reject branch.\<close>

definition verifyGitAvailability :: "('g, bool) prog" where
  "verifyGitAvailability s =
     (case exec ''git --version'' s of
        (error, s') \<Rightarrow> if error \<noteq> None then resolved False s' else resolved True s')"

definition gitConfigContent :: string where
  "gitConfigContent =
     ''[user]\<newline>  name = Gemini CLI\<newline>  email = gemini-cli@google.com\<newline>[commit]\<newline>  gpgsign = false\<newline>''"

definition setupShadowGitRepository :: "'g engine \<Rightarrow> os_env \<Rightarrow> GitService \<Rightarrow> ('g, unit) prog" where
  "setupShadowGitRepository eng os this =
     (let repoDir = GitService_getHistoryDir os this;
          gitConfigPath = path_join [repoDir, ''.gitconfig'']
      in
      await (fs_mkdir repoDir) (\<lambda>_.
      await (fs_writeFile gitConfigPath gitConfigContent) (\<lambda>_.
      await (simpleGit_call repoDir) (\<lambda>repo.
      await (repo_checkIsRepo eng repo IS_REPO_ROOT) (\<lambda>isRepoDefined.
      await (if \<not> isRepoDefined then
               await (repo_init eng repo False [(''--initial-branch'', Some ''main'')]) (\<lambda>_.
               await (repo_commit eng repo ''Initial commit'' [(''--allow-empty'', None)]) (\<lambda>_.
               resolved ()))
             else resolved ()) (\<lambda>_.
      let userGitIgnorePath = path_join [projectRoot this, ''.gitignore''];
          shadowGitIgnorePath = path_join [repoDir, ''.gitignore'']
      in
      await (try_catch (fs_readFile userGitIgnorePath)
               (\<lambda>error. if isNodeError error \<and> code_of error \<noteq> ''ENOENT''
                        then throw error else resolved [])) (\<lambda>userGitIgnoreContent.
      fs_writeFile shadowGitIgnorePath userGitIgnoreContent)))))))"

definition initialize :: "'g engine \<Rightarrow> os_env \<Rightarrow> GitService \<Rightarrow> ('g, unit) prog" where
  "initialize eng os this =
     await verifyGitAvailability (\<lambda>gitAvailable.
       if \<not> gitAvailable then
         throw (Error ''Checkpointing is enabled, but Git is not installed. Please install Git or disable checkpointing to continue.'')
       else
         try_catch (setupShadowGitRepository eng os this)
           (\<lambda>error. throw (Error (''Failed to initialize checkpointing: ''
                @ (if instanceof_Error error then message_of error else ''Unknown error'')
                @ ''. Please check that Git is working properly or disable checkpointing.''))))"

text \<open>
  The getter \<^verbatim>\<open>shadowGitRepository\<close> makes a new handle on every access, so it can
  throw as \<^verbatim>\<open>simpleGit(...)\<close> does.
\<close>

definition shadowGitRepository :: "os_env \<Rightarrow> GitService \<Rightarrow> ('g, SimpleGit) prog" where
  "shadowGitRepository os this =
     (let repoDir = GitService_getHistoryDir os this
      in await (simpleGit_call (projectRoot this)) (\<lambda>git.
         resolved (with_env git
           [(''GIT_DIR'', path_join [repoDir, ''.git'']),
            (''GIT_WORK_TREE'', projectRoot this),
            (''HOME'', repoDir),
            (''XDG_CONFIG_HOME'', repoDir)])))"


definition createFileSnapshot :: "'g engine \<Rightarrow> os_env \<Rightarrow> GitService \<Rightarrow> string \<Rightarrow> ('g, string) prog" where
  "createFileSnapshot eng os this message =
     try_catch
       (await (shadowGitRepository os this) (\<lambda>repo.
        await (repo_add eng repo ''.'') (\<lambda>_.
        await (repo_commit eng repo message []) (\<lambda>commitResult.
        resolved commitResult))))
       (\<lambda>error. throw (Error (''Failed to create checkpoint snapshot: ''
            @ (if instanceof_Error error then message_of error else ''Unknown error'')
            @ ''. Checkpointing may not be working properly.'')))"

definition restoreProjectFromSnapshot :: "'g engine \<Rightarrow> os_env \<Rightarrow> GitService \<Rightarrow> string \<Rightarrow> ('g, unit) prog" where
  "restoreProjectFromSnapshot eng os this commitHash =
     await (shadowGitRepository os this) (\<lambda>repo.
     await (repo_raw eng repo [''restore'', ''--source'', commitHash, ''.'']) (\<lambda>_.
     await (repo_clean eng repo ''f'' [''-d'']) (\<lambda>_.
     resolved ())))"

section \<open>What a run did, and what is asked of an engine\<close>

text \<open>The calls a run from \<open>s\<close> to \<open>s'\<close> logged.\<close>

definition events_since :: "'g state \<Rightarrow> 'g state \<Rightarrow> event list" where
  "events_since s s' = drop (length (trace s)) (trace s')"

text \<open>The part of the world that is not the engine's metadata.\<close>

definition outside_git ::
  "'g world \<Rightarrow> (string \<Rightarrow> thrown option) \<times> string set \<times> (string \<rightharpoonup> string) \<times> (fs_call \<Rightarrow> string option)" where
  "outside_git w = (exec_error w, dirs w, files w, fs_fault w)"

text \<open>
  Properties of the engine that statements below name as assumptions, each one a
  property of git: the repository check only reads the metadata; initialising a
  repository and committing with no file staged (the bootstrap commit) only write
  metadata; a directory in which a repository was initialised and committed to is
  reported as a repository root; and after a commit through the plain handle of a
  directory, the head resolves through every handle whose \<^verbatim>\<open>GIT_DIR\<close> is the
  \<^verbatim>\<open>.git\<close> of that directory.
\<close>

definition check_reads_metadata :: "'g engine \<Rightarrow> bool" where
  "check_reads_metadata eng =
     (\<forall>g action w. snd (checkIsRepo eng g action w) = w \<and>
        (\<forall>w'. git w' = git w \<longrightarrow> fst (checkIsRepo eng g action w') = fst (checkIsRepo eng g action w)))"

definition bootstrap_writes_metadata :: "'g engine \<Rightarrow> bool" where
  "bootstrap_writes_metadata eng =
     (\<forall>g w. (\<forall>bare options. outside_git (snd (init eng g bare options w)) = outside_git w) \<and>
            (\<forall>message options. outside_git (snd (commit eng g message options w)) = outside_git w))"

definition bootstrap_makes_root :: "'g engine \<Rightarrow> bool" where
  "bootstrap_makes_root eng =
     (\<forall>g bare options message options' w w1 w2 ref.
        init eng g bare options w = (Inr (), w1) \<and> commit eng g message options' w1 = (Inr ref, w2)
        \<longrightarrow> fst (checkIsRepo eng g IS_REPO_ROOT w2) = Inr True)"


text \<open>
  Modelled from the spec: the error taxonomy of the spec says that engine and I/O
  errors are "wrapped with contextual message identifying which checkpoint operation
  failed and preserving the original cause". An error wraps a cause when it is a new
  \<^verbatim>\<open>Error\<close> whose message holds the message of the cause inside a longer text,
  which is how \<open>initialize\<close> and \<open>createFileSnapshot\<close> build theirs.
\<close>

definition wraps :: "thrown \<Rightarrow> thrown \<Rightarrow> bool" where
  "wraps e cause =
     (case e of
        Error m \<Rightarrow> m \<noteq> message_of cause \<and> sublist (message_of cause) m
      | _ \<Rightarrow> False)"

section \<open>Engines and inputs to run the program on\<close>

text \<open>
  A small engine: per metadata directory it keeps the commits made so far (reference
  and message, oldest first); it does not look at file contents. The metadata
  directory of a handle is its \<^verbatim>\<open>GIT_DIR\<close>, or \<^verbatim>\<open>.git\<close> under its base
  directory.
\<close>

type_synonym toy_git = "string \<rightharpoonup> (string \<times> string) list"

definition git_dir_of :: "SimpleGit \<Rightarrow> string" where
  "git_dir_of g =
     (case envVars g of
        None \<Rightarrow> path_join [baseDir g, ''.git'']
      | Some vars \<Rightarrow>
          (case map_of vars ''GIT_DIR'' of
             None \<Rightarrow> path_join [baseDir g, ''.git'']
           | Some d \<Rightarrow> d))"

definition not_a_repository :: thrown where
  "not_a_repository = GitError ''fatal: not a git repository (or any of the parent directories): .git''"

definition unknown_head :: thrown where
  "unknown_head = GitError ''fatal: ambiguous argument HEAD: unknown revision or path not in the working tree.''"

definition toy_checkIsRepo ::
  "SimpleGit \<Rightarrow> CheckRepoActions \<Rightarrow> toy_git world \<Rightarrow> (thrown + bool) \<times> toy_git world" where
  "toy_checkIsRepo g action w = (Inr (git w (git_dir_of g) \<noteq> None), w)"

definition toy_init ::
  "SimpleGit \<Rightarrow> bool \<Rightarrow> git_options \<Rightarrow> toy_git world \<Rightarrow> (thrown + unit) \<times> toy_git world" where
  "toy_init g bare options w =
     (case git w (git_dir_of g) of
        None \<Rightarrow> (Inr (), w\<lparr>git := (git w)(git_dir_of g \<mapsto> [])\<rparr>)
      | Some cs \<Rightarrow> (Inr (), w))"

definition toy_commit ::
  "SimpleGit \<Rightarrow> string \<Rightarrow> git_options \<Rightarrow> toy_git world \<Rightarrow> (thrown + string) \<times> toy_git world" where
  "toy_commit g message options w =
     (case git w (git_dir_of g) of
        None \<Rightarrow> (Inl not_a_repository, w)
      | Some cs \<Rightarrow>
          (let ref = ''c'' @ replicate (length cs) CHR ''+''
           in (Inr ref, w\<lparr>git := (git w)(git_dir_of g \<mapsto> cs @ [(ref, message)])\<rparr>)))"

definition toy_add ::
  "SimpleGit \<Rightarrow> string \<Rightarrow> toy_git world \<Rightarrow> (thrown + unit) \<times> toy_git world" where
  "toy_add g pathspec w =
     (case git w (git_dir_of g) of
        None \<Rightarrow> (Inl not_a_repository, w)
      | Some cs \<Rightarrow> (Inr (), w))"

definition toy_raw ::
  "SimpleGit \<Rightarrow> string list \<Rightarrow> toy_git world \<Rightarrow> (thrown + string) \<times> toy_git world" where
  "toy_raw g args w =
     (case git w (git_dir_of g) of
        None \<Rightarrow> (Inl not_a_repository, w)
      | Some cs \<Rightarrow>
          if args = [''rev-parse'', ''HEAD''] then
            (if cs = [] then (Inl unknown_head, w)
             else (Inr (fst (last cs) @ ''\<newline>''), w))
          else if length args = 4 \<and> take 2 args = [''restore'', ''--source''] then
            (if args ! 2 \<in> fst ` set cs then (Inr [], w)
             else (Inl (GitError (''fatal: could not resolve '' @ args ! 2)), w))
          else (Inl (GitError ''git: unknown command''), w))"

definition toy_clean ::
  "SimpleGit \<Rightarrow> string \<Rightarrow> string list \<Rightarrow> toy_git world \<Rightarrow> (thrown + unit) \<times> toy_git world" where
  "toy_clean g mode options w =
     (case git w (git_dir_of g) of
        None \<Rightarrow> (Inl not_a_repository, w)
      | Some cs \<Rightarrow> (Inr (), w))"

definition toy_engine :: "toy_git engine" where
  "toy_engine = \<lparr>checkIsRepo = toy_checkIsRepo, init = toy_init, commit = toy_commit,
                  add = toy_add, raw = toy_raw, clean = toy_clean\<rparr>"

text \<open>
  The same engine on the machine of a user whose own git configuration asks for
  signed commits while signing fails: a commit that reads the user's configuration
  (a handle that inherits the environment) fails, a commit that reads the
  configuration under a redirected \<^verbatim>\<open>HOME\<close> succeeds.
\<close>

definition signing_fails :: thrown where
  "signing_fails = GitError ''error: gpg failed to sign the data''"

definition signing_engine :: "toy_git engine" where
  "signing_engine =
     toy_engine\<lparr>commit := (\<lambda>g message options w.
        if envVars g = None then (Inl signing_fails, w) else toy_commit g message options w)\<rparr>"

definition os0 :: os_env where
  "os0 = \<lparr>homedir = ''/home/pony'', tmpdir = ''/tmp'', cwd = ''/work''\<rparr>"

definition storage0 :: Storage where
  "storage0 = Storage_new ''/work/app''"

definition service0 :: GitService where
  "service0 = GitService_new os0 ''/work/app'' storage0"

definition world0 :: "toy_git world" where
  "world0 = \<lparr>exec_error = (\<lambda>command. None),
             dirs = {''/home'', ''/home/pony'', ''/work'', ''/work/app''},
             files = [''/work/app/.gitignore'' \<mapsto> ''node_modules\<newline>''],
             fs_fault = (\<lambda>call. None),
             git = Map.empty\<rparr>"

definition state0 :: "toy_git state" where
  "state0 = \<lparr>world = world0, trace = []\<rparr>"

text \<open>The same machine without git.\<close>

definition command_not_found :: thrown where
  "command_not_found = Error ''Command failed: git --version''"

definition state_without_git :: "toy_git state" where
  "state_without_git = \<lparr>world = world0\<lparr>exec_error := (\<lambda>command. Some command_not_found)\<rparr>, trace = []\<rparr>"

section \<open>Notions for reasoning about normalised paths\<close>

text \<open>
  A segment that normalisation keeps as it is; a stack of accepted segments (newest
  first) as \<open>normalizeString\<close> can leave it; and a path that is the normal form of a
  path ending in such a segment.
\<close>

definition normal_seg :: "string \<Rightarrow> bool" where
  "normal_seg s = (s \<noteq> [] \<and> s \<noteq> ''.'' \<and> s \<noteq> ''..'' \<and> CHR ''/'' \<notin> set s)"

fun good_stack :: "bool \<Rightarrow> string list \<Rightarrow> bool" where
  "good_stack allow [] = True"
| "good_stack allow (x # res) =
     ((normal_seg x \<or> (x = ''..'' \<and> allow \<and> (\<forall>y\<in>set res. y = ''..''))) \<and> good_stack allow res)"

definition norm_stack :: "bool \<Rightarrow> string \<Rightarrow> string list" where
  "norm_stack allow path = foldl (normalize_step allow) [] (split_on CHR ''/'' path)"

definition seg_path :: "bool \<Rightarrow> string list \<Rightarrow> string \<Rightarrow> bool" where
  "seg_path allow M G =
     (M \<noteq> [] \<and> good_stack allow (rev M) \<and> normal_seg (last M) \<and>
      G = (if allow then [] else ''/'') @ join_with ''/'' M)"

definition segment_path :: "string \<Rightarrow> bool" where
  "segment_path G = (\<exists>allow M. seg_path allow M G)"

section \<open>Notions for reasoning about runs\<close>

text \<open>
  The worlds the file system calls leave behind; the three stages of
  \<open>setupShadowGitRepository\<close> (the directory and the configuration file, the
  repository, the ignore rules), which \<open>setup_split\<close> below shows to compose to it;
  what the read of the ignore file contributes; and names for the errors the
  subsystem creates.
\<close>

definition with_dir :: "string \<Rightarrow> 'g world \<Rightarrow> 'g world" where
  "with_dir p w = w\<lparr>dirs := dirs w \<union> set (ancestors p) \<union> {p}\<rparr>"

definition with_file :: "string \<Rightarrow> string \<Rightarrow> 'g world \<Rightarrow> 'g world" where
  "with_file p data w = w\<lparr>files := (files w)(p \<mapsto> data)\<rparr>"

definition write_config :: "os_env \<Rightarrow> GitService \<Rightarrow> ('g, unit) prog" where
  "write_config os this =
     await (fs_mkdir (GitService_getHistoryDir os this)) (\<lambda>_.
     fs_writeFile (path_join [GitService_getHistoryDir os this, ''.gitconfig'']) gitConfigContent)"

definition bootstrap :: "'g engine \<Rightarrow> SimpleGit \<Rightarrow> ('g, unit) prog" where
  "bootstrap eng repo =
     await (repo_checkIsRepo eng repo IS_REPO_ROOT) (\<lambda>isRepoDefined.
     if \<not> isRepoDefined then
       await (repo_init eng repo False [(''--initial-branch'', Some ''main'')]) (\<lambda>_.
       await (repo_commit eng repo ''Initial commit'' [(''--allow-empty'', None)]) (\<lambda>_.
       resolved ()))
     else resolved ())"

definition sync_ignore :: "os_env \<Rightarrow> GitService \<Rightarrow> ('g, unit) prog" where
  "sync_ignore os this =
     await (try_catch (fs_readFile (path_join [projectRoot this, ''.gitignore'']))
              (\<lambda>error. if isNodeError error \<and> code_of error \<noteq> ''ENOENT''
                       then throw error else resolved []))
       (\<lambda>userGitIgnoreContent.
          fs_writeFile (path_join [GitService_getHistoryDir os this, ''.gitignore'']) userGitIgnoreContent)"

text \<open>The handle the getter \<open>shadowGitRepository\<close> yields when it does not throw.\<close>

definition shadow_repo :: "os_env \<Rightarrow> GitService \<Rightarrow> SimpleGit" where
  "shadow_repo os this =
     \<lparr>baseDir = projectRoot this,
      envVars = Some [(''GIT_DIR'', path_join [GitService_getHistoryDir os this, ''.git'']),
                      (''GIT_WORK_TREE'', projectRoot this),
                      (''HOME'', GitService_getHistoryDir os this),
                      (''XDG_CONFIG_HOME'', GitService_getHistoryDir os this)]\<rparr>"

definition content_read :: "thrown + string \<Rightarrow> string" where
  "content_read rd = (case rd of Inr data \<Rightarrow> data | Inl e \<Rightarrow> [])"

definition EngineUnavailable :: thrown where
  "EngineUnavailable = Error ''Checkpointing is enabled, but Git is not installed. Please install Git or disable checkpointing to continue.''"

definition CheckpointInitFailed :: "thrown \<Rightarrow> thrown" where
  "CheckpointInitFailed cause =
     Error (''Failed to initialize checkpointing: ''
        @ (if instanceof_Error cause then message_of cause else ''Unknown error'')
        @ ''. Please check that Git is working properly or disable checkpointing.'')"

definition CheckpointFailed :: "thrown \<Rightarrow> thrown" where
  "CheckpointFailed cause =
     Error (''Failed to create checkpoint snapshot: ''
        @ (if instanceof_Error cause then message_of cause else ''Unknown error'')
        @ ''. Checkpointing may not be working properly.'')"

text \<open>The history directory of the example project.\<close>

definition repoDir0 :: string where
  "repoDir0 = ''/home/pony/.gemini/history/70467eff2e0a236497f0693901c782c674520c598f57e72b22e636e00311bd81''"

definition world1 :: "toy_git world" where
  "world1 =
     with_file (repoDir0 @ ''/.gitignore'') ''node_modules\<newline>''
       ((with_file (repoDir0 @ ''/.gitconfig'') gitConfigContent (with_dir repoDir0 world0))
          \<lparr>git := [repoDir0 @ ''/.git'' \<mapsto> [(''c'', ''Initial commit'')]]\<rparr>)"

definition trace1 :: "event list" where
  "trace1 =
     [Exec ''git --version'' None,
      FsMkdir repoDir0 None,
      FsWriteFile (repoDir0 @ ''/.gitconfig'') gitConfigContent None,
      Git (simpleGit repoDir0) (CheckIsRepo IS_REPO_ROOT) (Inr (GBool False)),
      Git (simpleGit repoDir0) (Init False [(''--initial-branch'', Some ''main'')]) (Inr GDone),
      Git (simpleGit repoDir0) (Commit ''Initial commit'' [(''--allow-empty'', None)]) (Inr (GText ''c'')),
      FsReadFile ''/work/app/.gitignore'' (Inr ''node_modules\<newline>''),
      FsWriteFile (repoDir0 @ ''/.gitignore'') ''node_modules\<newline>'' None]"

definition state1 :: "toy_git state" where
  "state1 = \<lparr>world = world1, trace = trace1\<rparr>"

definition is_read :: "event \<Rightarrow> bool" where
  "is_read ev = (case ev of FsReadFile p rd \<Rightarrow> True | _ \<Rightarrow> False)"

definition sync_outcome ::
  "(thrown \<Rightarrow> thrown) \<Rightarrow> string \<Rightarrow> thrown + unit \<Rightarrow> 'g state \<Rightarrow> string \<Rightarrow> thrown + string \<Rightarrow> 'g world \<Rightarrow> bool" where
  "sync_outcome wrap ign r s' p rd w =
     ((\<exists>e. rd = Inl e \<and> code_of e \<noteq> ''ENOENT'' \<and> r = Inl (wrap e) \<and>
           world s' = w \<and> last (trace s') = FsReadFile p rd)
      \<or> ((\<forall>e. rd = Inl e \<longrightarrow> code_of e = ''ENOENT'') \<and>
          (\<exists>wr. last (trace s') = FsWriteFile ign (content_read rd) wr \<and>
                (case wr of
                   None \<Rightarrow> r = Inr () \<and> world s' = with_file ign (content_read rd) w
                 | Some e \<Rightarrow> r = Inl (wrap e) \<and> world s' = w))))"

definition no_such_ref :: thrown where
  "no_such_ref = GitError ''fatal: could not resolve deadbeef''"

text \<open>
  The example store after \<^verbatim>\<open>git init\<close> and before any commit, which is where a
  bootstrap that failed in its commit leaves it; the trace of such a run; and the state
  after a later \<open>initialize\<close> on that store.
\<close>

definition world_half :: "toy_git world" where
  "world_half =
     (with_file (repoDir0 @ ''/.gitconfig'') gitConfigContent (with_dir repoDir0 world0))
       \<lparr>git := [repoDir0 @ ''/.git'' \<mapsto> []]\<rparr>"

definition trace_half :: "event list" where
  "trace_half =
     [Exec ''git --version'' None,
      FsMkdir repoDir0 None,
      FsWriteFile (repoDir0 @ ''/.gitconfig'') gitConfigContent None,
      Git (simpleGit repoDir0) (CheckIsRepo IS_REPO_ROOT) (Inr (GBool False)),
      Git (simpleGit repoDir0) (Init False [(''--initial-branch'', Some ''main'')]) (Inr GDone),
      Git (simpleGit repoDir0) (Commit ''Initial commit'' [(''--allow-empty'', None)]) (Inl signing_fails)]"

definition state_half :: "toy_git state" where
  "state_half = \<lparr>world = world_half, trace = trace_half\<rparr>"

definition state_resumed :: "toy_git state" where
  "state_resumed =
     \<lparr>world = with_file (repoDir0 @ ''/.gitignore'') ''node_modules\<newline>'' world_half,
      trace = trace_half @
        [Exec ''git --version'' None,
         FsMkdir repoDir0 None,
         FsWriteFile (repoDir0 @ ''/.gitconfig'') gitConfigContent None,
         Git (simpleGit repoDir0) (CheckIsRepo IS_REPO_ROOT) (Inr (GBool True)),
         FsReadFile ''/work/app/.gitignore'' (Inr ''node_modules\<newline>''),
         FsWriteFile (repoDir0 @ ''/.gitignore'') ''node_modules\<newline>'' None]\<rparr>"
section \<open>A model of git with a working tree\<close>

text \<open>
  What a snapshot holds and what a restore does to the files is the engine's doing.
  To state it, the engine is also given as a model of git itself. Per metadata
  directory the model keeps the index and the commits made so far (reference, message
  and tree, oldest first); a tree lists paths with their contents. The working tree of
  a handle is its \<^verbatim>\<open>GIT_WORK_TREE\<close>, or its base directory. Two things are
  parameters: the matcher of ignore rules (does this rule text exclude this path,
  given relative to the working tree), and the list of paths the engine walks when it
  looks for files. The rules are the contents of \<^verbatim>\<open>.gitignore\<close> at the top of the
  working tree, which is where git looks; rule files in subdirectories, and a
  working tree that is the root directory, are left out.
\<close>

type_synonym tree = "(string \<times> string) list"

record repository =
  commits :: "(string \<times> string \<times> tree) list"
  staged :: tree

type_synonym git_store = "string \<rightharpoonup> repository"

definition work_tree_of :: "SimpleGit \<Rightarrow> string" where
  "work_tree_of g =
     (case envVars g of
        None \<Rightarrow> baseDir g
      | Some vars \<Rightarrow>
          (case map_of vars ''GIT_WORK_TREE'' of
             None \<Rightarrow> baseDir g
           | Some t \<Rightarrow> t))"

definition below :: "string \<Rightarrow> string \<Rightarrow> bool" where
  "below dir p = (dir \<in> set (ancestors p))"

definition ignore_rules :: "'g world \<Rightarrow> string \<Rightarrow> string" where
  "ignore_rules w dir = (case files w (dir @ ''/.gitignore'') of None \<Rightarrow> [] | Some rules \<Rightarrow> rules)"

definition ignored :: "(string \<Rightarrow> string \<Rightarrow> bool) \<Rightarrow> 'g world \<Rightarrow> string \<Rightarrow> string \<Rightarrow> bool" where
  "ignored matches w dir p = matches (ignore_rules w dir) (drop (Suc (length dir)) p)"

definition tracked :: "tree \<Rightarrow> string \<Rightarrow> bool" where
  "tracked t p = (map_of t p \<noteq> None)"

text \<open>
  \<^verbatim>\<open>git add .\<close> at the top of the working tree: the index becomes the files found
  below it, leaving out an ignored file unless it is tracked already.
\<close>

definition scan ::
  "(string \<Rightarrow> string \<Rightarrow> bool) \<Rightarrow> string list \<Rightarrow> 'g world \<Rightarrow> string \<Rightarrow> tree \<Rightarrow> tree" where
  "scan matches paths w dir idx =
     concat (map (\<lambda>p. case files w p of
                         None \<Rightarrow> []
                       | Some data \<Rightarrow>
                           if below dir p \<and> (tracked idx p \<or> \<not> ignored matches w dir p)
                           then [(p, data)] else [])
                 (remdups paths))"

definition head_tree :: "repository \<Rightarrow> tree" where
  "head_tree r = (if commits r = [] then [] else snd (snd (last (commits r))))"

definition find_commit :: "repository \<Rightarrow> string \<Rightarrow> tree option" where
  "find_commit r ref = map_of (map (\<lambda>(ref', message, t). (ref', t)) (commits r)) ref"

text \<open>
  \<^verbatim>\<open>git restore --source ref .\<close> writes the files of the tree into the working tree
  and removes a tracked file that the tree does not have; the index stays as it is.
\<close>

definition checkout :: "string \<Rightarrow> tree \<Rightarrow> tree \<Rightarrow> 'g world \<Rightarrow> 'g world" where
  "checkout dir t idx w =
     w\<lparr>files := (\<lambda>p. case map_of t p of
                       Some data \<Rightarrow> Some data
                     | None \<Rightarrow> if below dir p \<and> tracked idx p then None else files w p),
       dirs := dirs w \<union> \<Union> (set (map (\<lambda>(p, data). set (ancestors p)) t))\<rparr>"

text \<open>
  \<^verbatim>\<open>git clean -f -d\<close> removes the files below the working tree that are neither
  tracked nor ignored, and the directories in which nothing is left.
\<close>

definition swept_files ::
  "(string \<Rightarrow> string \<Rightarrow> bool) \<Rightarrow> string \<Rightarrow> tree \<Rightarrow> 'g world \<Rightarrow> string \<rightharpoonup> string" where
  "swept_files matches dir idx w =
     (\<lambda>p. if below dir p \<and> \<not> tracked idx p \<and> \<not> ignored matches w dir p then None else files w p)"

definition sweep ::
  "(string \<Rightarrow> string \<Rightarrow> bool) \<Rightarrow> string list \<Rightarrow> string \<Rightarrow> tree \<Rightarrow> 'g world \<Rightarrow> 'g world" where
  "sweep matches paths dir idx w =
     w\<lparr>files := swept_files matches dir idx w,
       dirs := Set.filter
                 (\<lambda>d. \<not> (below dir d \<and> \<not> ignored matches w dir d \<and>
                          list_all (\<lambda>p. \<not> below d p \<or> swept_files matches dir idx w p = None) paths))
                 (dirs w)\<rparr>"

definition git_checkIsRepo ::
  "SimpleGit \<Rightarrow> CheckRepoActions \<Rightarrow> git_store world \<Rightarrow> (thrown + bool) \<times> git_store world" where
  "git_checkIsRepo g action w = (Inr (git w (git_dir_of g) \<noteq> None), w)"

definition git_init ::
  "SimpleGit \<Rightarrow> bool \<Rightarrow> git_options \<Rightarrow> git_store world \<Rightarrow> (thrown + unit) \<times> git_store world" where
  "git_init g bare options w =
     (case git w (git_dir_of g) of
        None \<Rightarrow> (Inr (), w\<lparr>git := (git w)(git_dir_of g \<mapsto> \<lparr>commits = [], staged = []\<rparr>)\<rparr>)
      | Some r \<Rightarrow> (Inr (), w))"

text \<open>
  A commit records the index. With nothing to record (the index is the tree of the
  head) and no \<^verbatim>\<open>--allow-empty\<close>, git makes no commit and simple-git reports the
  empty string as \<^verbatim>\<open>commit\<close>.
\<close>

definition git_commit ::
  "SimpleGit \<Rightarrow> string \<Rightarrow> git_options \<Rightarrow> git_store world \<Rightarrow> (thrown + string) \<times> git_store world" where
  "git_commit g message options w =
     (case git w (git_dir_of g) of
        None \<Rightarrow> (Inl not_a_repository, w)
      | Some r \<Rightarrow>
          if staged r = head_tree r \<and> map_of options ''--allow-empty'' = None then (Inr [], w)
          else
            (let ref = ''c'' @ replicate (length (commits r)) CHR ''+''
             in (Inr ref, w\<lparr>git := (git w)(git_dir_of g \<mapsto>
                                 r\<lparr>commits := commits r @ [(ref, message, staged r)]\<rparr>)\<rparr>)))"

definition git_add ::
  "(string \<Rightarrow> string \<Rightarrow> bool) \<Rightarrow> string list \<Rightarrow>
   SimpleGit \<Rightarrow> string \<Rightarrow> git_store world \<Rightarrow> (thrown + unit) \<times> git_store world" where
  "git_add matches paths g pathspec w =
     (case git w (git_dir_of g) of
        None \<Rightarrow> (Inl not_a_repository, w)
      | Some r \<Rightarrow>
          if pathspec = ''.'' \<and> baseDir g = work_tree_of g then
            (Inr (), w\<lparr>git := (git w)(git_dir_of g \<mapsto>
                          r\<lparr>staged := scan matches paths w (work_tree_of g) (staged r)\<rparr>)\<rparr>)
          else (Inl (GitError ''git add: pathspec outside the model''), w))"

definition git_raw ::
  "SimpleGit \<Rightarrow> string list \<Rightarrow> git_store world \<Rightarrow> (thrown + string) \<times> git_store world" where
  "git_raw g args w =
     (case git w (git_dir_of g) of
        None \<Rightarrow> (Inl not_a_repository, w)
      | Some r \<Rightarrow>
          if args = [''rev-parse'', ''HEAD''] then
            (if commits r = [] then (Inl unknown_head, w)
             else (Inr (fst (last (commits r)) @ ''\<newline>''), w))
          else if length args = 4 \<and> take 2 args = [''restore'', ''--source''] \<and> args ! 3 = ''.''
                  \<and> baseDir g = work_tree_of g then
            (case find_commit r (args ! 2) of
               None \<Rightarrow> (Inl (GitError (''fatal: could not resolve '' @ args ! 2)), w)
             | Some t \<Rightarrow> (Inr [], checkout (work_tree_of g) t (staged r) w))
          else (Inl (GitError ''git: unknown command''), w))"

definition git_clean ::
  "(string \<Rightarrow> string \<Rightarrow> bool) \<Rightarrow> string list \<Rightarrow>
   SimpleGit \<Rightarrow> string \<Rightarrow> string list \<Rightarrow> git_store world \<Rightarrow> (thrown + unit) \<times> git_store world" where
  "git_clean matches paths g mode options w =
     (case git w (git_dir_of g) of
        None \<Rightarrow> (Inl not_a_repository, w)
      | Some r \<Rightarrow>
          if mode = ''f'' \<and> options = [''-d''] then
            (Inr (), sweep matches paths (work_tree_of g) (staged r) w)
          else (Inl (GitError ''git clean: mode outside the model''), w))"

definition git_model :: "(string \<Rightarrow> string \<Rightarrow> bool) \<Rightarrow> string list \<Rightarrow> git_store engine" where
  "git_model matches paths =
     \<lparr>checkIsRepo = git_checkIsRepo, init = git_init, commit = git_commit,
      add = git_add matches paths, raw = git_raw, clean = git_clean matches paths\<rparr>"

text \<open>
  A matcher for rule files that list plain names, one to a line: a path is excluded
  when one of its segments is a listed name.
\<close>

definition names_match :: "string \<Rightarrow> string \<Rightarrow> bool" where
  "names_match rules rel =
     list_ex (\<lambda>seg. seg \<noteq> [] \<and> seg \<in> set (split_on (CHR 0x0A) rules)) (split_on CHR ''/'' rel)"

text \<open>
  The example project with a source file and a dependency directory that its
  \<^verbatim>\<open>.gitignore\<close> excludes, and the paths the engine walks there.
\<close>

definition project0 :: "git_store world" where
  "project0 = \<lparr>exec_error = (\<lambda>command. None),
               dirs = {''/home'', ''/home/pony'', ''/work'', ''/work/app'', ''/work/app/node_modules''},
               files = [''/work/app/.gitignore'' \<mapsto> ''node_modules\<newline>'',
                        ''/work/app/a.txt'' \<mapsto> ''v1'',
                        ''/work/app/node_modules/x.js'' \<mapsto> ''lib''],
               fs_fault = (\<lambda>call. None),
               git = Map.empty\<rparr>"

definition walk0 :: "string list" where
  "walk0 = [''/work/app/.gitignore'', ''/work/app/a.txt'', ''/work/app/b.txt'',
            ''/work/app/node_modules/x.js'']"

definition git0 :: "git_store engine" where
  "git0 = git_model names_match walk0"

text \<open>
  The states of the example: before \<open>initialize\<close>, after it, and after a first snapshot.
\<close>

definition tree1 :: tree where
  "tree1 = [(''/work/app/.gitignore'', ''node_modules\<newline>''), (''/work/app/a.txt'', ''v1'')]"

definition started :: "git_store state" where
  "started = \<lparr>world = project0, trace = []\<rparr>"

definition project1 :: "git_store world" where
  "project1 =
     with_file (repoDir0 @ ''/.gitignore'') ''node_modules\<newline>''
       ((with_file (repoDir0 @ ''/.gitconfig'') gitConfigContent (with_dir repoDir0 project0))
          \<lparr>git := [repoDir0 @ ''/.git'' \<mapsto> \<lparr>commits = [(''c'', ''Initial commit'', [])], staged = []\<rparr>]\<rparr>)"

definition initialised :: "git_store state" where
  "initialised = \<lparr>world = project1, trace = trace1\<rparr>"

definition project2 :: "git_store world" where
  "project2 = project1\<lparr>git := [repoDir0 @ ''/.git'' \<mapsto>
       \<lparr>commits = [(''c'', ''Initial commit'', []), (''c+'', ''before refactor'', tree1)],
        staged = tree1\<rparr>]\<rparr>"

definition snapshotted :: "git_store state" where
  "snapshotted =
     \<lparr>world = project2,
      trace = trace1 @
        [Git (shadow_repo os0 service0) (Add ''.'') (Inr GDone),
         Git (shadow_repo os0 service0) (Commit ''before refactor'' []) (Inr (GText ''c+''))]\<rparr>"

text \<open>The user goes on working: a file changes, a file and a directory are new.\<close>

definition project3 :: "git_store world" where
  "project3 =
     with_file ''/work/app/b.txt'' ''new''
       (with_file ''/work/app/a.txt'' ''v2'' (with_dir ''/work/app/tmp'' project2))"

text \<open>After \<open>initialize\<close> the user empties the project's rule file; the copy in the history directory still lists the name.\<close>

definition project1_unignored :: "git_store world" where
  "project1_unignored = with_file ''/work/app/.gitignore'' [] project1"
section \<open>Paths: normalisation and joining\<close>

lemma split_on_not_Nil [simp]: "split_on c xs \<noteq> []"
  by (induction xs) (auto split: list.splits)

lemma split_on_append: "split_on c (xs @ c # ys) = split_on c xs @ split_on c ys"
proof (induction xs)
  case Nil
  show ?case by simp
next
  case (Cons x xs)
  show ?case
  proof (cases "x = c")
    case True
    with Cons show ?thesis by simp
  next
    case False
    obtain s ss where s: "split_on c xs = s # ss"
      by (cases "split_on c xs") auto
    with Cons False show ?thesis by simp
  qed
qed

lemma split_on_free: "c \<notin> set s \<Longrightarrow> split_on c s = [s]"
  by (induction s) auto

lemma join_with_snoc: "xs \<noteq> [] \<Longrightarrow> join_with sep (xs @ [s]) = join_with sep xs @ sep @ s"
  by (induction sep xs rule: join_with.induct) auto

lemma join_with_Cons: "xs \<noteq> [] \<Longrightarrow> join_with sep (s # xs) = s @ sep @ join_with sep xs"
  by (cases xs) auto

lemma split_join:
  "segs \<noteq> [] \<Longrightarrow> \<forall>s\<in>set segs. CHR ''/'' \<notin> set s \<Longrightarrow>
   split_on CHR ''/'' (join_with ''/'' segs) = segs"
proof (induction segs)
  case Nil
  then show ?case by simp
next
  case (Cons s segs)
  show ?case
  proof (cases segs)
    case Nil
    with Cons.prems show ?thesis by (simp add: split_on_free)
  next
    case (Cons t ts)
    with Cons.prems Cons.IH have "split_on CHR ''/'' (join_with ''/'' segs) = segs" by simp
    moreover have "join_with ''/'' (s # segs) = s @ CHR ''/'' # join_with ''/'' segs"
      using Cons by simp
    ultimately show ?thesis
      using Cons.prems by (simp add: split_on_append split_on_free del: join_with.simps)
  qed
qed

lemma normal_seg_slash_free: "normal_seg s \<Longrightarrow> CHR ''/'' \<notin> set s \<and> s \<noteq> []"
  by (simp add: normal_seg_def)

lemma dotdot_slash_free: "CHR ''/'' \<notin> set ''..'' \<and> ''..'' \<noteq> []"
  by simp

lemma good_stack_slash_free: "good_stack allow res \<Longrightarrow> s \<in> set res \<Longrightarrow> CHR ''/'' \<notin> set s \<and> s \<noteq> []"
proof (induction res)
  case Nil
  then show ?case by simp
next
  case (Cons x res)
  show ?case
  proof (cases "s = x")
    case True
    from Cons.prems(1) have "normal_seg x \<or> x = ''..''" by auto
    with True show ?thesis using normal_seg_slash_free dotdot_slash_free by blast
  next
    case False
    with Cons show ?thesis by auto
  qed
qed

lemma good_stack_step:
  "good_stack allow res \<Longrightarrow> CHR ''/'' \<notin> set seg \<Longrightarrow> good_stack allow (normalize_step allow res seg)"
proof (cases res)
  case Nil
  assume "CHR ''/'' \<notin> set seg"
  with Nil show ?thesis by (auto simp: normalize_step_def normal_seg_def)
next
  case (Cons x xs)
  assume g: "good_stack allow res" and f: "CHR ''/'' \<notin> set seg"
  with Cons show ?thesis
    by (auto simp: normalize_step_def normal_seg_def)
qed

lemma good_stack_foldl:
  "good_stack allow res \<Longrightarrow> \<forall>s\<in>set segs. CHR ''/'' \<notin> set s \<Longrightarrow>
   good_stack allow (foldl (normalize_step allow) res segs)"
  by (induction segs arbitrary: res) (auto simp: good_stack_step)

lemma split_on_slash_free: "s \<in> set (split_on c xs) \<Longrightarrow> c \<notin> set s"
proof (induction xs arbitrary: s)
  case Nil
  then show ?case by simp
next
  case (Cons x xs)
  then show ?case
    by (cases "split_on c xs") (auto split: if_splits)
qed

lemma good_norm_stack: "good_stack allow (norm_stack allow path)"
  unfolding norm_stack_def
  by (rule good_stack_foldl) (auto dest: split_on_slash_free)

lemma good_stack_append: "good_stack allow (xs @ ys) \<Longrightarrow> good_stack allow ys"
  by (induction xs) auto

lemma foldl_good:
  "good_stack allow (rev xs @ res) \<Longrightarrow> foldl (normalize_step allow) res xs = rev xs @ res"
proof (induction xs arbitrary: res)
  case Nil
  show ?case by simp
next
  case (Cons x xs)
  from Cons.prems have g: "good_stack allow (rev xs @ (x # res))" by simp
  then have "good_stack allow (x # res)" by (rule good_stack_append)
  then have "normalize_step allow res x = x # res"
    by (cases res) (auto simp: normalize_step_def normal_seg_def)
  with Cons.IH [OF g] show ?case by simp
qed


lemma normalize_step_normal: "normal_seg seg \<Longrightarrow> normalize_step allow res seg = seg # res"
  by (simp add: normalize_step_def normal_seg_def)

lemma normalize_step_empty: "normalize_step allow res [] = res"
  by (simp add: normalize_step_def)

lemma split_on_snoc_seg:
  "normal_seg seg \<Longrightarrow> split_on CHR ''/'' (J @ CHR ''/'' # seg) = split_on CHR ''/'' J @ [seg]"
  by (simp add: split_on_append split_on_free normal_seg_slash_free)

lemma norm_stack_snoc:
  "normal_seg seg \<Longrightarrow> norm_stack allow (J @ CHR ''/'' # seg) = seg # norm_stack allow J"
  by (simp add: norm_stack_def split_on_snoc_seg normalize_step_normal)

lemma join_with_not_Nil: "xs \<noteq> [] \<Longrightarrow> last xs \<noteq> [] \<Longrightarrow> join_with sep xs \<noteq> []"
  by (induction sep xs rule: join_with.induct) auto

lemma last_join_with: "xs \<noteq> [] \<Longrightarrow> last xs \<noteq> [] \<Longrightarrow> last (join_with sep xs) = last (last xs)"
  by (induction sep xs rule: join_with.induct) (auto simp: join_with_not_Nil)

lemma hd_join_with: "xs \<noteq> [] \<Longrightarrow> hd xs \<noteq> [] \<Longrightarrow> hd (join_with sep xs) = hd (hd xs)"
  by (induction sep xs rule: join_with.induct) auto

lemma normal_seg_last: "normal_seg seg \<Longrightarrow> last seg \<noteq> CHR ''/''"
  by (metis last_in_set normal_seg_slash_free)

lemma normal_seg_hd: "normal_seg seg \<Longrightarrow> hd seg \<noteq> CHR ''/''"
  by (metis hd_in_set normal_seg_slash_free)

lemma path_normalize_snoc:
  assumes seg: "normal_seg seg"
  shows "path_normalize (J @ CHR ''/'' # seg) =
           (if J = [] \<or> hd J = CHR ''/'' then ''/'' else [])
           @ join_with ''/'' (rev (norm_stack (\<not> (J = [] \<or> hd J = CHR ''/'')) J) @ [seg])"
proof -
  let ?P = "J @ CHR ''/'' # seg"
  let ?abs = "J = [] \<or> hd J = CHR ''/''"
  have ne: "?P \<noteq> []" by simp
  have hd: "(hd ?P = CHR ''/'') = ?abs" by (cases J) auto
  have "seg \<noteq> []" using seg by (simp add: normal_seg_def)
  then have last: "last ?P \<noteq> CHR ''/''" using normal_seg_last [OF seg] by simp
  have ns: "normalizeString ?P (\<not> ?abs) = join_with ''/'' (rev (norm_stack (\<not> ?abs) J) @ [seg])"
    using norm_stack_snoc [OF seg, of "\<not> ?abs" J]
    by (simp add: normalizeString_def norm_stack_def)
  have "join_with ''/'' (rev (norm_stack (\<not> ?abs) J) @ [seg]) \<noteq> []"
    using \<open>seg \<noteq> []\<close> by (simp add: join_with_not_Nil)
  with ne hd last ns show ?thesis
    by (simp add: path_normalize_def Let_def del: append_assoc)
qed

lemma path_normalize_single:
  assumes seg: "normal_seg seg"
  shows "path_normalize seg = seg"
proof -
  have ne: "seg \<noteq> []" using seg by (simp add: normal_seg_def)
  have "normalizeString seg (hd seg \<noteq> CHR ''/'') = seg"
    using seg by (simp add: normalizeString_def split_on_free normal_seg_slash_free normalize_step_normal)
  with ne normal_seg_hd [OF seg] normal_seg_last [OF seg] show ?thesis
    by (simp add: path_normalize_def Let_def)
qed

lemma path_join_pair:
  "seg \<noteq> [] \<Longrightarrow> path_join [a, seg] = path_normalize (if a = [] then seg else a @ CHR ''/'' # seg)"
  by (simp add: path_join_def Let_def)

lemma seg_path_single: "normal_seg seg \<Longrightarrow> seg_path True [seg] seg"
  by (simp add: seg_path_def)

lemma seg_path_snoc_norm:
  assumes seg: "normal_seg seg"
  shows "seg_path (\<not> (J = [] \<or> hd J = CHR ''/'')) (rev (norm_stack (\<not> (J = [] \<or> hd J = CHR ''/'')) J) @ [seg])
           (path_normalize (J @ CHR ''/'' # seg))"
  using seg good_norm_stack [of "\<not> (J = [] \<or> hd J = CHR ''/'')" J]
  by (simp add: seg_path_def path_normalize_snoc [OF seg])

lemma segment_path_join:
  assumes seg: "normal_seg seg"
  shows "segment_path (path_join [a, seg])"
proof -
  have ne: "seg \<noteq> []" using seg by (simp add: normal_seg_def)
  show ?thesis
  proof (cases "a = []")
    case True
    with seg ne show ?thesis
      unfolding segment_path_def
      by (auto simp: path_join_pair path_normalize_single intro: seg_path_single)
  next
    case False
    with ne have "path_join [a, seg] = path_normalize (a @ CHR ''/'' # seg)"
      by (simp add: path_join_pair)
    with seg_path_snoc_norm [OF seg, of a] show ?thesis
      unfolding segment_path_def by auto
  qed
qed

lemma seg_path_facts:
  assumes sp: "seg_path allow M G"
  shows "G \<noteq> []" and "(hd G = CHR ''/'') = (\<not> allow)" and "norm_stack allow G = rev M"
    and "last G \<noteq> CHR ''/''"
proof -
  from sp have M: "M \<noteq> []" and good: "good_stack allow (rev M)" and lastM: "normal_seg (last M)"
    and G: "G = (if allow then [] else ''/'') @ join_with ''/'' M"
    by (simp_all add: seg_path_def)
  have free: "\<forall>s\<in>set M. CHR ''/'' \<notin> set s \<and> s \<noteq> []"
    using good_stack_slash_free [OF good] by simp
  from M obtain m ms where Mc: "M = m # ms" by (cases M) auto
  with free have m: "m \<noteq> []" "CHR ''/'' \<notin> set m" by auto
  have jne: "join_with ''/'' M \<noteq> []"
    using M lastM by (simp add: join_with_not_Nil normal_seg_slash_free)
  show "G \<noteq> []" using G jne by simp
  have hdj: "hd (join_with ''/'' M) = hd m"
    using Mc m by (simp add: hd_join_with)
  have "hd m \<noteq> CHR ''/''" using m by (metis hd_in_set)
  with hdj show "(hd G = CHR ''/'') = (\<not> allow)"
    using G jne by simp
  have sj: "split_on CHR ''/'' (join_with ''/'' M) = M"
    using M free by (simp add: split_join)
  have fold: "foldl (normalize_step allow) [] M = rev M"
    using foldl_good [of allow M "[]"] good by simp
  show "norm_stack allow G = rev M"
  proof (cases allow)
    case True
    with G sj fold show ?thesis by (simp add: norm_stack_def)
  next
    case False
    with G have "split_on CHR ''/'' G = [] # M"
      using sj by simp
    with fold show ?thesis by (simp add: norm_stack_def normalize_step_empty)
  qed
  have "last (join_with ''/'' M) = last (last M)"
    using M lastM by (simp add: last_join_with normal_seg_slash_free)
  then show "last G \<noteq> CHR ''/''"
    using G jne normal_seg_last [OF lastM] by simp
qed

lemma seg_path_join:
  assumes sp: "seg_path allow M G" and seg: "normal_seg seg"
  shows "path_join [G, seg] = G @ CHR ''/'' # seg" and "seg_path allow (M @ [seg]) (G @ CHR ''/'' # seg)"
proof -
  note f = seg_path_facts [OF sp]
  from sp have M: "M \<noteq> []" and good: "good_stack allow (rev M)"
    and G: "G = (if allow then [] else ''/'') @ join_with ''/'' M"
    by (simp_all add: seg_path_def)
  have ne: "seg \<noteq> []" using seg by (simp add: normal_seg_def)
  have "path_join [G, seg] = path_normalize (G @ CHR ''/'' # seg)"
    using f(1) ne by (simp add: path_join_pair)
  also have "\<dots> = (if allow then [] else ''/'') @ join_with ''/'' (M @ [seg])"
    using f by (cases allow) (simp_all add: path_normalize_snoc [OF seg])
  also have "\<dots> = G @ CHR ''/'' # seg"
    using G M by (simp add: join_with_snoc)
  finally show "path_join [G, seg] = G @ CHR ''/'' # seg" .
  show "seg_path allow (M @ [seg]) (G @ CHR ''/'' # seg)"
    using G M good seg by (simp add: seg_path_def join_with_snoc)
qed

lemma segment_path_join_eq:
  "segment_path G \<Longrightarrow> normal_seg seg \<Longrightarrow> path_join [G, seg] = G @ CHR ''/'' # seg"
  unfolding segment_path_def using seg_path_join(1) by blast

lemma segment_path_snoc:
  "segment_path G \<Longrightarrow> normal_seg seg \<Longrightarrow> segment_path (G @ CHR ''/'' # seg)"
  unfolding segment_path_def using seg_path_join(2) by blast

lemma segment_path_not_Nil: "segment_path G \<Longrightarrow> G \<noteq> []"
  unfolding segment_path_def using seg_path_facts(1) by blast

section \<open>The digest and the directories of a project\<close>

lemma length_round256: "length s = 8 \<Longrightarrow> length (round256 s kw) = 8"
proof -
  assume "length s = 8"
  then obtain a b c d e f g h where "s = [a, b, c, d, e, f, g, h]"
    by (auto simp: length_Suc_conv eval_nat_numeral)
  then show ?thesis by (simp add: round256_def Let_def)
qed

lemma length_foldl_round256: "length s = 8 \<Longrightarrow> length (foldl round256 s kws) = 8"
  by (induction kws arbitrary: s) (simp_all add: length_round256)

lemma length_compress: "length hs = 8 \<Longrightarrow> length (compress hs block) = 8"
  by (simp add: compress_def Let_def length_foldl_round256)

lemma length_foldl_compress: "length hs = 8 \<Longrightarrow> length (foldl compress hs blocks) = 8"
  by (induction blocks arbitrary: hs) (simp_all add: length_compress)

lemma length_sha256: "length (sha256 bs) = 8"
  by (simp add: sha256_def length_foldl_compress H256_def)

lemma hex_digit_in: "hex_digit n \<in> set ''0123456789abcdef''"
  unfolding hex_digit_def by (rule nth_mem) simp

lemma length_hex_word: "length (hex_word w) = 8"
  by (simp add: hex_word_def)

lemma set_map_subset: "(\<And>x. f x \<in> S) \<Longrightarrow> set (map f xs) \<subseteq> S"
  by (induction xs) simp_all

lemma set_concat_subset: "(\<And>x. set (f x) \<subseteq> S) \<Longrightarrow> set (concat (map f xs)) \<subseteq> S"
  by (induction xs) simp_all

lemma set_hex_word: "set (hex_word w) \<subseteq> set ''0123456789abcdef''"
  unfolding hex_word_def by (rule set_map_subset) (rule hex_digit_in)

lemma length_concat_hex: "length (concat (map hex_word ws)) = 8 * length ws"
  by (induction ws) (simp_all add: length_hex_word)

lemma length_sha256_hex: "length (sha256_hex s) = 64"
  by (simp add: sha256_hex_def length_concat_hex length_sha256)

lemma set_sha256_hex: "set (sha256_hex s) \<subseteq> set ''0123456789abcdef''"
  unfolding sha256_hex_def by (rule set_concat_subset) (rule set_hex_word)

lemma slash_not_hex: "CHR ''/'' \<notin> set ''0123456789abcdef''"
  by simp

lemma normal_seg_sha256_hex: "normal_seg (sha256_hex s)"
proof -
  have "CHR ''/'' \<notin> set (sha256_hex s)"
    using set_sha256_hex [of s] slash_not_hex by blast
  moreover have "sha256_hex s \<noteq> []" "sha256_hex s \<noteq> ''.''" "sha256_hex s \<noteq> ''..''"
    using length_sha256_hex [of s] by auto
  ultimately show ?thesis by (simp add: normal_seg_def)
qed

lemma normal_seg_names:
  "normal_seg ''.gemini''" "normal_seg ''history''" "normal_seg ''tmp''"
  "normal_seg ''.gitconfig''" "normal_seg ''.gitignore''" "normal_seg ''.git''"
  by (simp_all add: normal_seg_def)

lemma segment_path_global: "segment_path (getGlobalGeminiDir os)"
  by (simp add: getGlobalGeminiDir_def GEMINI_DIR_def Let_def segment_path_join normal_seg_names)

lemma getHistoryDir_eq:
  "getHistoryDir os this = getGlobalGeminiDir os @ ''/history/'' @ sha256_hex (targetDir this)"
proof -
  have h: "path_join [getGlobalGeminiDir os, ''history''] = getGlobalGeminiDir os @ ''/history''"
    using segment_path_join_eq [OF segment_path_global normal_seg_names(2)] by simp
  have "segment_path (path_join [getGlobalGeminiDir os, ''history''])"
    by (rule segment_path_join) (rule normal_seg_names)
  from segment_path_join_eq [OF this normal_seg_sha256_hex]
  show ?thesis
    by (simp add: getHistoryDir_def getFilePathHash_def getProjectRoot_def Let_def h)
qed

lemma getProjectTempDir_eq:
  "getProjectTempDir os this = getGlobalGeminiDir os @ ''/tmp/'' @ sha256_hex (targetDir this)"
proof -
  have h: "path_join [getGlobalGeminiDir os, ''tmp''] = getGlobalGeminiDir os @ ''/tmp''"
    using segment_path_join_eq [OF segment_path_global normal_seg_names(3)] by simp
  have "segment_path (path_join [getGlobalGeminiDir os, ''tmp''])"
    by (rule segment_path_join) (rule normal_seg_names)
  from segment_path_join_eq [OF this normal_seg_sha256_hex]
  show ?thesis
    by (simp add: getProjectTempDir_def getGlobalTempDir_def TMP_DIR_NAME_def getFilePathHash_def getProjectRoot_def Let_def h)
qed

lemma segment_path_history: "segment_path (getHistoryDir os this)"
  unfolding getHistoryDir_def Let_def
  by (rule segment_path_join) (simp add: getFilePathHash_def normal_seg_sha256_hex)

lemma sha256_hex_work_app:
  "sha256_hex ''/work/app'' = ''70467eff2e0a236497f0693901c782c674520c598f57e72b22e636e00311bd81''"
  by code_simp

lemma sha256_hex_app:
  "sha256_hex ''app'' = ''a172cedcae47474b615c54d510a5d84a8dea3032e958587430b413538be3f333''"
  by code_simp

lemma global_dir0: "getGlobalGeminiDir os0 = ''/home/pony/.gemini''"
  by (simp add: getGlobalGeminiDir_def os0_def GEMINI_DIR_def Let_def path_join_def path_normalize_def
      normalizeString_def normalize_step_def)

lemma resolve0: "path_resolve (cwd os0) [''app''] = ''/work/app''"
  "path_resolve (cwd os0) [''/work/app''] = ''/work/app''"
  by (simp_all add: path_resolve_def os0_def normalizeString_def normalize_step_def)

text \<open>
  Claim C2. The history directory of a project is
  \<^verbatim>\<open>globalRoot()/history/fingerprint\<close> and its temporary directory is
  \<^verbatim>\<open>globalRoot()/tmp/fingerprint\<close>, as strings; the fingerprint is the SHA-256 digest
  of the project path string in hexadecimal, 64 characters long. Both are functions
  of the process environment and the root alone: they take no state and leave none,
  so computing them creates no directory (that is \<open>fs_mkdir\<close> in
  \<open>setupShadowGitRepository\<close>).
\<close>

theorem history_and_temp_dir_layout:
  "getHistoryDir os this = getGlobalGeminiDir os @ ''/history/'' @ getFilePathHash (getProjectRoot this) \<and>
   getProjectTempDir os this = getGlobalGeminiDir os @ ''/tmp/'' @ getFilePathHash (getProjectRoot this) \<and>
   getFilePathHash (getProjectRoot this) = sha256_hex (targetDir this) \<and>
   length (getFilePathHash (getProjectRoot this)) = 64 \<and>
   set (getFilePathHash (getProjectRoot this)) \<subseteq> set ''0123456789abcdef''"
  using set_sha256_hex [of "targetDir this"]
  by (simp add: getHistoryDir_eq getProjectTempDir_eq getFilePathHash_def getProjectRoot_def
      length_sha256_hex del: set_simps)

theorem history_and_temp_dir_layout_witness:
  "getHistoryDir os0 storage0 =
     ''/home/pony/.gemini/history/70467eff2e0a236497f0693901c782c674520c598f57e72b22e636e00311bd81'' \<and>
   getProjectTempDir os0 storage0 =
     ''/home/pony/.gemini/tmp/70467eff2e0a236497f0693901c782c674520c598f57e72b22e636e00311bd81''"
  using history_and_temp_dir_layout [of os0 storage0]
  by (simp add: global_dir0 storage0_def Storage_new_def sha256_hex_work_app)

text \<open>
  Claim C1, as stated, fails. \<open>Storage\<close> hashes the project root exactly as it was
  given: with the working directory \<^verbatim>\<open>/work\<close>, the roots \<^verbatim>\<open>app\<close> and
  \<^verbatim>\<open>/work/app\<close> name the same directory (they resolve to the same absolute path), yet
  they get different fingerprints and so different history directories.
\<close>

theorem relative_root_changes_fingerprint:
  "path_resolve (cwd os0) [''app''] = path_resolve (cwd os0) [''/work/app''] \<and>
   getHistoryDir os0 (Storage_new ''app'') \<noteq> getHistoryDir os0 (Storage_new ''/work/app'')"
  by (simp add: resolve0 getHistoryDir_eq Storage_new_def sha256_hex_work_app sha256_hex_app)

text \<open>
  Claim C1, amended. The fingerprint is the SHA-256 digest of the root string as it
  was passed to \<open>Storage\<close>, with no canonicalisation; \<open>GitService\<close> takes its history
  directory from the \<open>Storage\<close> it was given, whatever root it was constructed with,
  and only makes its own copy of the root absolute with \<^verbatim>\<open>path.resolve\<close> (which
  does not resolve symbolic links). So one root string always gives one fingerprint
  and one history directory.
\<close>

theorem fingerprint_of_root_as_given:
  "getHistoryDir os (Storage_new root) = getGlobalGeminiDir os @ ''/history/'' @ sha256_hex root \<and>
   GitService_getHistoryDir os (GitService_new os root' st) = getHistoryDir os st \<and>
   projectRoot (GitService_new os root' st) = path_resolve (cwd os) [root']"
  by (simp add: getHistoryDir_eq Storage_new_def GitService_getHistoryDir_def GitService_new_def)

theorem fingerprint_of_root_as_given_witness:
  "getHistoryDir os0 (Storage_new ''app'') =
     ''/home/pony/.gemini/history/a172cedcae47474b615c54d510a5d84a8dea3032e958587430b413538be3f333'' \<and>
   GitService_getHistoryDir os0 (GitService_new os0 ''app'' storage0) = getHistoryDir os0 storage0 \<and>
   projectRoot (GitService_new os0 ''app'' storage0) = ''/work/app''"
  using fingerprint_of_root_as_given [of os0 "''app''" "''app''" storage0]
  by (simp add: global_dir0 sha256_hex_app resolve0)

section \<open>The availability probe\<close>

lemma verifyGitAvailability_eq:
  "verifyGitAvailability s =
     (Inr (exec_error (world s) ''git --version'' = None),
      emit (Exec ''git --version'' (exec_error (world s) ''git --version'')) s)"
  by (simp add: verifyGitAvailability_def exec_def resolved_def Let_def)

text \<open>
  Claim C3. The availability probe always resolves to a boolean, whatever
  \<^verbatim>\<open>git --version\<close> does. When the probe is negative, \<open>initialize\<close> rejects with the
  error that tells the user to install git or to disable checkpointing, and has done
  nothing but the probe: the world is the one it started in (no history directory was
  created) and the only call logged is the probe.
\<close>

theorem probe_resolves_and_initialize_stops:
  "(\<exists>available. fst (verifyGitAvailability s) = Inr available) \<and>
   (exec_error (world s) ''git --version'' \<noteq> None \<longrightarrow>
      (\<exists>s'. initialize eng os this s =
          (Inl (Error ''Checkpointing is enabled, but Git is not installed. Please install Git or disable checkpointing to continue.''), s')
        \<and> world s' = world s
        \<and> events_since s s' = [Exec ''git --version'' (exec_error (world s) ''git --version'')]))"
  by (simp add: verifyGitAvailability_eq initialize_def await_def throw_def emit_def events_since_def)

theorem probe_resolves_and_initialize_stops_witness:
  "exec_error (world state_without_git) ''git --version'' \<noteq> None \<and>
   fst (initialize toy_engine os0 service0 state_without_git) =
     Inl (Error ''Checkpointing is enabled, but Git is not installed. Please install Git or disable checkpointing to continue.'') \<and>
   dirs (world (snd (initialize toy_engine os0 service0 state_without_git))) = dirs world0 \<and>
   trace (snd (initialize toy_engine os0 service0 state_without_git)) = [Exec ''git --version'' (Some command_not_found)]"
proof -
  have h: "exec_error (world state_without_git) ''git --version'' \<noteq> None"
    by (simp add: state_without_git_def)
  from probe_resolves_and_initialize_stops [of state_without_git toy_engine os0 service0] h
  obtain s' where
    "initialize toy_engine os0 service0 state_without_git =
       (Inl (Error ''Checkpointing is enabled, but Git is not installed. Please install Git or disable checkpointing to continue.''), s')"
    "world s' = world state_without_git"
    "events_since state_without_git s' = [Exec ''git --version'' (exec_error (world state_without_git) ''git --version'')]"
    by blast
  then show ?thesis
    using h by (simp add: state_without_git_def events_since_def)
qed

section \<open>Runs of the program, stage by stage\<close>

lemma await_assoc: "await (await m f) g = await m (\<lambda>x. await (f x) g)"
  by (rule ext) (simp add: await_def split: prod.splits sum.splits)

lemma await_resolved: "await (resolved x) f = f x"
  by (rule ext) (simp add: await_def resolved_def)

lemma awaitE [consumes 1, case_names rejected resolved]:
  assumes "await m f s = (r, s')"
  obtains e where "m s = (Inl e, s')" "r = Inl e"
  | x s1 where "m s = (Inr x, s1)" "f x s1 = (r, s')"
  using assms by (auto simp: await_def split: prod.splits sum.splits)

lemma fs_mkdir_eq:
  "fs_mkdir p s =
     (case mkdir_error (world s) p of
        Some e \<Rightarrow> (Inl e, s\<lparr>trace := trace s @ [FsMkdir p (Some e)]\<rparr>)
      | None \<Rightarrow> (Inr (), s\<lparr>world := with_dir p (world s), trace := trace s @ [FsMkdir p None]\<rparr>))"
  by (simp add: fs_mkdir_def emit_def Let_def with_dir_def split: option.splits)

lemma fs_writeFile_eq:
  "fs_writeFile p data s =
     (case writeFile_error (world s) p of
        Some e \<Rightarrow> (Inl e, s\<lparr>trace := trace s @ [FsWriteFile p data (Some e)]\<rparr>)
      | None \<Rightarrow> (Inr (), s\<lparr>world := with_file p data (world s),
                           trace := trace s @ [FsWriteFile p data None]\<rparr>))"
  by (simp add: fs_writeFile_def emit_def Let_def with_file_def split: option.splits)

lemma fs_readFile_eq:
  "fs_readFile p s =
     (readFile_result (world s) p, s\<lparr>trace := trace s @ [FsReadFile p (readFile_result (world s) p)]\<rparr>)"
  by (simp add: fs_readFile_def emit_def Let_def)

lemma simpleGit_call_eq:
  "folder_exists (world s) dir \<Longrightarrow> simpleGit_call dir s = (Inr (simpleGit dir), s)"
  "\<not> folder_exists (world s) dir \<Longrightarrow> simpleGit_call dir s = (Inl cannot_use_directory, s)"
  by (simp_all add: simpleGit_call_def)

lemma shadowGitRepository_eq:
  "folder_exists (world s) (projectRoot this) \<Longrightarrow>
   shadowGitRepository os this s = (Inr (shadow_repo os this), s)"
  "\<not> folder_exists (world s) (projectRoot this) \<Longrightarrow>
   shadowGitRepository os this s = (Inl cannot_use_directory, s)"
  by (simp_all add: shadowGitRepository_def Let_def await_def simpleGit_call_eq resolved_def
      shadow_repo_def with_env_def simpleGit_def)

text \<open>
  In \<open>setupShadowGitRepository\<close> the directory handed to \<^verbatim>\<open>simpleGit\<close> has just been
  made, so the call cannot throw there.
\<close>

lemma write_config_makes_dir:
  assumes "write_config os this s = (Inr x, s1)"
  shows "folder_exists (world s1) (GitService_getHistoryDir os this)"
proof -
  let ?D = "GitService_getHistoryDir os this"
  from assms obtain u s0 where mk: "fs_mkdir ?D s = (Inr u, s0)"
    and wr: "fs_writeFile (path_join [?D, ''.gitconfig'']) gitConfigContent s0 = (Inr x, s1)"
    unfolding write_config_def by (auto simp: await_def split: prod.splits sum.splits)
  from mk have "?D \<in> dirs (world s0)"
    by (auto simp: fs_mkdir_eq with_dir_def split: option.splits)
  moreover from wr have "dirs (world s1) = dirs (world s0)"
    by (auto simp: fs_writeFile_eq with_file_def split: option.splits)
  ultimately show ?thesis by (simp add: folder_exists_def)
qed

lemma setup_split:
  "setupShadowGitRepository eng os this =
     await (write_config os this) (\<lambda>_.
     await (bootstrap eng (simpleGit (GitService_getHistoryDir os this))) (\<lambda>_.
     sync_ignore os this))"
proof (rule ext)
  fix s :: "'a state"
  let ?D = "GitService_getHistoryDir os this"
  have eq: "setupShadowGitRepository eng os this =
     await (write_config os this) (\<lambda>_.
     await (simpleGit_call ?D) (\<lambda>repo.
     await (bootstrap eng repo) (\<lambda>_.
     sync_ignore os this)))"
    by (simp add: setupShadowGitRepository_def write_config_def bootstrap_def sync_ignore_def Let_def
        await_assoc)
  obtain r s1 where w: "write_config os this s = (r, s1)" by (cases "write_config os this s")
  show "setupShadowGitRepository eng os this s =
     await (write_config os this) (\<lambda>_.
     await (bootstrap eng (simpleGit ?D)) (\<lambda>_. sync_ignore os this)) s"
  proof (cases r)
    case (Inl e)
    with w show ?thesis by (simp add: eq await_def)
  next
    case (Inr x)
    with w write_config_makes_dir [of os this s x s1]
    have "simpleGit_call ?D s1 = (Inr (simpleGit ?D), s1)" by (simp add: simpleGit_call_eq)
    with w Inr show ?thesis by (simp add: eq await_def)
  qed
qed

lemma run_task_eq:
  "f (world s) = (r, w') \<Longrightarrow>
   run_task g task log f s = (r, s\<lparr>world := w', trace := trace s @ [Git g task (map_sum id log r)]\<rparr>)"
  by (simp add: run_task_def emit_def)

lemma write_config_cases [consumes 1, case_names mkdir_failed config_failed written]:
  assumes run: "write_config os this s = (r, s')"
  obtains e where "mkdir_error (world s) (GitService_getHistoryDir os this) = Some e"
      "r = Inl e" "world s' = world s"
      "trace s' = trace s @ [FsMkdir (GitService_getHistoryDir os this) (Some e)]"
  | e where "mkdir_error (world s) (GitService_getHistoryDir os this) = None"
      "writeFile_error (with_dir (GitService_getHistoryDir os this) (world s))
         (path_join [GitService_getHistoryDir os this, ''.gitconfig'']) = Some e"
      "r = Inl e" "world s' = with_dir (GitService_getHistoryDir os this) (world s)"
      "trace s' = trace s @ [FsMkdir (GitService_getHistoryDir os this) None,
         FsWriteFile (path_join [GitService_getHistoryDir os this, ''.gitconfig'']) gitConfigContent (Some e)]"
  | "mkdir_error (world s) (GitService_getHistoryDir os this) = None"
      "writeFile_error (with_dir (GitService_getHistoryDir os this) (world s))
         (path_join [GitService_getHistoryDir os this, ''.gitconfig'']) = None"
      "r = Inr ()"
      "world s' = with_file (path_join [GitService_getHistoryDir os this, ''.gitconfig'']) gitConfigContent
         (with_dir (GitService_getHistoryDir os this) (world s))"
      "trace s' = trace s @ [FsMkdir (GitService_getHistoryDir os this) None,
         FsWriteFile (path_join [GitService_getHistoryDir os this, ''.gitconfig'']) gitConfigContent None]"
  using run unfolding write_config_def
proof (cases rule: awaitE)
  case (rejected e)
  then show ?thesis
    using that(1) by (auto simp: fs_mkdir_eq split: option.splits)
next
  case (resolved x s1)
  from resolved(1) have mk: "mkdir_error (world s) (GitService_getHistoryDir os this) = None"
    and s1: "s1 = s\<lparr>world := with_dir (GitService_getHistoryDir os this) (world s),
                    trace := trace s @ [FsMkdir (GitService_getHistoryDir os this) None]\<rparr>"
    by (auto simp: fs_mkdir_eq split: option.splits)
  show ?thesis
  proof (cases "writeFile_error (with_dir (GitService_getHistoryDir os this) (world s))
         (path_join [GitService_getHistoryDir os this, ''.gitconfig''])")
    case None
    with resolved(2) s1 mk show ?thesis
      using that(3) by (auto simp: fs_writeFile_eq)
  next
    case (Some e)
    with resolved(2) s1 mk show ?thesis
      using that(2) by (auto simp: fs_writeFile_eq)
  qed
qed


lemma run_taskE:
  assumes "run_task g task log f s = (r, s')"
  obtains w' where "f (world s) = (r, w')"
    "s' = s\<lparr>world := w', trace := trace s @ [Git g task (map_sum id log r)]\<rparr>"
  using assms by (auto simp: run_task_def emit_def split: prod.splits)

lemma bootstrap_cases [consumes 1, case_names check_failed existing init_failed commit_failed created]:
  assumes run: "bootstrap eng repo s = (r, s')"
  obtains e w3 where "checkIsRepo eng repo IS_REPO_ROOT (world s) = (Inl e, w3)"
      "r = Inl e" "world s' = w3"
      "trace s' = trace s @ [Git repo (CheckIsRepo IS_REPO_ROOT) (Inl e)]"
  | w3 where "checkIsRepo eng repo IS_REPO_ROOT (world s) = (Inr True, w3)"
      "r = Inr ()" "world s' = w3"
      "trace s' = trace s @ [Git repo (CheckIsRepo IS_REPO_ROOT) (Inr (GBool True))]"
  | e w3 w4 where "checkIsRepo eng repo IS_REPO_ROOT (world s) = (Inr False, w3)"
      "init eng repo False [(''--initial-branch'', Some ''main'')] w3 = (Inl e, w4)"
      "r = Inl e" "world s' = w4"
      "trace s' = trace s @ [Git repo (CheckIsRepo IS_REPO_ROOT) (Inr (GBool False)),
         Git repo (Init False [(''--initial-branch'', Some ''main'')]) (Inl e)]"
  | e w3 w4 w5 where "checkIsRepo eng repo IS_REPO_ROOT (world s) = (Inr False, w3)"
      "init eng repo False [(''--initial-branch'', Some ''main'')] w3 = (Inr (), w4)"
      "commit eng repo ''Initial commit'' [(''--allow-empty'', None)] w4 = (Inl e, w5)"
      "r = Inl e" "world s' = w5"
      "trace s' = trace s @ [Git repo (CheckIsRepo IS_REPO_ROOT) (Inr (GBool False)),
         Git repo (Init False [(''--initial-branch'', Some ''main'')]) (Inr GDone),
         Git repo (Commit ''Initial commit'' [(''--allow-empty'', None)]) (Inl e)]"
  | ref w3 w4 w5 where "checkIsRepo eng repo IS_REPO_ROOT (world s) = (Inr False, w3)"
      "init eng repo False [(''--initial-branch'', Some ''main'')] w3 = (Inr (), w4)"
      "commit eng repo ''Initial commit'' [(''--allow-empty'', None)] w4 = (Inr ref, w5)"
      "r = Inr ()" "world s' = w5"
      "trace s' = trace s @ [Git repo (CheckIsRepo IS_REPO_ROOT) (Inr (GBool False)),
         Git repo (Init False [(''--initial-branch'', Some ''main'')]) (Inr GDone),
         Git repo (Commit ''Initial commit'' [(''--allow-empty'', None)]) (Inr (GText ref))]"
  using run unfolding bootstrap_def
proof (cases rule: awaitE)
  case (rejected e)
  from rejected(1) show ?thesis
    unfolding repo_checkIsRepo_def using that(1) rejected(2)
    by (elim run_taskE) auto
next
  case (resolved isRepoDefined s1)
  from resolved(1) obtain w3 where
    chk: "checkIsRepo eng repo IS_REPO_ROOT (world s) = (Inr isRepoDefined, w3)"
    and s1: "s1 = s\<lparr>world := w3, trace := trace s @ [Git repo (CheckIsRepo IS_REPO_ROOT) (Inr (GBool isRepoDefined))]\<rparr>"
    unfolding repo_checkIsRepo_def by (elim run_taskE) auto
  show ?thesis
  proof (cases isRepoDefined)
    case True
    with resolved(2) chk s1 show ?thesis
      using that(2) by (auto simp: resolved_def)
  next
    case False
    with resolved(2) have "await (repo_init eng repo False [(''--initial-branch'', Some ''main'')]) (\<lambda>_.
       await (repo_commit eng repo ''Initial commit'' [(''--allow-empty'', None)]) (\<lambda>_.
       resolved ())) s1 = (r, s')" by simp
    then show ?thesis
    proof (cases rule: awaitE)
      case (rejected e)
      from rejected(1) show ?thesis
        unfolding repo_init_def using that(3) rejected(2) chk s1 False
        by (elim run_taskE) auto
    next
      case (resolved u s2)
      from resolved(1) obtain w4 where
        ini: "init eng repo False [(''--initial-branch'', Some ''main'')] w3 = (Inr (), w4)"
        and s2: "s2 = s1\<lparr>world := w4, trace := trace s1 @ [Git repo (Init False [(''--initial-branch'', Some ''main'')]) (Inr GDone)]\<rparr>"
        unfolding repo_init_def using s1 by (elim run_taskE) auto
      from resolved(2) show ?thesis
      proof (cases rule: awaitE)
        case (rejected e)
        from rejected(1) show ?thesis
          unfolding repo_commit_def using that(4) rejected(2) chk ini s1 s2 False
          by (elim run_taskE) auto
      next
        case (resolved ref s3)
        from resolved(1) obtain w5 where
          com: "commit eng repo ''Initial commit'' [(''--allow-empty'', None)] w4 = (Inr ref, w5)"
          and s3: "s3 = s2\<lparr>world := w5, trace := trace s2 @ [Git repo (Commit ''Initial commit'' [(''--allow-empty'', None)]) (Inr (GText ref))]\<rparr>"
          unfolding repo_commit_def using s2 by (elim run_taskE) auto
        from resolved(2) have "r = Inr ()" "s' = s3" by (auto simp: resolved_def)
        with chk ini com s1 s2 s3 False show ?thesis
          using that(5) by auto
      qed
    qed
  qed
qed

lemma readFile_error_is_node: "readFile_result w p = Inl e \<Longrightarrow> isNodeError e"
  by (auto simp: readFile_result_def errno_def errno_fd_def split: option.splits if_splits)

lemma sync_ignore_cases [consumes 1, case_names read_failed write_failed synced]:
  assumes run: "sync_ignore os this s = (r, s')"
  obtains e where "readFile_result (world s) (path_join [projectRoot this, ''.gitignore'']) = Inl e"
      "code_of e \<noteq> ''ENOENT''" "r = Inl e" "world s' = world s"
      "trace s' = trace s @ [FsReadFile (path_join [projectRoot this, ''.gitignore'']) (Inl e)]"
  | e rd where "rd = readFile_result (world s) (path_join [projectRoot this, ''.gitignore''])"
      "\<And>e'. rd = Inl e' \<Longrightarrow> code_of e' = ''ENOENT''"
      "writeFile_error (world s) (path_join [GitService_getHistoryDir os this, ''.gitignore'']) = Some e"
      "r = Inl e" "world s' = world s"
      "trace s' = trace s @ [FsReadFile (path_join [projectRoot this, ''.gitignore'']) rd,
         FsWriteFile (path_join [GitService_getHistoryDir os this, ''.gitignore'']) (content_read rd) (Some e)]"
  | rd where "rd = readFile_result (world s) (path_join [projectRoot this, ''.gitignore''])"
      "\<And>e'. rd = Inl e' \<Longrightarrow> code_of e' = ''ENOENT''"
      "writeFile_error (world s) (path_join [GitService_getHistoryDir os this, ''.gitignore'']) = None"
      "r = Inr ()"
      "world s' = with_file (path_join [GitService_getHistoryDir os this, ''.gitignore'']) (content_read rd) (world s)"
      "trace s' = trace s @ [FsReadFile (path_join [projectRoot this, ''.gitignore'']) rd,
         FsWriteFile (path_join [GitService_getHistoryDir os this, ''.gitignore'']) (content_read rd) None]"
proof -
  let ?user = "path_join [projectRoot this, ''.gitignore'']"
  let ?ign = "path_join [GitService_getHistoryDir os this, ''.gitignore'']"
  let ?rd = "readFile_result (world s) ?user"
  let ?s1 = "s\<lparr>trace := trace s @ [FsReadFile ?user ?rd]\<rparr>"
  show ?thesis
  proof (cases "\<exists>e. ?rd = Inl e \<and> code_of e \<noteq> ''ENOENT''")
    case True
    then obtain e where e: "?rd = Inl e" "code_of e \<noteq> ''ENOENT''" by blast
    with readFile_error_is_node [OF e(1)] run have "r = Inl e" "s' = ?s1"
      by (auto simp: sync_ignore_def await_def try_catch_def fs_readFile_eq throw_def)
    with e show ?thesis using that(1) by auto
  next
    case False
    then have ok: "\<And>e'. ?rd = Inl e' \<Longrightarrow> code_of e' = ''ENOENT''" by blast
    have "try_catch (fs_readFile ?user)
              (\<lambda>error. if isNodeError error \<and> code_of error \<noteq> ''ENOENT''
                       then throw error else resolved []) s = (Inr (content_read ?rd), ?s1)"
      using ok by (cases ?rd) (auto simp: try_catch_def fs_readFile_eq resolved_def content_read_def)
    with run have w: "fs_writeFile ?ign (content_read ?rd) ?s1 = (r, s')"
      by (simp add: sync_ignore_def await_def)
    show ?thesis
    proof (cases "writeFile_error (world s) ?ign")
      case None
      with w ok show ?thesis using that(3) [of ?rd] by (auto simp: fs_writeFile_eq)
    next
      case (Some e)
      with w ok show ?thesis using that(2) [of ?rd e] by (auto simp: fs_writeFile_eq)
    qed
  qed
qed

lemma repo_paths:
  "path_join [GitService_getHistoryDir os this, ''.gitconfig''] = GitService_getHistoryDir os this @ ''/.gitconfig''"
  "path_join [GitService_getHistoryDir os this, ''.gitignore''] = GitService_getHistoryDir os this @ ''/.gitignore''"
  "path_join [GitService_getHistoryDir os this, ''.git''] = GitService_getHistoryDir os this @ ''/.git''"
  unfolding GitService_getHistoryDir_def
  using segment_path_join_eq [OF segment_path_history] normal_seg_names by simp_all

lemma initialize_eq:
  "initialize eng os this =
     await verifyGitAvailability (\<lambda>gitAvailable.
       if \<not> gitAvailable then throw EngineUnavailable
       else try_catch (setupShadowGitRepository eng os this) (\<lambda>error. throw (CheckpointInitFailed error)))"
  unfolding initialize_def EngineUnavailable_def CheckpointInitFailed_def by (rule refl)

lemma createFileSnapshot_eq:
  "createFileSnapshot eng os this message =
     try_catch
       (await (shadowGitRepository os this) (\<lambda>repo.
        await (repo_add eng repo ''.'') (\<lambda>_.
        await (repo_commit eng repo message []) (\<lambda>commitResult.
        resolved commitResult))))
       (\<lambda>error. throw (CheckpointFailed error))"
  unfolding createFileSnapshot_def CheckpointFailed_def by (rule refl)

lemma initialize_run:
  "initialize eng os this s =
     (case exec_error (world s) ''git --version'' of
        Some e \<Rightarrow> (Inl EngineUnavailable, emit (Exec ''git --version'' (Some e)) s)
      | None \<Rightarrow>
          (case setupShadowGitRepository eng os this (emit (Exec ''git --version'' None) s) of
             (Inl e, s') \<Rightarrow> (Inl (CheckpointInitFailed e), s')
           | (Inr u, s') \<Rightarrow> (Inr (), s')))"
  by (simp add: initialize_eq await_def verifyGitAvailability_eq try_catch_def throw_def
      split: option.splits prod.splits sum.splits)

lemma initialize_cases [consumes 1, case_names unavailable setup_failed initialized]:
  assumes run: "initialize eng os this s = (r, s')"
  obtains e where "exec_error (world s) ''git --version'' = Some e" "r = Inl EngineUnavailable"
      "s' = emit (Exec ''git --version'' (Some e)) s"
  | e where "exec_error (world s) ''git --version'' = None"
      "setupShadowGitRepository eng os this (emit (Exec ''git --version'' None) s) = (Inl e, s')"
      "r = Inl (CheckpointInitFailed e)"
  | "exec_error (world s) ''git --version'' = None"
      "setupShadowGitRepository eng os this (emit (Exec ''git --version'' None) s) = (Inr (), s')"
      "r = Inr ()"
  using run unfolding initialize_run
  by (auto split: option.splits prod.splits sum.splits)

lemma trace_emit [simp]: "trace (emit ev s) = trace s @ [ev]" and world_emit [simp]: "world (emit ev s) = world s"
  by (simp_all add: emit_def)

lemma setup_initialized_cases [consumes 1, case_names existing created]:
  assumes run: "setupShadowGitRepository eng os this s = (Inr (), s')"
  obtains w3 rd where
      "mkdir_error (world s) (GitService_getHistoryDir os this) = None"
      "writeFile_error (with_dir (GitService_getHistoryDir os this) (world s))
         (path_join [GitService_getHistoryDir os this, ''.gitconfig'']) = None"
      "checkIsRepo eng (simpleGit (GitService_getHistoryDir os this)) IS_REPO_ROOT
         (with_file (path_join [GitService_getHistoryDir os this, ''.gitconfig'']) gitConfigContent
           (with_dir (GitService_getHistoryDir os this) (world s))) = (Inr True, w3)"
      "rd = readFile_result w3 (path_join [projectRoot this, ''.gitignore''])"
      "\<And>e. rd = Inl e \<Longrightarrow> code_of e = ''ENOENT''"
      "writeFile_error w3 (path_join [GitService_getHistoryDir os this, ''.gitignore'']) = None"
      "world s' = with_file (path_join [GitService_getHistoryDir os this, ''.gitignore'']) (content_read rd) w3"
      "trace s' = trace s @ [FsMkdir (GitService_getHistoryDir os this) None,
         FsWriteFile (path_join [GitService_getHistoryDir os this, ''.gitconfig'']) gitConfigContent None,
         Git (simpleGit (GitService_getHistoryDir os this)) (CheckIsRepo IS_REPO_ROOT) (Inr (GBool True)),
         FsReadFile (path_join [projectRoot this, ''.gitignore'']) rd,
         FsWriteFile (path_join [GitService_getHistoryDir os this, ''.gitignore'']) (content_read rd) None]"
  | ref w3 w4 w5 rd where
      "mkdir_error (world s) (GitService_getHistoryDir os this) = None"
      "writeFile_error (with_dir (GitService_getHistoryDir os this) (world s))
         (path_join [GitService_getHistoryDir os this, ''.gitconfig'']) = None"
      "checkIsRepo eng (simpleGit (GitService_getHistoryDir os this)) IS_REPO_ROOT
         (with_file (path_join [GitService_getHistoryDir os this, ''.gitconfig'']) gitConfigContent
           (with_dir (GitService_getHistoryDir os this) (world s))) = (Inr False, w3)"
      "init eng (simpleGit (GitService_getHistoryDir os this)) False [(''--initial-branch'', Some ''main'')] w3
         = (Inr (), w4)"
      "commit eng (simpleGit (GitService_getHistoryDir os this)) ''Initial commit'' [(''--allow-empty'', None)] w4
         = (Inr ref, w5)"
      "rd = readFile_result w5 (path_join [projectRoot this, ''.gitignore''])"
      "\<And>e. rd = Inl e \<Longrightarrow> code_of e = ''ENOENT''"
      "writeFile_error w5 (path_join [GitService_getHistoryDir os this, ''.gitignore'']) = None"
      "world s' = with_file (path_join [GitService_getHistoryDir os this, ''.gitignore'']) (content_read rd) w5"
      "trace s' = trace s @ [FsMkdir (GitService_getHistoryDir os this) None,
         FsWriteFile (path_join [GitService_getHistoryDir os this, ''.gitconfig'']) gitConfigContent None,
         Git (simpleGit (GitService_getHistoryDir os this)) (CheckIsRepo IS_REPO_ROOT) (Inr (GBool False)),
         Git (simpleGit (GitService_getHistoryDir os this)) (Init False [(''--initial-branch'', Some ''main'')]) (Inr GDone),
         Git (simpleGit (GitService_getHistoryDir os this)) (Commit ''Initial commit'' [(''--allow-empty'', None)]) (Inr (GText ref)),
         FsReadFile (path_join [projectRoot this, ''.gitignore'']) rd,
         FsWriteFile (path_join [GitService_getHistoryDir os this, ''.gitignore'']) (content_read rd) None]"
  using run unfolding setup_split
proof (cases rule: awaitE)
  case (resolved x s1)
  from resolved(1) have
    a: "mkdir_error (world s) (GitService_getHistoryDir os this) = None"
      "writeFile_error (with_dir (GitService_getHistoryDir os this) (world s))
         (path_join [GitService_getHistoryDir os this, ''.gitconfig'']) = None"
      "world s1 = with_file (path_join [GitService_getHistoryDir os this, ''.gitconfig'']) gitConfigContent
         (with_dir (GitService_getHistoryDir os this) (world s))"
      "trace s1 = trace s @ [FsMkdir (GitService_getHistoryDir os this) None,
         FsWriteFile (path_join [GitService_getHistoryDir os this, ''.gitconfig'']) gitConfigContent None]"
    by (cases rule: write_config_cases; simp)+
  from resolved(2) show ?thesis
  proof (cases rule: awaitE)
    case (resolved y s2)
    note boot = resolved(1) and sync = resolved(2)
    from sync have
      c: "\<And>e. readFile_result (world s2) (path_join [projectRoot this, ''.gitignore'']) = Inl e
            \<Longrightarrow> code_of e = ''ENOENT''"
        "writeFile_error (world s2) (path_join [GitService_getHistoryDir os this, ''.gitignore'']) = None"
        "world s' = with_file (path_join [GitService_getHistoryDir os this, ''.gitignore''])
           (content_read (readFile_result (world s2) (path_join [projectRoot this, ''.gitignore'']))) (world s2)"
        "trace s' = trace s2 @ [FsReadFile (path_join [projectRoot this, ''.gitignore''])
             (readFile_result (world s2) (path_join [projectRoot this, ''.gitignore''])),
           FsWriteFile (path_join [GitService_getHistoryDir os this, ''.gitignore''])
             (content_read (readFile_result (world s2) (path_join [projectRoot this, ''.gitignore'']))) None]"
      by (cases rule: sync_ignore_cases; simp)+
    from boot show ?thesis
    proof (cases rule: bootstrap_cases)
      case (existing w3)
      with a c show ?thesis
        using that(1) [of w3 "readFile_result w3 (path_join [projectRoot this, ''.gitignore''])"]
        by simp
    next
      case (created ref w3 w4 w5)
      with a c show ?thesis
        using that(2) [of w3 w4 ref w5 "readFile_result w5 (path_join [projectRoot this, ''.gitignore''])"]
        by simp
    qed simp_all
  qed simp
qed simp

lemma bootstrap_trace:
  assumes "bootstrap eng repo s = (r, s')"
  shows "\<exists>x rest. trace s' = trace s @ Git repo (CheckIsRepo IS_REPO_ROOT) x # rest"
  using assms by (cases rule: bootstrap_cases) simp_all

lemma sync_ignore_trace:
  assumes "sync_ignore os this s = (r, s')"
  shows "\<exists>evs. trace s' = trace s @ evs"
  using assms by (cases rule: sync_ignore_cases) simp_all

lemma events_since_eq: "trace s' = trace s @ evs \<Longrightarrow> events_since s s' = evs"
  by (simp add: events_since_def)

lemma setup_starts_with_config:
  assumes run: "setupShadowGitRepository eng os this s = (r, s')"
    and mk: "mkdir_error (world s) (GitService_getHistoryDir os this) = None"
  shows "\<exists>wr rest. events_since s s' =
            FsMkdir (GitService_getHistoryDir os this) None
            # FsWriteFile (path_join [GitService_getHistoryDir os this, ''.gitconfig'']) gitConfigContent wr
            # rest
          \<and> (wr \<noteq> None \<longrightarrow> rest = [])
          \<and> (wr = None \<longrightarrow> (\<exists>x rest'. rest =
                 Git (simpleGit (GitService_getHistoryDir os this)) (CheckIsRepo IS_REPO_ROOT) x # rest'))"
  using run unfolding setup_split
proof (cases rule: awaitE)
  case (rejected e)
  from rejected(1) mk show ?thesis
    by (cases rule: write_config_cases) (simp_all add: events_since_eq)
next
  case (resolved x s1)
  from resolved(1) mk have
    t1: "trace s1 = trace s @ [FsMkdir (GitService_getHistoryDir os this) None,
         FsWriteFile (path_join [GitService_getHistoryDir os this, ''.gitconfig'']) gitConfigContent None]"
    by (cases rule: write_config_cases) simp_all
  from resolved(2) show ?thesis
  proof (cases rule: awaitE)
    case (rejected e)
    from bootstrap_trace [OF rejected(1)] t1 show ?thesis
      by (auto simp: events_since_eq)
  next
    case (resolved y s2)
    from bootstrap_trace [OF resolved(1)] sync_ignore_trace [OF resolved(2)] t1 show ?thesis
      by (auto simp: events_since_eq)
  qed
qed

lemma check_frame:
  "check_reads_metadata eng \<Longrightarrow> checkIsRepo eng g action w = (r, w') \<Longrightarrow> w' = w"
  unfolding check_reads_metadata_def by (metis snd_conv)

lemma init_frame:
  "bootstrap_writes_metadata eng \<Longrightarrow> init eng g bare options w = (r, w') \<Longrightarrow> outside_git w' = outside_git w"
  unfolding bootstrap_writes_metadata_def by (metis snd_conv)

lemma commit_frame:
  "bootstrap_writes_metadata eng \<Longrightarrow> commit eng g message options w = (r, w') \<Longrightarrow> outside_git w' = outside_git w"
  unfolding bootstrap_writes_metadata_def by (metis snd_conv)

lemma outside_git_fields:
  assumes "outside_git w' = outside_git w"
  shows "exec_error w' = exec_error w" "dirs w' = dirs w" "files w' = files w" "fs_fault w' = fs_fault w"
  using assms by (simp_all add: outside_git_def)

lemma outside_git_results:
  assumes "outside_git w' = outside_git w"
  shows "mkdir_error w' p = mkdir_error w p" "writeFile_error w' p = writeFile_error w p"
    "readFile_result w' p = readFile_result w p"
proof -
  note f = outside_git_fields [OF assms]
  show "mkdir_error w' p = mkdir_error w p"
    unfolding mkdir_error_def f by (rule refl)
  show "writeFile_error w' p = writeFile_error w p"
    unfolding writeFile_error_def f by (rule refl)
  show "readFile_result w' p = readFile_result w p"
    unfolding readFile_result_def f by (rule refl)
qed

lemma with_file_simps [simp]:
  "files (with_file p data w) = (files w)(p \<mapsto> data)" "dirs (with_file p data w) = dirs w"
  "fs_fault (with_file p data w) = fs_fault w" "exec_error (with_file p data w) = exec_error w"
  "git (with_file p data w) = git w"
  by (simp_all add: with_file_def)

lemma with_dir_simps [simp]:
  "files (with_dir p w) = files w" "dirs (with_dir p w) = dirs w \<union> set (ancestors p) \<union> {p}"
  "fs_fault (with_dir p w) = fs_fault w" "exec_error (with_dir p w) = exec_error w"
  "git (with_dir p w) = git w"
  by (simp_all add: with_dir_def)

lemma config_after_setup:
  assumes chk: "check_reads_metadata eng" and boot: "bootstrap_writes_metadata eng"
    and run: "setupShadowGitRepository eng os this s = (Inr (), s')"
  shows "files (world s') (GitService_getHistoryDir os this @ ''/.gitconfig'') = Some gitConfigContent"
  using run
proof (cases rule: setup_initialized_cases)
  case (existing w3 rd)
  from check_frame [OF chk existing(3)] existing(7) show ?thesis
    by (simp add: repo_paths)
next
  case (created ref w3 w4 w5 rd)
  from check_frame [OF chk created(3)] have w3: "files w3 (GitService_getHistoryDir os this @ ''/.gitconfig'') = Some gitConfigContent"
    by (simp add: repo_paths)
  from outside_git_fields(3) [OF init_frame [OF boot created(4)]]
    outside_git_fields(3) [OF commit_frame [OF boot created(5)]] w3 created(9)
  show ?thesis by (simp add: repo_paths)
qed

lemma write_config_written:
  assumes "mkdir_error (world s) (GitService_getHistoryDir os this) = None"
    and "writeFile_error (with_dir (GitService_getHistoryDir os this) (world s))
           (path_join [GitService_getHistoryDir os this, ''.gitconfig'']) = None"
  shows "write_config os this s =
     (Inr (), s\<lparr>world := with_file (path_join [GitService_getHistoryDir os this, ''.gitconfig'']) gitConfigContent
                        (with_dir (GitService_getHistoryDir os this) (world s)),
               trace := trace s @ [FsMkdir (GitService_getHistoryDir os this) None,
                 FsWriteFile (path_join [GitService_getHistoryDir os this, ''.gitconfig'']) gitConfigContent None]\<rparr>)"
  using assms by (simp add: write_config_def await_def fs_mkdir_eq fs_writeFile_eq)


lemma bootstrap_created:
  assumes "checkIsRepo eng repo IS_REPO_ROOT (world s) = (Inr False, w3)"
    and "init eng repo False [(''--initial-branch'', Some ''main'')] w3 = (Inr (), w4)"
    and "commit eng repo ''Initial commit'' [(''--allow-empty'', None)] w4 = (Inr ref, w5)"
  shows "bootstrap eng repo s =
     (Inr (), s\<lparr>world := w5,
               trace := trace s @ [Git repo (CheckIsRepo IS_REPO_ROOT) (Inr (GBool False)),
                 Git repo (Init False [(''--initial-branch'', Some ''main'')]) (Inr GDone),
                 Git repo (Commit ''Initial commit'' [(''--allow-empty'', None)]) (Inr (GText ref))]\<rparr>)"
  using assms
  by (simp add: bootstrap_def await_def repo_checkIsRepo_def repo_init_def repo_commit_def
      run_task_def emit_def resolved_def)

lemma bootstrap_commit_failed:
  assumes "checkIsRepo eng repo IS_REPO_ROOT (world s) = (Inr False, w3)"
    and "init eng repo False [(''--initial-branch'', Some ''main'')] w3 = (Inr (), w4)"
    and "commit eng repo ''Initial commit'' [(''--allow-empty'', None)] w4 = (Inl e, w5)"
  shows "bootstrap eng repo s =
     (Inl e, s\<lparr>world := w5,
               trace := trace s @ [Git repo (CheckIsRepo IS_REPO_ROOT) (Inr (GBool False)),
                 Git repo (Init False [(''--initial-branch'', Some ''main'')]) (Inr GDone),
                 Git repo (Commit ''Initial commit'' [(''--allow-empty'', None)]) (Inl e)]\<rparr>)"
  using assms
  by (simp add: bootstrap_def await_def repo_checkIsRepo_def repo_init_def repo_commit_def
      run_task_def emit_def resolved_def)

lemma sync_ignore_synced:
  assumes "rd = readFile_result (world s) (path_join [projectRoot this, ''.gitignore''])"
    and "\<And>e. rd = Inl e \<Longrightarrow> code_of e = ''ENOENT''"
    and "writeFile_error (world s) (path_join [GitService_getHistoryDir os this, ''.gitignore'']) = None"
  shows "sync_ignore os this s =
     (Inr (), s\<lparr>world := with_file (path_join [GitService_getHistoryDir os this, ''.gitignore''])
                          (content_read rd) (world s),
               trace := trace s @ [FsReadFile (path_join [projectRoot this, ''.gitignore'']) rd,
                 FsWriteFile (path_join [GitService_getHistoryDir os this, ''.gitignore'']) (content_read rd) None]\<rparr>)"
proof -
  let ?user = "path_join [projectRoot this, ''.gitignore'']"
  let ?rd = "readFile_result (world s) ?user"
  have ok: "\<And>e. ?rd = Inl e \<Longrightarrow> code_of e = ''ENOENT''"
    using assms(1,2) by simp
  have "try_catch (fs_readFile ?user)
              (\<lambda>error. if isNodeError error \<and> code_of error \<noteq> ''ENOENT''
                       then throw error else resolved []) s
          = (Inr (content_read ?rd), s\<lparr>trace := trace s @ [FsReadFile ?user ?rd]\<rparr>)"
    using ok by (cases ?rd) (auto simp: try_catch_def fs_readFile_eq resolved_def content_read_def)
  then show ?thesis
    using assms(1,3) by (simp add: sync_ignore_def await_def fs_writeFile_eq)
qed

lemma setup_run:
  assumes "write_config os this s = (Inr (), s1)"
    and "bootstrap eng (simpleGit (GitService_getHistoryDir os this)) s1 = (Inr (), s2)"
    and "sync_ignore os this s2 = (r, s3)"
  shows "setupShadowGitRepository eng os this s = (r, s3)"
  using assms by (simp add: setup_split await_def)

lemma initialize_initialized:
  assumes "exec_error (world s) ''git --version'' = None"
    and "setupShadowGitRepository eng os this (emit (Exec ''git --version'' None) s) = (Inr (), s')"
  shows "initialize eng os this s = (Inr (), s')"
  using assms by (simp add: initialize_run)

lemma initialize_setup_failed:
  assumes "exec_error (world s) ''git --version'' = None"
    and "setupShadowGitRepository eng os this (emit (Exec ''git --version'' None) s) = (Inl e, s')"
  shows "initialize eng os this s = (Inl (CheckpointInitFailed e), s')"
  using assms by (simp add: initialize_run)

section \<open>Whole runs of \<open>initialize\<close>\<close>

lemma setup_bootstrap_failed:
  assumes "write_config os this s = (Inr (), s1)"
    and "bootstrap eng (simpleGit (GitService_getHistoryDir os this)) s1 = (Inl e, s2)"
  shows "setupShadowGitRepository eng os this s = (Inl e, s2)"
  using assms by (simp add: setup_split await_def)

lemma initialize_fresh:
  assumes D: "D = GitService_getHistoryDir os this"
    and user: "user = path_join [projectRoot this, ''.gitignore'']"
    and ex: "exec_error (world s) ''git --version'' = None"
    and mk: "mkdir_error (world s) D = None"
    and cfg: "writeFile_error (with_dir D (world s)) (D @ ''/.gitconfig'') = None"
    and chk: "checkIsRepo eng (simpleGit D) IS_REPO_ROOT
               (with_file (D @ ''/.gitconfig'') gitConfigContent (with_dir D (world s))) = (Inr False, w3)"
    and ini: "init eng (simpleGit D) False [(''--initial-branch'', Some ''main'')] w3 = (Inr (), w4)"
    and com: "commit eng (simpleGit D) ''Initial commit'' [(''--allow-empty'', None)] w4 = (Inr ref, w5)"
    and rd: "readFile_result w5 user = rd"
    and ok: "\<And>e. rd = Inl e \<Longrightarrow> code_of e = ''ENOENT''"
    and ign: "writeFile_error w5 (D @ ''/.gitignore'') = None"
  shows "initialize eng os this s =
     (Inr (), s\<lparr>world := with_file (D @ ''/.gitignore'') (content_read rd) w5,
               trace := trace s @
                 [Exec ''git --version'' None,
                  FsMkdir D None,
                  FsWriteFile (D @ ''/.gitconfig'') gitConfigContent None,
                  Git (simpleGit D) (CheckIsRepo IS_REPO_ROOT) (Inr (GBool False)),
                  Git (simpleGit D) (Init False [(''--initial-branch'', Some ''main'')]) (Inr GDone),
                  Git (simpleGit D) (Commit ''Initial commit'' [(''--allow-empty'', None)]) (Inr (GText ref)),
                  FsReadFile user rd,
                  FsWriteFile (D @ ''/.gitignore'') (content_read rd) None]\<rparr>)"
proof (rule initialize_initialized [OF ex])
  let ?sa = "emit (Exec ''git --version'' None) s"
  let ?w2 = "with_file (D @ ''/.gitconfig'') gitConfigContent (with_dir D (world s))"
  let ?t2 = "trace ?sa @ [FsMkdir D None, FsWriteFile (D @ ''/.gitconfig'') gitConfigContent None]"
  let ?t5 = "?t2 @ [Git (simpleGit D) (CheckIsRepo IS_REPO_ROOT) (Inr (GBool False)),
                  Git (simpleGit D) (Init False [(''--initial-branch'', Some ''main'')]) (Inr GDone),
                  Git (simpleGit D) (Commit ''Initial commit'' [(''--allow-empty'', None)]) (Inr (GText ref))]"
  have a: "write_config os this ?sa = (Inr (), ?sa\<lparr>world := ?w2, trace := ?t2\<rparr>)"
    using write_config_written [of ?sa os this] mk cfg by (simp add: D repo_paths)
  have b: "bootstrap eng (simpleGit (GitService_getHistoryDir os this)) (?sa\<lparr>world := ?w2, trace := ?t2\<rparr>) =
      (Inr (), ?sa\<lparr>world := w5, trace := ?t5\<rparr>)"
    using bootstrap_created [of eng "simpleGit D" "?sa\<lparr>world := ?w2, trace := ?t2\<rparr>" w3 w4 ref w5] chk ini com
    by (simp add: D)
  have c: "sync_ignore os this (?sa\<lparr>world := w5, trace := ?t5\<rparr>) =
     (Inr (), s\<lparr>world := with_file (D @ ''/.gitignore'') (content_read rd) w5,
               trace := trace s @
                 [Exec ''git --version'' None,
                  FsMkdir D None,
                  FsWriteFile (D @ ''/.gitconfig'') gitConfigContent None,
                  Git (simpleGit D) (CheckIsRepo IS_REPO_ROOT) (Inr (GBool False)),
                  Git (simpleGit D) (Init False [(''--initial-branch'', Some ''main'')]) (Inr GDone),
                  Git (simpleGit D) (Commit ''Initial commit'' [(''--allow-empty'', None)]) (Inr (GText ref)),
                  FsReadFile user rd,
                  FsWriteFile (D @ ''/.gitignore'') (content_read rd) None]\<rparr>)"
    using sync_ignore_synced [of rd "?sa\<lparr>world := w5, trace := ?t5\<rparr>" this os] rd ok ign
    by (simp add: D user repo_paths emit_def)
  from setup_run [OF a b c]
  show "setupShadowGitRepository eng os this ?sa =
     (Inr (), s\<lparr>world := with_file (D @ ''/.gitignore'') (content_read rd) w5,
               trace := trace s @
                 [Exec ''git --version'' None,
                  FsMkdir D None,
                  FsWriteFile (D @ ''/.gitconfig'') gitConfigContent None,
                  Git (simpleGit D) (CheckIsRepo IS_REPO_ROOT) (Inr (GBool False)),
                  Git (simpleGit D) (Init False [(''--initial-branch'', Some ''main'')]) (Inr GDone),
                  Git (simpleGit D) (Commit ''Initial commit'' [(''--allow-empty'', None)]) (Inr (GText ref)),
                  FsReadFile user rd,
                  FsWriteFile (D @ ''/.gitignore'') (content_read rd) None]\<rparr>)" .
qed

lemma initialize_bootstrap_failed:
  assumes D: "D = GitService_getHistoryDir os this"
    and ex: "exec_error (world s) ''git --version'' = None"
    and mk: "mkdir_error (world s) D = None"
    and cfg: "writeFile_error (with_dir D (world s)) (D @ ''/.gitconfig'') = None"
    and chk: "checkIsRepo eng (simpleGit D) IS_REPO_ROOT
               (with_file (D @ ''/.gitconfig'') gitConfigContent (with_dir D (world s))) = (Inr False, w3)"
    and ini: "init eng (simpleGit D) False [(''--initial-branch'', Some ''main'')] w3 = (Inr (), w4)"
    and com: "commit eng (simpleGit D) ''Initial commit'' [(''--allow-empty'', None)] w4 = (Inl e, w5)"
  shows "initialize eng os this s =
     (Inl (CheckpointInitFailed e),
      s\<lparr>world := w5,
        trace := trace s @
          [Exec ''git --version'' None,
           FsMkdir D None,
           FsWriteFile (D @ ''/.gitconfig'') gitConfigContent None,
           Git (simpleGit D) (CheckIsRepo IS_REPO_ROOT) (Inr (GBool False)),
           Git (simpleGit D) (Init False [(''--initial-branch'', Some ''main'')]) (Inr GDone),
           Git (simpleGit D) (Commit ''Initial commit'' [(''--allow-empty'', None)]) (Inl e)]\<rparr>)"
proof (rule initialize_setup_failed [OF ex])
  let ?sa = "emit (Exec ''git --version'' None) s"
  let ?w2 = "with_file (D @ ''/.gitconfig'') gitConfigContent (with_dir D (world s))"
  let ?t2 = "trace ?sa @ [FsMkdir D None, FsWriteFile (D @ ''/.gitconfig'') gitConfigContent None]"
  have a: "write_config os this ?sa = (Inr (), ?sa\<lparr>world := ?w2, trace := ?t2\<rparr>)"
    using write_config_written [of ?sa os this] mk cfg by (simp add: D repo_paths)
  have b: "bootstrap eng (simpleGit (GitService_getHistoryDir os this)) (?sa\<lparr>world := ?w2, trace := ?t2\<rparr>) =
      (Inl e, s\<lparr>world := w5,
        trace := trace s @
          [Exec ''git --version'' None,
           FsMkdir D None,
           FsWriteFile (D @ ''/.gitconfig'') gitConfigContent None,
           Git (simpleGit D) (CheckIsRepo IS_REPO_ROOT) (Inr (GBool False)),
           Git (simpleGit D) (Init False [(''--initial-branch'', Some ''main'')]) (Inr GDone),
           Git (simpleGit D) (Commit ''Initial commit'' [(''--allow-empty'', None)]) (Inl e)]\<rparr>)"
    using bootstrap_commit_failed [of eng "simpleGit D" "?sa\<lparr>world := ?w2, trace := ?t2\<rparr>" w3 w4 e w5] chk ini com
    by (simp add: D emit_def)
  from setup_bootstrap_failed [OF a b]
  show "setupShadowGitRepository eng os this ?sa =
     (Inl e, s\<lparr>world := w5,
        trace := trace s @
          [Exec ''git --version'' None,
           FsMkdir D None,
           FsWriteFile (D @ ''/.gitconfig'') gitConfigContent None,
           Git (simpleGit D) (CheckIsRepo IS_REPO_ROOT) (Inr (GBool False)),
           Git (simpleGit D) (Init False [(''--initial-branch'', Some ''main'')]) (Inr GDone),
           Git (simpleGit D) (Commit ''Initial commit'' [(''--allow-empty'', None)]) (Inl e)]\<rparr>)" .
qed


section \<open>The small engine meets what is asked of an engine\<close>

lemma toy_engine_fields [simp]:
  "checkIsRepo toy_engine = toy_checkIsRepo" "init toy_engine = toy_init"
  "commit toy_engine = toy_commit" "add toy_engine = toy_add"
  "raw toy_engine = toy_raw" "clean toy_engine = toy_clean"
  by (simp_all add: toy_engine_def)

lemma toy_check_reads_metadata: "check_reads_metadata toy_engine"
  by (simp add: check_reads_metadata_def toy_checkIsRepo_def)

lemma toy_bootstrap_writes_metadata: "bootstrap_writes_metadata toy_engine"
  by (simp add: bootstrap_writes_metadata_def toy_init_def toy_commit_def outside_git_def Let_def
      split: option.splits)

lemma toy_bootstrap_makes_root: "bootstrap_makes_root toy_engine"
  by (auto simp: bootstrap_makes_root_def toy_init_def toy_commit_def toy_checkIsRepo_def Let_def
      split: option.splits)

lemma git_dir_of_plain: "git_dir_of (simpleGit dir) = path_join [dir, ''.git'']"
  by (simp add: git_dir_of_def simpleGit_def)



lemma history0: "GitService_getHistoryDir os0 service0 = repoDir0"
  by (simp add: repoDir0_def GitService_getHistoryDir_def service0_def GitService_new_def getHistoryDir_eq
      global_dir0 storage0_def Storage_new_def sha256_hex_work_app)

lemma projectRoot0: "projectRoot service0 = ''/work/app''"
  by (simp add: service0_def GitService_new_def resolve0)

lemma userIgnore0: "path_join [''/work/app'', ''.gitignore''] = ''/work/app/.gitignore''"
  by (simp add: path_join_def path_normalize_def normalizeString_def normalize_step_def Let_def)

section \<open>The example project, initialised by the small engine\<close>

lemma ancestors0:
  "ancestors repoDir0 = [''/home'', ''/home/pony'', ''/home/pony/.gemini'', ''/home/pony/.gemini/history'']"
  unfolding repoDir0_def by code_simp

lemma ancestors0_config:
  "ancestors (repoDir0 @ ''/.gitconfig'') =
     [''/home'', ''/home/pony'', ''/home/pony/.gemini'', ''/home/pony/.gemini/history'', repoDir0]"
  unfolding repoDir0_def by code_simp

lemma ancestors0_ignore:
  "ancestors (repoDir0 @ ''/.gitignore'') =
     [''/home'', ''/home/pony'', ''/home/pony/.gemini'', ''/home/pony/.gemini/history'', repoDir0]"
  unfolding repoDir0_def by code_simp

lemma ancestors0_user: "ancestors ''/work/app/.gitignore'' = [''/work'', ''/work/app'']"
  by code_simp

lemma world0_simps [simp]:
  "exec_error world0 = (\<lambda>command. None)" "fs_fault world0 = (\<lambda>call. None)"
  "dirs world0 = {''/home'', ''/home/pony'', ''/work'', ''/work/app''}"
  "files world0 = [''/work/app/.gitignore'' \<mapsto> ''node_modules\<newline>'']"
  "git world0 = Map.empty"
  by (simp_all add: world0_def)

lemma repoDir0_facts:
  "repoDir0 \<noteq> ''/work/app/.gitignore''" "repoDir0 @ ''/.gitconfig'' \<noteq> ''/work/app/.gitignore''"
  "repoDir0 @ ''/.gitignore'' \<noteq> ''/work/app/.gitignore''"
  "repoDir0 \<noteq> ''/home''" "repoDir0 \<noteq> ''/home/pony''" "repoDir0 \<noteq> ''/work''" "repoDir0 \<noteq> ''/work/app''"
  "repoDir0 \<noteq> ''/home/pony/.gemini''" "repoDir0 \<noteq> ''/home/pony/.gemini/history''"
  "repoDir0 @ ''/.gitconfig'' \<notin> {''/home'', ''/home/pony'', ''/work'', ''/work/app'', ''/home/pony/.gemini'', ''/home/pony/.gemini/history''}"
  "repoDir0 @ ''/.gitignore'' \<notin> {''/home'', ''/home/pony'', ''/work'', ''/work/app'', ''/home/pony/.gemini'', ''/home/pony/.gemini/history''}"
  "''/work/app/.gitignore'' \<notin> {''/home'', ''/home/pony'', ''/work'', ''/work/app'', ''/home/pony/.gemini'', ''/home/pony/.gemini/history''}"
  by (simp_all add: repoDir0_def)

lemma mkdir0: "mkdir_error world0 repoDir0 = None"
  by (simp add: mkdir_error_def ancestors0 repoDir0_facts)

lemma write_config0: "writeFile_error (with_dir repoDir0 world0) (repoDir0 @ ''/.gitconfig'') = None"
  using repoDir0_facts(10)
  by (simp add: writeFile_error_def ancestors0 ancestors0_config repoDir0_facts)

lemma toy_check0:
  "git w = Map.empty \<Longrightarrow> toy_checkIsRepo (simpleGit repoDir0) IS_REPO_ROOT w = (Inr False, w)"
  by (simp add: toy_checkIsRepo_def)

lemma git_dir0: "git_dir_of (simpleGit repoDir0) = repoDir0 @ ''/.git''"
  using repo_paths(3) [of os0 service0] by (simp add: git_dir_of_plain history0)

lemma toy_init0:
  "git w = Map.empty \<Longrightarrow>
   toy_init (simpleGit repoDir0) bare options w = (Inr (), w\<lparr>git := [repoDir0 @ ''/.git'' \<mapsto> []]\<rparr>)"
  by (simp add: toy_init_def git_dir0)

lemma toy_commit0:
  "git w = [repoDir0 @ ''/.git'' \<mapsto> []] \<Longrightarrow>
   toy_commit (simpleGit repoDir0) message options w =
     (Inr ''c'', w\<lparr>git := [repoDir0 @ ''/.git'' \<mapsto> [(''c'', message)]]\<rparr>)"
  by (simp add: toy_commit_def git_dir0 Let_def)

lemma read0:
  "files w = (files world0)(repoDir0 @ ''/.gitconfig'' \<mapsto> c) \<Longrightarrow> fs_fault w = (\<lambda>call. None) \<Longrightarrow>
   dirs w = dirs (with_dir repoDir0 world0) \<Longrightarrow>
   readFile_result w ''/work/app/.gitignore'' = Inr ''node_modules\<newline>''"
  using repoDir0_facts(12) repoDir0_facts(1-3) [symmetric]
  by (simp add: readFile_result_def ancestors0 ancestors0_user repoDir0_facts(1-9))

lemma write_ignore0:
  "files w = (files world0)(repoDir0 @ ''/.gitconfig'' \<mapsto> c) \<Longrightarrow> fs_fault w = (\<lambda>call. None) \<Longrightarrow>
   dirs w = dirs (with_dir repoDir0 world0) \<Longrightarrow>
   writeFile_error w (repoDir0 @ ''/.gitignore'') = None"
  using repoDir0_facts(11) repoDir0_facts(1-3) [symmetric]
  by (simp add: writeFile_error_def ancestors0 ancestors0_ignore repoDir0_facts(1-9))

lemma paths0:
  "path_join [repoDir0, ''.gitconfig''] = repoDir0 @ ''/.gitconfig''"
  "path_join [repoDir0, ''.gitignore''] = repoDir0 @ ''/.gitignore''"
  "path_join [repoDir0, ''.git''] = repoDir0 @ ''/.git''"
  "path_join [projectRoot service0, ''.gitignore''] = ''/work/app/.gitignore''"
  using repo_paths [of os0 service0] by (simp_all add: history0 projectRoot0 userIgnore0)

lemma state0_simps [simp]: "world state0 = world0" "trace state0 = []"
  by (simp_all add: state0_def)

lemma run0: "initialize toy_engine os0 service0 state0 = (Inr (), state1)"
proof (rule initialize_initialized)
  show "exec_error (world state0) ''git --version'' = None"
    by (simp add: state0_def)
  let ?sa = "emit (Exec ''git --version'' None) state0"
  let ?w2 = "with_file (repoDir0 @ ''/.gitconfig'') gitConfigContent (with_dir repoDir0 world0)"
  let ?w4 = "?w2\<lparr>git := [repoDir0 @ ''/.git'' \<mapsto> [(''c'', ''Initial commit'')]]\<rparr>"
  have wa: "world ?sa = world0" by (simp add: state0_def)
  have a: "write_config os0 service0 ?sa =
      (Inr (), ?sa\<lparr>world := ?w2,
         trace := trace ?sa @ [FsMkdir repoDir0 None,
            FsWriteFile (repoDir0 @ ''/.gitconfig'') gitConfigContent None]\<rparr>)"
    using write_config_written [of ?sa os0 service0]
    by (simp add: wa history0 paths0 mkdir0 write_config0)
  have b: "bootstrap toy_engine (simpleGit repoDir0)
      (?sa\<lparr>world := ?w2,
         trace := trace ?sa @ [FsMkdir repoDir0 None,
            FsWriteFile (repoDir0 @ ''/.gitconfig'') gitConfigContent None]\<rparr>) =
      (Inr (), ?sa\<lparr>world := ?w4,
         trace := trace ?sa @ [FsMkdir repoDir0 None,
            FsWriteFile (repoDir0 @ ''/.gitconfig'') gitConfigContent None,
            Git (simpleGit repoDir0) (CheckIsRepo IS_REPO_ROOT) (Inr (GBool False)),
            Git (simpleGit repoDir0) (Init False [(''--initial-branch'', Some ''main'')]) (Inr GDone),
            Git (simpleGit repoDir0) (Commit ''Initial commit'' [(''--allow-empty'', None)]) (Inr (GText ''c''))]\<rparr>)"
    by (subst bootstrap_created [where ?w3.0 = ?w2
          and ?w4.0 = "?w2\<lparr>git := [repoDir0 @ ''/.git'' \<mapsto> []]\<rparr>"
          and ?w5.0 = ?w4 and ref = "''c''"])
       (simp_all add: toy_check0 toy_init0 toy_commit0)
  have c: "sync_ignore os0 service0
      (?sa\<lparr>world := ?w4,
         trace := trace ?sa @ [FsMkdir repoDir0 None,
            FsWriteFile (repoDir0 @ ''/.gitconfig'') gitConfigContent None,
            Git (simpleGit repoDir0) (CheckIsRepo IS_REPO_ROOT) (Inr (GBool False)),
            Git (simpleGit repoDir0) (Init False [(''--initial-branch'', Some ''main'')]) (Inr GDone),
            Git (simpleGit repoDir0) (Commit ''Initial commit'' [(''--allow-empty'', None)]) (Inr (GText ''c''))]\<rparr>)
      = (Inr (), state1)"
    by (subst sync_ignore_synced [where rd = "Inr ''node_modules\<newline>''"])
       (simp_all add: history0 paths0 read0 write_ignore0 content_read_def state1_def world1_def trace1_def
          state0_def emit_def)
  from setup_run [OF a _ c] b
  show "setupShadowGitRepository toy_engine os0 service0 ?sa = (Inr (), state1)"
    by (simp add: history0)
qed

section \<open>Ignore rules and the configuration file\<close>

lemma is_read_simps [simp]:
  "is_read (FsReadFile p rd)" "\<not> is_read (Exec c x)" "\<not> is_read (FsMkdir p y)"
  "\<not> is_read (FsWriteFile p d y)" "\<not> is_read (Git g t z)"
  by (simp_all add: is_read_def)

lemma extend_no_read:
  assumes "\<exists>a. trace s1 = trace s @ a \<and> (\<forall>ev\<in>set a. \<not> is_read ev)"
    and "\<exists>b. trace s2 = trace s1 @ b \<and> (\<forall>ev\<in>set b. \<not> is_read ev)"
  shows "\<exists>evs. trace s2 = trace s @ evs \<and> (\<forall>ev\<in>set evs. \<not> is_read ev)"
proof -
  from assms obtain a b where "trace s1 = trace s @ a" "\<forall>ev\<in>set a. \<not> is_read ev"
    "trace s2 = trace s1 @ b" "\<forall>ev\<in>set b. \<not> is_read ev" by blast
  then show ?thesis by (intro exI [of _ "a @ b"]) auto
qed

lemma setup_reaches_sync [consumes 1, case_names stopped_before sync]:
  assumes run: "setupShadowGitRepository eng os this s = (r, s')"
  obtains e evs where "r = Inl e" "trace s' = trace s @ evs" "\<forall>ev\<in>set evs. \<not> is_read ev"
  | s2 evs where "sync_ignore os this s2 = (r, s')" "trace s2 = trace s @ evs"
      "\<forall>ev\<in>set evs. \<not> is_read ev"
  using run unfolding setup_split
proof (cases rule: awaitE)
  case (rejected e)
  from rejected(1) show ?thesis
    by (cases rule: write_config_cases) (use that(1) rejected(2) in auto)
next
  case (resolved x s1)
  from resolved(1) have t1: "\<exists>evs. trace s1 = trace s @ evs \<and> (\<forall>ev\<in>set evs. \<not> is_read ev)"
    by (cases rule: write_config_cases) auto
  from resolved(2) show ?thesis
  proof (cases rule: awaitE)
    case (rejected e)
    from rejected(1) have "\<exists>evs. trace s' = trace s1 @ evs \<and> (\<forall>ev\<in>set evs. \<not> is_read ev)"
      by (cases rule: bootstrap_cases) auto
    from extend_no_read [OF t1 this]
    obtain evs where "trace s' = trace s @ evs" "\<forall>ev\<in>set evs. \<not> is_read ev"
      by blast
    with that(1) rejected(2) show ?thesis by blast
  next
    case (resolved y s2)
    from resolved(1) have "\<exists>evs. trace s2 = trace s1 @ evs \<and> (\<forall>ev\<in>set evs. \<not> is_read ev)"
      by (cases rule: bootstrap_cases) auto
    from extend_no_read [OF t1 this]
    obtain evs where "trace s2 = trace s @ evs" "\<forall>ev\<in>set evs. \<not> is_read ev"
      by blast
    with that(2) resolved(2) show ?thesis by blast
  qed
qed

lemma readFile_plain:
  "fs_fault w (ReadFile p) = None \<Longrightarrow> p \<notin> dirs w \<Longrightarrow>
   \<not> list_ex (\<lambda>a. files w a \<noteq> None) (ancestors p) \<Longrightarrow>
   readFile_result w p = (case files w p of None \<Rightarrow> Inl (errno ''ENOENT'' ''open'' p) | Some data \<Rightarrow> Inr data)"
  by (simp add: readFile_result_def)

lemma readFile_refused:
  "fs_fault w (ReadFile p) = Some c \<Longrightarrow> readFile_result w p = Inl (errno c ''open'' p)"
  "fs_fault w (ReadFile p) = None \<Longrightarrow> p \<in> dirs w \<Longrightarrow>
   readFile_result w p = Inl (errno_fd ''EISDIR'' ''read'')"
  "fs_fault w (ReadFile p) = None \<Longrightarrow> p \<notin> dirs w \<Longrightarrow>
   list_ex (\<lambda>a. files w a \<noteq> None) (ancestors p) \<Longrightarrow>
   readFile_result w p = Inl (errno ''ENOTDIR'' ''open'' p)"
  by (simp_all add: readFile_result_def)

lemma code_of_errno_fd [simp]: "code_of (errno_fd c syscall) = c"
  by (simp add: errno_fd_def)

lemma errno_is_node: "isNodeError (errno c syscall p)" "isNodeError (errno_fd c syscall)"
  by (simp_all add: errno_def errno_fd_def)

lemma code_of_errno [simp]: "code_of (errno c syscall p) = c"
  by (simp add: errno_def)

lemma setup_sync_outcome:
  assumes run: "setupShadowGitRepository eng os this s = (r, s')"
    and ev: "FsReadFile p rd \<in> set (events_since s s')"
  shows "p = path_join [projectRoot this, ''.gitignore''] \<and>
    (\<exists>w. rd = readFile_result w p \<and>
       ((\<exists>e. rd = Inl e \<and> code_of e \<noteq> ''ENOENT'' \<and> r = Inl e \<and> world s' = w \<and>
             last (trace s') = FsReadFile p rd)
        \<or> ((\<forall>e. rd = Inl e \<longrightarrow> code_of e = ''ENOENT'') \<and>
            (\<exists>wr. last (trace s') =
                    FsWriteFile (GitService_getHistoryDir os this @ ''/.gitignore'') (content_read rd) wr \<and>
                  (case wr of
                     None \<Rightarrow> r = Inr () \<and>
                       world s' = with_file (GitService_getHistoryDir os this @ ''/.gitignore'') (content_read rd) w
                   | Some e \<Rightarrow> r = Inl e \<and> world s' = w)))))"
  using run
proof (cases rule: setup_reaches_sync)
  case (stopped_before e evs)
  with ev show ?thesis by (auto simp: events_since_def)
next
  case (sync s2 evs)
  from sync(1) show ?thesis
  proof (cases rule: sync_ignore_cases)
    case (read_failed e)
    with sync(2,3) ev have "p = path_join [projectRoot this, ''.gitignore'']" "rd = Inl e"
      by (auto simp: events_since_def)
    with read_failed show ?thesis by auto
  next
    case (write_failed e rd')
    with sync(2,3) ev have "p = path_join [projectRoot this, ''.gitignore'']" "rd = rd'"
      by (auto simp: events_since_def)
    with write_failed show ?thesis
      by (auto simp: repo_paths intro!: exI [of _ "world s2"] exI [of _ "Some e"])
  next
    case (synced rd')
    with sync(2,3) ev have "p = path_join [projectRoot this, ''.gitignore'']" "rd = rd'"
      by (auto simp: events_since_def)
    with synced show ?thesis
      by (auto simp: repo_paths intro!: exI [of _ "world s2"] exI [of _ "None"])
  qed
qed

lemma setup_success_reads:
  assumes run: "setupShadowGitRepository eng os this s = (Inr (), s')"
  shows "\<exists>rd. FsReadFile (path_join [projectRoot this, ''.gitignore'']) rd \<in> set (events_since s s')"
  using run by (cases rule: setup_initialized_cases) (auto simp: events_since_def)

lemma setup_trace_extends:
  assumes "setupShadowGitRepository eng os this s = (r, s')"
  shows "\<exists>evs. trace s' = trace s @ evs"
  using assms
proof (cases rule: setup_reaches_sync)
  case (stopped_before e evs)
  then show ?thesis by blast
next
  case (sync s2 evs)
  with sync_ignore_trace [OF sync(1)] show ?thesis by auto
qed

lemma events_since_after_probe:
  assumes "setupShadowGitRepository eng os this (emit (Exec c x) s) = (r, s')"
  shows "events_since s s' = Exec c x # events_since (emit (Exec c x) s) s'"
proof -
  from setup_trace_extends [OF assms] obtain evs where "trace s' = trace s @ Exec c x # evs"
    by auto
  then show ?thesis by (simp add: events_since_def)
qed

lemma sync_outcome_failed:
  assumes "sync_outcome (\<lambda>e. e) ign (Inl e0) s' p rd w"
  shows "sync_outcome wrap ign (Inl (wrap e0)) s' p rd w"
proof -
  from assms consider
    (a) e where "rd = Inl e" "code_of e \<noteq> ''ENOENT''" "e0 = e" "world s' = w"
      "last (trace s') = FsReadFile p rd"
  | (b) e where "\<forall>e. rd = Inl e \<longrightarrow> code_of e = ''ENOENT''"
      "last (trace s') = FsWriteFile ign (content_read rd) (Some e)" "e0 = e" "world s' = w"
    unfolding sync_outcome_def by (auto split: option.splits)
  then show ?thesis
  proof cases
    case a
    then show ?thesis unfolding sync_outcome_def by blast
  next
    case b
    have "\<exists>wr. last (trace s') = FsWriteFile ign (content_read rd) wr \<and>
                (case wr of
                   None \<Rightarrow> Inl (wrap e0) = Inr () \<and> world s' = with_file ign (content_read rd) w
                 | Some e \<Rightarrow> Inl (wrap e0) = Inl (wrap e) \<and> world s' = w)"
      using b by (intro exI [of _ "Some e"]) simp
    with b(1) show ?thesis unfolding sync_outcome_def by blast
  qed
qed

lemma sync_outcome_succeeded:
  assumes "sync_outcome (\<lambda>e. e) ign (Inr ()) s' p rd w"
  shows "sync_outcome wrap ign (Inr ()) s' p rd w"
proof -
  from assms have b: "\<forall>e. rd = Inl e \<longrightarrow> code_of e = ''ENOENT''"
      "last (trace s') = FsWriteFile ign (content_read rd) None"
      "world s' = with_file ign (content_read rd) w"
    unfolding sync_outcome_def by (auto split: option.splits)
  have "\<exists>wr. last (trace s') = FsWriteFile ign (content_read rd) wr \<and>
                (case wr of
                   None \<Rightarrow> (Inr () :: thrown + unit) = Inr () \<and> world s' = with_file ign (content_read rd) w
                 | Some e \<Rightarrow> (Inr () :: thrown + unit) = Inl (wrap e) \<and> world s' = w)"
    using b by (intro exI [of _ None]) simp
  with b(1) show ?thesis unfolding sync_outcome_def by blast
qed

lemma setup_sync_outcome':
  assumes run: "setupShadowGitRepository eng os this s = (r, s')"
    and ev: "FsReadFile p rd \<in> set (events_since s s')"
  shows "p = path_join [projectRoot this, ''.gitignore'']"
    and "\<exists>w. rd = readFile_result w p \<and>
           sync_outcome (\<lambda>e. e) (GitService_getHistoryDir os this @ ''/.gitignore'') r s' p rd w"
  using setup_sync_outcome [OF run ev] unfolding sync_outcome_def by blast+

lemma initialize_sync_outcome:
  assumes run: "initialize eng os this s = (r, s')"
    and ev: "FsReadFile p rd \<in> set (events_since s s')"
  shows "p = path_join [projectRoot this, ''.gitignore''] \<and>
    (\<exists>w. rd = readFile_result w p \<and>
           sync_outcome CheckpointInitFailed (GitService_getHistoryDir os this @ ''/.gitignore'') r s' p rd w)"
  using run
proof (cases rule: initialize_cases)
  case (unavailable e)
  with ev show ?thesis by (simp add: events_since_def emit_def)
next
  case (setup_failed e)
  from ev have ev': "FsReadFile p rd \<in> set (events_since (emit (Exec ''git --version'' None) s) s')"
    by (simp add: events_since_after_probe [OF setup_failed(2)])
  from setup_sync_outcome' [OF setup_failed(2) ev'] setup_failed(3) sync_outcome_failed
  show ?thesis by blast
next
  case initialized
  from ev have ev': "FsReadFile p rd \<in> set (events_since (emit (Exec ''git --version'' None) s) s')"
    by (simp add: events_since_after_probe [OF initialized(2)])
  from setup_sync_outcome' [OF initialized(2) ev'] initialized(3) sync_outcome_succeeded
  show ?thesis by blast
qed

lemma initialize_success_reads:
  assumes run: "initialize eng os this s = (Inr (), s')"
  shows "\<exists>rd. FsReadFile (path_join [projectRoot this, ''.gitignore'']) rd \<in> set (events_since s s')"
  using run
proof (cases rule: initialize_cases)
  case initialized
  from setup_success_reads [OF initialized(2)] show ?thesis
    by (auto simp: events_since_after_probe [OF initialized(2)])
qed simp_all

text \<open>
  Claim C5. In every run of \<open>initialize\<close> that succeeds, the project's ignore file
  was read. Whenever it was read, the outcome of the read decides the rest: a failure
  other than \<^verbatim>\<open>ENOENT\<close> makes \<open>initialize\<close> fail with that failure as its cause,
  and the read is the last thing the run did; otherwise the run ends by writing the
  shadow store's ignore file, with the contents read or, when the file was missing
  (\<^verbatim>\<open>ENOENT\<close>), with the empty string, and \<open>initialize\<close> succeeds exactly when that
  write does. What a read yields: the contents of the file, or \<^verbatim>\<open>ENOENT\<close> when there
  is no file; a path below a regular file gives \<^verbatim>\<open>ENOTDIR\<close>, a directory
  \<^verbatim>\<open>EISDIR\<close>, a call the operating system refuses the code of the refusal, and each
  of these three other than \<^verbatim>\<open>ENOENT\<close> makes \<open>initialize\<close> fail by the second part.
\<close>

theorem ignore_rules_synchronised:
  assumes run: "initialize eng os this s = (r, s')"
  shows "(r = Inr () \<longrightarrow>
            (\<exists>rd. FsReadFile (path_join [projectRoot this, ''.gitignore'']) rd \<in> set (events_since s s')))
       \<and> (\<forall>p rd. FsReadFile p rd \<in> set (events_since s s') \<longrightarrow>
            p = path_join [projectRoot this, ''.gitignore''] \<and>
            (\<exists>w. rd = readFile_result w p \<and>
               ((\<exists>e. rd = Inl e \<and> code_of e \<noteq> ''ENOENT'' \<and> r = Inl (CheckpointInitFailed e) \<and>
                     world s' = w \<and> last (trace s') = FsReadFile p rd)
                \<or> ((\<forall>e. rd = Inl e \<longrightarrow> code_of e = ''ENOENT'') \<and>
                    (\<exists>wr. last (trace s') =
                            FsWriteFile (GitService_getHistoryDir os this @ ''/.gitignore'') (content_read rd) wr \<and>
                          (case wr of
                             None \<Rightarrow> r = Inr () \<and>
                               world s' = with_file (GitService_getHistoryDir os this @ ''/.gitignore'')
                                            (content_read rd) w
                           | Some e \<Rightarrow> r = Inl (CheckpointInitFailed e) \<and> world s' = w))))))
       \<and> (\<forall>(w :: 'a world) p. fs_fault w (ReadFile p) = None \<and> p \<notin> dirs w \<and>
                \<not> list_ex (\<lambda>a. files w a \<noteq> None) (ancestors p) \<longrightarrow>
            readFile_result w p =
              (case files w p of None \<Rightarrow> Inl (errno ''ENOENT'' ''open'' p) | Some data \<Rightarrow> Inr data) \<and>
            code_of (errno ''ENOENT'' ''open'' p) = ''ENOENT'')
       \<and> (\<forall>(w :: 'a world) p. fs_fault w (ReadFile p) = None \<and> p \<notin> dirs w \<and>
                list_ex (\<lambda>a. files w a \<noteq> None) (ancestors p) \<longrightarrow>
            (\<exists>e. readFile_result w p = Inl e \<and> isNodeError e \<and> code_of e = ''ENOTDIR''))
       \<and> (\<forall>(w :: 'a world) p. fs_fault w (ReadFile p) = None \<and> p \<in> dirs w \<longrightarrow>
            (\<exists>e. readFile_result w p = Inl e \<and> isNodeError e \<and> code_of e = ''EISDIR''))
       \<and> (\<forall>(w :: 'a world) p c. fs_fault w (ReadFile p) = Some c \<longrightarrow>
            (\<exists>e. readFile_result w p = Inl e \<and> isNodeError e \<and> code_of e = c))"
proof (intro conjI allI impI)
  assume "r = Inr ()"
  with run initialize_success_reads
  show "\<exists>rd. FsReadFile (path_join [projectRoot this, ''.gitignore'']) rd \<in> set (events_since s s')"
    by blast
next
  fix p rd
  assume ev: "FsReadFile p rd \<in> set (events_since s s')"
  from initialize_sync_outcome [OF run ev]
  show "p = path_join [projectRoot this, ''.gitignore'']" by simp
  from initialize_sync_outcome [OF run ev, THEN conjunct2]
  show "\<exists>w. rd = readFile_result w p \<and>
               ((\<exists>e. rd = Inl e \<and> code_of e \<noteq> ''ENOENT'' \<and> r = Inl (CheckpointInitFailed e) \<and>
                     world s' = w \<and> last (trace s') = FsReadFile p rd)
                \<or> ((\<forall>e. rd = Inl e \<longrightarrow> code_of e = ''ENOENT'') \<and>
                    (\<exists>wr. last (trace s') =
                            FsWriteFile (GitService_getHistoryDir os this @ ''/.gitignore'') (content_read rd) wr \<and>
                          (case wr of
                             None \<Rightarrow> r = Inr () \<and>
                               world s' = with_file (GitService_getHistoryDir os this @ ''/.gitignore'')
                                            (content_read rd) w
                           | Some e \<Rightarrow> r = Inl (CheckpointInitFailed e) \<and> world s' = w))))"
    unfolding sync_outcome_def .
next
  fix w :: "'a world" and p
  assume "fs_fault w (ReadFile p) = None \<and> p \<notin> dirs w \<and>
          \<not> list_ex (\<lambda>a. files w a \<noteq> None) (ancestors p)"
  then show "readFile_result w p =
      (case files w p of None \<Rightarrow> Inl (errno ''ENOENT'' ''open'' p) | Some data \<Rightarrow> Inr data)"
    by (simp add: readFile_plain)
next
  fix p
  show "code_of (errno ''ENOENT'' ''open'' p) = ''ENOENT''" by simp
next
  fix w :: "'a world" and p
  assume "fs_fault w (ReadFile p) = None \<and> p \<notin> dirs w \<and>
          list_ex (\<lambda>a. files w a \<noteq> None) (ancestors p)"
  then have "readFile_result w p = Inl (errno ''ENOTDIR'' ''open'' p)"
    by (simp add: readFile_refused)
  then show "\<exists>e. readFile_result w p = Inl e \<and> isNodeError e \<and> code_of e = ''ENOTDIR''"
    by (simp add: errno_is_node)
next
  fix w :: "'a world" and p
  assume "fs_fault w (ReadFile p) = None \<and> p \<in> dirs w"
  then have "readFile_result w p = Inl (errno_fd ''EISDIR'' ''read'')"
    by (simp add: readFile_refused)
  then show "\<exists>e. readFile_result w p = Inl e \<and> isNodeError e \<and> code_of e = ''EISDIR''"
    by (simp add: errno_is_node)
next
  fix w :: "'a world" and p c
  assume "fs_fault w (ReadFile p) = Some c"
  then have "readFile_result w p = Inl (errno c ''open'' p)"
    by (simp add: readFile_refused)
  then show "\<exists>e. readFile_result w p = Inl e \<and> isNodeError e \<and> code_of e = c"
    by (simp add: errno_is_node)
qed

lemma state1_last: "last (trace state1) = FsWriteFile (repoDir0 @ ''/.gitignore'') ''node_modules\<newline>'' None"
  by (simp add: state1_def trace1_def)

lemma state1_read:
  "FsReadFile ''/work/app/.gitignore'' (Inr ''node_modules\<newline>'') \<in> set (events_since state0 state1)"
  by (simp add: events_since_def state1_def trace1_def)

theorem ignore_rules_synchronised_witness:
  "initialize toy_engine os0 service0 state0 = (Inr (), state1) \<and>
   FsReadFile ''/work/app/.gitignore'' (Inr ''node_modules\<newline>'') \<in> set (events_since state0 state1) \<and>
   last (trace state1) = FsWriteFile (repoDir0 @ ''/.gitignore'') ''node_modules\<newline>'' None \<and>
   files (world state1) (repoDir0 @ ''/.gitignore'') = Some ''node_modules\<newline>''"
proof -
  from ignore_rules_synchronised [OF run0] state1_read
  obtain w where
    "(\<exists>e. (Inr ''node_modules\<newline>'' :: thrown + string) = Inl e \<and> code_of e \<noteq> ''ENOENT'' \<and>
          (Inr () :: thrown + unit) = Inl (CheckpointInitFailed e) \<and>
          world state1 = w \<and> last (trace state1) = FsReadFile ''/work/app/.gitignore'' (Inr ''node_modules\<newline>''))
     \<or> ((\<forall>e. (Inr ''node_modules\<newline>'' :: thrown + string) = Inl e \<longrightarrow> code_of e = ''ENOENT'') \<and>
        (\<exists>wr. last (trace state1) =
                FsWriteFile (GitService_getHistoryDir os0 service0 @ ''/.gitignore'')
                  (content_read (Inr ''node_modules\<newline>'')) wr \<and>
              (case wr of
                 None \<Rightarrow> (Inr () :: thrown + unit) = Inr () \<and>
                   world state1 = with_file (GitService_getHistoryDir os0 service0 @ ''/.gitignore'')
                                (content_read (Inr ''node_modules\<newline>'')) w
               | Some e \<Rightarrow> (Inr () :: thrown + unit) = Inl (CheckpointInitFailed e) \<and> world state1 = w)))"
    by blast
  then obtain wr where
    "last (trace state1) = FsWriteFile (repoDir0 @ ''/.gitignore'') ''node_modules\<newline>'' wr"
    "case wr of None \<Rightarrow> world state1 = with_file (repoDir0 @ ''/.gitignore'') ''node_modules\<newline>'' w
     | Some e \<Rightarrow> False"
    by (auto simp: history0 content_read_def split: option.splits)
  then have "world state1 = with_file (repoDir0 @ ''/.gitignore'') ''node_modules\<newline>'' w"
    by (simp add: state1_last split: option.splits)
  then have "files (world state1) (repoDir0 @ ''/.gitignore'') = Some ''node_modules\<newline>''"
    by simp
  with run0 state1_read state1_last show ?thesis by simp
qed

text \<open>
  Claim C10. A run of \<open>setupShadowGitRepository\<close> that got its directory writes the
  configuration file next, with the fixed contents, whatever the file held and before
  the repository check, which follows only if the write succeeded. With an engine
  whose repository check, \<^verbatim>\<open>init\<close> and bootstrap commit leave files alone, the
  configuration file holds exactly the fixed contents after every successful
  \<open>initialize\<close>.
\<close>

theorem config_file_rewritten:
  assumes chk: "check_reads_metadata eng" and boot: "bootstrap_writes_metadata eng"
  shows "(\<forall>r s'. setupShadowGitRepository eng os this s = (r, s') \<and>
              mkdir_error (world s) (GitService_getHistoryDir os this) = None \<longrightarrow>
            (\<exists>wr rest. events_since s s' =
                FsMkdir (GitService_getHistoryDir os this) None
                # FsWriteFile (GitService_getHistoryDir os this @ ''/.gitconfig'') gitConfigContent wr
                # rest
              \<and> (wr \<noteq> None \<longrightarrow> rest = [])
              \<and> (wr = None \<longrightarrow> (\<exists>x rest'. rest =
                     Git (simpleGit (GitService_getHistoryDir os this)) (CheckIsRepo IS_REPO_ROOT) x # rest'))))
       \<and> (\<forall>s'. initialize eng os this s = (Inr (), s') \<longrightarrow>
            files (world s') (GitService_getHistoryDir os this @ ''/.gitconfig'') = Some gitConfigContent)
       \<and> gitConfigContent =
            ''[user]\<newline>  name = Gemini CLI\<newline>  email = gemini-cli@google.com\<newline>[commit]\<newline>  gpgsign = false\<newline>''"
proof (intro conjI allI impI)
  fix r s'
  assume "setupShadowGitRepository eng os this s = (r, s') \<and>
          mkdir_error (world s) (GitService_getHistoryDir os this) = None"
  then show "\<exists>wr rest. events_since s s' =
                FsMkdir (GitService_getHistoryDir os this) None
                # FsWriteFile (GitService_getHistoryDir os this @ ''/.gitconfig'') gitConfigContent wr
                # rest
              \<and> (wr \<noteq> None \<longrightarrow> rest = [])
              \<and> (wr = None \<longrightarrow> (\<exists>x rest'. rest =
                     Git (simpleGit (GitService_getHistoryDir os this)) (CheckIsRepo IS_REPO_ROOT) x # rest'))"
    using setup_starts_with_config [of eng os this s r s'] by (simp add: repo_paths)
next
  fix s'
  assume "initialize eng os this s = (Inr (), s')"
  then show "files (world s') (GitService_getHistoryDir os this @ ''/.gitconfig'') = Some gitConfigContent"
  proof (cases rule: initialize_cases)
    case initialized
    from config_after_setup [OF chk boot initialized(2)] show ?thesis .
  qed simp_all
next
  show "gitConfigContent =
            ''[user]\<newline>  name = Gemini CLI\<newline>  email = gemini-cli@google.com\<newline>[commit]\<newline>  gpgsign = false\<newline>''"
    unfolding gitConfigContent_def by (rule refl)
qed

theorem config_file_rewritten_witness:
  "check_reads_metadata toy_engine \<and> bootstrap_writes_metadata toy_engine \<and>
   initialize toy_engine os0 service0 state0 = (Inr (), state1) \<and>
   files (world state0) (repoDir0 @ ''/.gitconfig'') = None \<and>
   files (world state1) (repoDir0 @ ''/.gitconfig'') = Some gitConfigContent"
proof -
  from config_file_rewritten [OF toy_check_reads_metadata toy_bootstrap_writes_metadata, of os0 service0 state0]
  have "\<forall>s'. initialize toy_engine os0 service0 state0 = (Inr (), s') \<longrightarrow>
            files (world s') (GitService_getHistoryDir os0 service0 @ ''/.gitconfig'') = Some gitConfigContent"
    by blast
  with run0 have "files (world state1) (repoDir0 @ ''/.gitconfig'') = Some gitConfigContent"
    by (simp add: history0)
  with run0 toy_check_reads_metadata toy_bootstrap_writes_metadata repoDir0_facts(2) show ?thesis
    by simp
qed

section \<open>Snapshots and restores\<close>

lemma shadow_handle:
  "shadow_repo os this =
     \<lparr>baseDir = projectRoot this,
      envVars = Some [(''GIT_DIR'', GitService_getHistoryDir os this @ ''/.git''),
                      (''GIT_WORK_TREE'', projectRoot this),
                      (''HOME'', GitService_getHistoryDir os this),
                      (''XDG_CONFIG_HOME'', GitService_getHistoryDir os this)]\<rparr>"
  by (simp add: shadow_repo_def repo_paths)

lemma shadowGitRepository_cases [consumes 1, case_names no_directory handle]:
  assumes "shadowGitRepository os this s = (r, s')"
  obtains "\<not> folder_exists (world s) (projectRoot this)" "r = Inl cannot_use_directory" "s' = s"
  | "folder_exists (world s) (projectRoot this)" "r = Inr (shadow_repo os this)" "s' = s"
  using assms by (cases "folder_exists (world s) (projectRoot this)") (auto simp: shadowGitRepository_eq)

lemma try_catchE [consumes 1, case_names passed caught]:
  assumes "try_catch m h s = (r, s')"
  obtains x where "m s = (Inr x, s')" "r = Inr x"
  | e s1 where "m s = (Inl e, s1)" "h e s1 = (r, s')"
  using assms by (auto simp: try_catch_def split: prod.splits sum.splits)

lemma snapshot_body_cases [consumes 1, case_names add_failed commit_failed committed]:
  assumes run: "await (repo_add eng g ''.'') (\<lambda>_.
                await (repo_commit eng g message []) (\<lambda>commitResult. resolved commitResult)) s = (r, s')"
  obtains cause w1 where "add eng g ''.'' (world s) = (Inl cause, w1)"
      "r = Inl cause" "world s' = w1"
      "trace s' = trace s @ [Git g (Add ''.'') (Inl cause)]"
  | cause w1 w2 where "add eng g ''.'' (world s) = (Inr (), w1)"
      "commit eng g message [] w1 = (Inl cause, w2)"
      "r = Inl cause" "world s' = w2"
      "trace s' = trace s @ [Git g (Add ''.'') (Inr GDone), Git g (Commit message []) (Inl cause)]"
  | ref w1 w2 where "add eng g ''.'' (world s) = (Inr (), w1)"
      "commit eng g message [] w1 = (Inr ref, w2)"
      "r = Inr ref" "world s' = w2"
      "trace s' = trace s @ [Git g (Add ''.'') (Inr GDone), Git g (Commit message []) (Inr (GText ref))]"
  using run
proof (cases rule: awaitE)
  case (rejected e)
  from rejected(1) obtain w1 where
    "add eng g ''.'' (world s) = (Inl e, w1)"
    "s' = s\<lparr>world := w1, trace := trace s @ [Git g (Add ''.'') (Inl e)]\<rparr>"
    unfolding repo_add_def by (elim run_taskE) auto
  with rejected(2) show ?thesis using that(1) by auto
next
  case (resolved u s1)
  from resolved(1) obtain w1 where
    a: "add eng g ''.'' (world s) = (Inr (), w1)"
    and s1: "s1 = s\<lparr>world := w1, trace := trace s @ [Git g (Add ''.'') (Inr GDone)]\<rparr>"
    unfolding repo_add_def by (elim run_taskE) auto
  from resolved(2) show ?thesis
  proof (cases rule: awaitE)
    case (rejected e)
    from rejected(1) obtain w2 where
      "commit eng g message [] w1 = (Inl e, w2)"
      "s' = s1\<lparr>world := w2, trace := trace s1 @ [Git g (Commit message []) (Inl e)]\<rparr>"
      unfolding repo_commit_def using s1 by (elim run_taskE) auto
    with rejected(2) a s1 show ?thesis using that(2) by auto
  next
    case (resolved ref s2)
    from resolved(1) obtain w2 where
      c: "commit eng g message [] w1 = (Inr ref, w2)"
      and s2: "s2 = s1\<lparr>world := w2, trace := trace s1 @ [Git g (Commit message []) (Inr (GText ref))]\<rparr>"
      unfolding repo_commit_def using s1 by (elim run_taskE) auto
    from resolved(2) have "r = Inr ref" "s' = s2" by (auto simp: resolved_def)
    with a c s1 s2 show ?thesis using that(3) by auto
  qed
qed

lemma snapshot_cases [consumes 1, case_names no_directory add_failed commit_failed committed]:
  assumes run: "createFileSnapshot eng os this message s = (r, s')"
  obtains "\<not> folder_exists (world s) (projectRoot this)"
      "r = Inl (CheckpointFailed cannot_use_directory)" "s' = s"
  | cause w1 where "folder_exists (world s) (projectRoot this)"
      "add eng (shadow_repo os this) ''.'' (world s) = (Inl cause, w1)"
      "r = Inl (CheckpointFailed cause)" "world s' = w1"
      "trace s' = trace s @ [Git (shadow_repo os this) (Add ''.'') (Inl cause)]"
  | cause w1 w2 where "folder_exists (world s) (projectRoot this)"
      "add eng (shadow_repo os this) ''.'' (world s) = (Inr (), w1)"
      "commit eng (shadow_repo os this) message [] w1 = (Inl cause, w2)"
      "r = Inl (CheckpointFailed cause)" "world s' = w2"
      "trace s' = trace s @ [Git (shadow_repo os this) (Add ''.'') (Inr GDone),
         Git (shadow_repo os this) (Commit message []) (Inl cause)]"
  | ref w1 w2 where "folder_exists (world s) (projectRoot this)"
      "add eng (shadow_repo os this) ''.'' (world s) = (Inr (), w1)"
      "commit eng (shadow_repo os this) message [] w1 = (Inr ref, w2)"
      "r = Inr ref" "world s' = w2"
      "trace s' = trace s @ [Git (shadow_repo os this) (Add ''.'') (Inr GDone),
         Git (shadow_repo os this) (Commit message []) (Inr (GText ref))]"
proof (cases "folder_exists (world s) (projectRoot this)")
  case False
  with run have "r = Inl (CheckpointFailed cannot_use_directory)" "s' = s"
    by (auto simp: createFileSnapshot_eq try_catch_def await_def shadowGitRepository_eq throw_def)
  with False show ?thesis using that(1) by blast
next
  case True
  let ?g = "shadow_repo os this"
  let ?body = "await (repo_add eng ?g ''.'') (\<lambda>_.
                await (repo_commit eng ?g message []) (\<lambda>commitResult. resolved commitResult))"
  obtain r0 s0 where body: "?body s = (r0, s0)" by (cases "?body s")
  with run True have out: "s' = s0" "r = (case r0 of Inl e \<Rightarrow> Inl (CheckpointFailed e) | Inr ref \<Rightarrow> Inr ref)"
    by (auto simp: createFileSnapshot_eq try_catch_def await_def shadowGitRepository_eq throw_def
        split: sum.splits)
  from body show ?thesis
  proof (cases rule: snapshot_body_cases)
    case (add_failed cause w1)
    with out True show ?thesis using that(2) by auto
  next
    case (commit_failed cause w1 w2)
    with out True show ?thesis using that(3) by auto
  next
    case (committed ref w1 w2)
    with out True show ?thesis using that(4) by auto
  qed
qed

lemma restore_body_cases [consumes 1, case_names restore_failed clean_failed restored]:
  assumes run: "await (repo_raw eng g [''restore'', ''--source'', commitHash, ''.'']) (\<lambda>_.
                await (repo_clean eng g ''f'' [''-d'']) (\<lambda>_. resolved ())) s = (r, s')"
  obtains e w1 where
      "raw eng g [''restore'', ''--source'', commitHash, ''.''] (world s) = (Inl e, w1)"
      "r = Inl e" "world s' = w1"
      "trace s' = trace s @ [Git g (Raw [''restore'', ''--source'', commitHash, ''.'']) (Inl e)]"
  | e out w1 w2 where
      "raw eng g [''restore'', ''--source'', commitHash, ''.''] (world s) = (Inr out, w1)"
      "clean eng g ''f'' [''-d''] w1 = (Inl e, w2)"
      "r = Inl e" "world s' = w2"
      "trace s' = trace s @
         [Git g (Raw [''restore'', ''--source'', commitHash, ''.'']) (Inr (GText out)),
          Git g (Clean ''f'' [''-d'']) (Inl e)]"
  | out w1 w2 where
      "raw eng g [''restore'', ''--source'', commitHash, ''.''] (world s) = (Inr out, w1)"
      "clean eng g ''f'' [''-d''] w1 = (Inr (), w2)"
      "r = Inr ()" "world s' = w2"
      "trace s' = trace s @
         [Git g (Raw [''restore'', ''--source'', commitHash, ''.'']) (Inr (GText out)),
          Git g (Clean ''f'' [''-d'']) (Inr GDone)]"
  using run
proof (cases rule: awaitE)
  case (rejected e)
  from rejected(1) show ?thesis
    unfolding repo_raw_def using that(1) rejected(2) by (elim run_taskE) auto
next
  case (resolved out s1)
  from resolved(1) obtain w1 where
    a: "raw eng g [''restore'', ''--source'', commitHash, ''.''] (world s) = (Inr out, w1)"
    and s1: "s1 = s\<lparr>world := w1, trace := trace s @
        [Git g (Raw [''restore'', ''--source'', commitHash, ''.'']) (Inr (GText out))]\<rparr>"
    unfolding repo_raw_def by (elim run_taskE) auto
  from resolved(2) show ?thesis
  proof (cases rule: awaitE)
    case (rejected e)
    from rejected(1) show ?thesis
      unfolding repo_clean_def using that(2) rejected(2) a s1 by (elim run_taskE) auto
  next
    case (resolved u s2)
    from resolved(1) obtain w2 where
      c: "clean eng g ''f'' [''-d''] w1 = (Inr (), w2)"
      and s2: "s2 = s1\<lparr>world := w2, trace := trace s1 @ [Git g (Clean ''f'' [''-d'']) (Inr GDone)]\<rparr>"
      unfolding repo_clean_def using s1 by (elim run_taskE) auto
    from resolved(2) have "r = Inr ()" "s' = s2" by (auto simp: resolved_def)
    with a c s1 s2 show ?thesis using that(3) by auto
  qed
qed

lemma restore_cases [consumes 1, case_names no_directory restore_failed clean_failed restored]:
  assumes run: "restoreProjectFromSnapshot eng os this commitHash s = (r, s')"
  obtains "\<not> folder_exists (world s) (projectRoot this)" "r = Inl cannot_use_directory" "s' = s"
  | e w1 where "folder_exists (world s) (projectRoot this)"
      "raw eng (shadow_repo os this) [''restore'', ''--source'', commitHash, ''.''] (world s) = (Inl e, w1)"
      "r = Inl e" "world s' = w1"
      "trace s' = trace s @
         [Git (shadow_repo os this) (Raw [''restore'', ''--source'', commitHash, ''.'']) (Inl e)]"
  | e out w1 w2 where "folder_exists (world s) (projectRoot this)"
      "raw eng (shadow_repo os this) [''restore'', ''--source'', commitHash, ''.''] (world s) = (Inr out, w1)"
      "clean eng (shadow_repo os this) ''f'' [''-d''] w1 = (Inl e, w2)"
      "r = Inl e" "world s' = w2"
      "trace s' = trace s @
         [Git (shadow_repo os this) (Raw [''restore'', ''--source'', commitHash, ''.'']) (Inr (GText out)),
          Git (shadow_repo os this) (Clean ''f'' [''-d'']) (Inl e)]"
  | out w1 w2 where "folder_exists (world s) (projectRoot this)"
      "raw eng (shadow_repo os this) [''restore'', ''--source'', commitHash, ''.''] (world s) = (Inr out, w1)"
      "clean eng (shadow_repo os this) ''f'' [''-d''] w1 = (Inr (), w2)"
      "r = Inr ()" "world s' = w2"
      "trace s' = trace s @
         [Git (shadow_repo os this) (Raw [''restore'', ''--source'', commitHash, ''.'']) (Inr (GText out)),
          Git (shadow_repo os this) (Clean ''f'' [''-d'']) (Inr GDone)]"
proof (cases "folder_exists (world s) (projectRoot this)")
  case False
  with run have "r = Inl cannot_use_directory" "s' = s"
    by (auto simp: restoreProjectFromSnapshot_def await_def shadowGitRepository_eq)
  with False show ?thesis using that(1) by blast
next
  case True
  with run have "await (repo_raw eng (shadow_repo os this) [''restore'', ''--source'', commitHash, ''.'']) (\<lambda>_.
                await (repo_clean eng (shadow_repo os this) ''f'' [''-d'']) (\<lambda>_. resolved ())) s = (r, s')"
    by (simp add: restoreProjectFromSnapshot_def await_def shadowGitRepository_eq)
  then show ?thesis
  proof (cases rule: restore_body_cases)
    case (restore_failed e w1)
    with True show ?thesis using that(2) by blast
  next
    case (clean_failed e out w1 w2)
    with True show ?thesis using that(3) by blast
  next
    case (restored out w1 w2)
    with True show ?thesis using that(4) by blast
  qed
qed


lemma append_longer: "pre \<noteq> [] \<Longrightarrow> pre @ m @ post \<noteq> m"
proof
  assume "pre \<noteq> []" and "pre @ m @ post = m"
  then have "length (pre @ m @ post) = length m" by simp
  with \<open>pre \<noteq> []\<close> show False by simp
qed

lemma wraps_intro: "pre \<noteq> [] \<Longrightarrow> wraps (Error (pre @ message_of cause @ post)) cause"
  unfolding wraps_def by (simp add: append_longer sublist_def del: append_assoc) blast

lemma CheckpointFailed_wraps: "instanceof_Error cause \<Longrightarrow> wraps (CheckpointFailed cause) cause"
  unfolding CheckpointFailed_def by (simp only: if_True) (rule wraps_intro, simp)

lemma CheckpointInitFailed_wraps: "instanceof_Error cause \<Longrightarrow> wraps (CheckpointInitFailed cause) cause"
  unfolding CheckpointInitFailed_def by (simp only: if_True) (rule wraps_intro, simp)

lemma shadow_git_dir: "git_dir_of (shadow_repo os this) = GitService_getHistoryDir os this @ ''/.git''"
  by (simp add: shadow_handle git_dir_of_def)

lemma shadow_git_dir0: "git_dir_of (shadow_repo os0 service0) = repoDir0 @ ''/.git''"
  by (simp add: shadow_git_dir history0)

lemma world1_git: "git world1 = [repoDir0 @ ''/.git'' \<mapsto> [(''c'', ''Initial commit'')]]"
  by (simp add: world1_def)

lemma state1_simps [simp]: "world state1 = world1" "trace state1 = trace1"
  by (simp_all add: state1_def)
section \<open>The model of git\<close>

lemma git_model_fields [simp]:
  "checkIsRepo (git_model matches paths) = git_checkIsRepo"
  "init (git_model matches paths) = git_init"
  "commit (git_model matches paths) = git_commit"
  "add (git_model matches paths) = git_add matches paths"
  "raw (git_model matches paths) = git_raw"
  "clean (git_model matches paths) = git_clean matches paths"
  by (simp_all add: git_model_def)

lemma shadow_repo_fields [simp]:
  "baseDir (shadow_repo os this) = projectRoot this"
  "work_tree_of (shadow_repo os this) = projectRoot this"
  by (simp_all add: shadow_repo_def work_tree_of_def)

lemma set_scan:
  "((p, data) \<in> set (scan matches paths w dir idx)) =
     (p \<in> set paths \<and> files w p = Some data \<and> below dir p \<and>
      (tracked idx p \<or> \<not> matches (ignore_rules w dir) (drop (Suc (length dir)) p)))"
  by (auto simp: scan_def ignored_def split: option.splits if_splits)

lemma scan_with_file:
  assumes "\<not> below dir q" "q \<noteq> dir @ ''/.gitignore''"
  shows "scan matches paths (with_file q c w) dir idx = scan matches paths w dir idx"
proof -
  have r: "ignore_rules (with_file q c w) dir = ignore_rules w dir"
    using assms(2) by (simp add: ignore_rules_def with_file_def)
  have "\<And>p. (case files (with_file q c w) p of
               None \<Rightarrow> []
             | Some data \<Rightarrow> if below dir p \<and> (tracked idx p \<or> \<not> ignored matches (with_file q c w) dir p)
                              then [(p, data)] else [])
           = (case files w p of
               None \<Rightarrow> []
             | Some data \<Rightarrow> if below dir p \<and> (tracked idx p \<or> \<not> ignored matches w dir p)
                              then [(p, data)] else [])"
  proof -
    fix p
    have ig: "ignored matches (with_file q c w) dir p = ignored matches w dir p"
      by (simp add: ignored_def r)
    show "?thesis p" using assms(1) unfolding ig by (auto simp: with_file_def split: option.splits)
  qed
  then show ?thesis by (simp add: scan_def)
qed

lemma files_checkout:
  "files (checkout dir t idx w) p =
     (case map_of t p of
        Some data \<Rightarrow> Some data
      | None \<Rightarrow> if below dir p \<and> tracked idx p then None else files w p)"
  by (simp add: checkout_def)

lemma files_sweep:
  "files (sweep matches paths dir idx w) p =
     (if below dir p \<and> \<not> tracked idx p \<and> \<not> matches (ignore_rules w dir) (drop (Suc (length dir)) p)
      then None else files w p)"
  by (simp add: sweep_def swept_files_def ignored_def)

lemma git_snapshot:
  assumes root: "folder_exists (world s) (projectRoot this)"
    and repo: "git (world s) (GitService_getHistoryDir os this @ ''/.git'') = Some repo"
    and t: "t = scan matches paths (world s) (projectRoot this) (staged repo)"
  shows "createFileSnapshot (git_model matches paths) os this message s =
     (if t = head_tree repo then
        (Inr [], s\<lparr>world := (world s)\<lparr>git := (git (world s))(GitService_getHistoryDir os this @ ''/.git'' \<mapsto>
                       repo\<lparr>staged := t\<rparr>)\<rparr>,
                  trace := trace s @ [Git (shadow_repo os this) (Add ''.'') (Inr GDone),
                      Git (shadow_repo os this) (Commit message []) (Inr (GText []))]\<rparr>)
      else
        (Inr (''c'' @ replicate (length (commits repo)) CHR ''+''),
         s\<lparr>world := (world s)\<lparr>git := (git (world s))(GitService_getHistoryDir os this @ ''/.git'' \<mapsto>
                       repo\<lparr>staged := t,
                            commits := commits repo @
                              [(''c'' @ replicate (length (commits repo)) CHR ''+'', message, t)]\<rparr>)\<rparr>,
            trace := trace s @ [Git (shadow_repo os this) (Add ''.'') (Inr GDone),
                      Git (shadow_repo os this) (Commit message [])
                        (Inr (GText (''c'' @ replicate (length (commits repo)) CHR ''+'')))]\<rparr>))"
  using root repo t
  by (simp add: createFileSnapshot_eq try_catch_def await_def shadowGitRepository_eq repo_add_def
      repo_commit_def run_task_def emit_def resolved_def git_add_def git_commit_def shadow_git_dir
      head_tree_def Let_def)

lemma git_restore:
  assumes root: "folder_exists (world s) (projectRoot this)"
    and repo: "git (world s) (GitService_getHistoryDir os this @ ''/.git'') = Some repo"
    and t: "find_commit repo commitHash = Some t"
  shows "restoreProjectFromSnapshot (git_model matches paths) os this commitHash s =
     (Inr (), s\<lparr>world := sweep matches paths (projectRoot this) (staged repo)
                            (checkout (projectRoot this) t (staged repo) (world s)),
                trace := trace s @
                  [Git (shadow_repo os this) (Raw [''restore'', ''--source'', commitHash, ''.'']) (Inr (GText [])),
                   Git (shadow_repo os this) (Clean ''f'' [''-d'']) (Inr GDone)]\<rparr>)"
  using root repo t
  by (simp add: restoreProjectFromSnapshot_def await_def shadowGitRepository_eq repo_raw_def
      repo_clean_def run_task_def emit_def resolved_def git_raw_def git_clean_def shadow_git_dir
      checkout_def sweep_def)

lemma git_restore_unknown:
  assumes root: "folder_exists (world s) (projectRoot this)"
    and repo: "git (world s) (GitService_getHistoryDir os this @ ''/.git'') = Some repo"
    and t: "find_commit repo commitHash = None"
  shows "restoreProjectFromSnapshot (git_model matches paths) os this commitHash s =
     (Inl (GitError (''fatal: could not resolve '' @ commitHash)),
      s\<lparr>trace := trace s @
           [Git (shadow_repo os this) (Raw [''restore'', ''--source'', commitHash, ''.''])
              (Inl (GitError (''fatal: could not resolve '' @ commitHash)))]\<rparr>)"
  using root repo t
  by (simp add: restoreProjectFromSnapshot_def await_def shadowGitRepository_eq repo_raw_def
      run_task_def emit_def git_raw_def shadow_git_dir)

lemma git_snapshot_uninitialised:
  assumes root: "folder_exists (world s) (projectRoot this)"
    and repo: "git (world s) (GitService_getHistoryDir os this @ ''/.git'') = None"
  shows "createFileSnapshot (git_model matches paths) os this message s =
     (Inl (CheckpointFailed not_a_repository),
      s\<lparr>trace := trace s @ [Git (shadow_repo os this) (Add ''.'') (Inl not_a_repository)]\<rparr>)"
  using root repo
  by (simp add: createFileSnapshot_eq try_catch_def await_def shadowGitRepository_eq repo_add_def
      run_task_def emit_def throw_def git_add_def shadow_git_dir)

lemma git_snapshot_outcome:
  assumes root: "folder_exists (world s) (projectRoot this)"
    and repo: "git (world s) (GitService_getHistoryDir os this @ ''/.git'') = Some repo"
  shows "\<exists>ref s'. createFileSnapshot (git_model matches paths) os this message s = (Inr ref, s') \<and>
          files (world s') = files (world s) \<and> dirs (world s') = dirs (world s) \<and>
          (if scan matches paths (world s) (projectRoot this) (staged repo) = head_tree repo
           then ref = [] \<and>
                git (world s') (GitService_getHistoryDir os this @ ''/.git'') =
                  Some (repo\<lparr>staged := scan matches paths (world s) (projectRoot this) (staged repo)\<rparr>)
           else ref = ''c'' @ replicate (length (commits repo)) CHR ''+'' \<and>
                git (world s') (GitService_getHistoryDir os this @ ''/.git'') =
                  Some (repo\<lparr>staged := scan matches paths (world s) (projectRoot this) (staged repo),
                             commits := commits repo @
                               [(ref, message, scan matches paths (world s) (projectRoot this) (staged repo))]\<rparr>))"
  by (simp add: git_snapshot [OF root repo refl])

lemma git_restore_outcome:
  assumes root: "folder_exists (world s) (projectRoot this)"
    and repo: "git (world s) (GitService_getHistoryDir os this @ ''/.git'') = Some repo"
    and t: "find_commit repo commitHash = Some t"
  shows "\<exists>s'. restoreProjectFromSnapshot (git_model matches paths) os this commitHash s = (Inr (), s') \<and>
          world s' = sweep matches paths (projectRoot this) (staged repo)
                       (checkout (projectRoot this) t (staged repo) (world s)) \<and>
          git (world s') = git (world s)"
  by (simp add: git_restore [OF root repo t] sweep_def checkout_def)

section \<open>The example project under the model of git\<close>

lemma simpleGit_simps [simp]: "baseDir (simpleGit dir) = dir" "envVars (simpleGit dir) = None"
  by (simp_all add: simpleGit_def)

lemma project0_mkdir: "mkdir_error project0 repoDir0 = None"
  by code_simp

lemma project0_config: "writeFile_error (with_dir repoDir0 project0) (repoDir0 @ ''/.gitconfig'') = None"
  by code_simp

lemma project0_read:
  "readFile_result
     ((with_file (repoDir0 @ ''/.gitconfig'') gitConfigContent (with_dir repoDir0 project0))
        \<lparr>git := [repoDir0 @ ''/.git'' \<mapsto> \<lparr>commits = [(''c'', ''Initial commit'', [])], staged = []\<rparr>]\<rparr>)
     ''/work/app/.gitignore'' = Inr ''node_modules\<newline>''"
  by code_simp

lemma project0_ignore:
  "writeFile_error
     ((with_file (repoDir0 @ ''/.gitconfig'') gitConfigContent (with_dir repoDir0 project0))
        \<lparr>git := [repoDir0 @ ''/.git'' \<mapsto> \<lparr>commits = [(''c'', ''Initial commit'', [])], staged = []\<rparr>]\<rparr>)
     (repoDir0 @ ''/.gitignore'') = None"
  by code_simp

lemma run_git0: "initialize git0 os0 service0 started = (Inr (), initialised)"
proof -
  let ?w2 = "with_file (repoDir0 @ ''/.gitconfig'') gitConfigContent (with_dir repoDir0 project0)"
  let ?w4 = "?w2\<lparr>git := [repoDir0 @ ''/.git'' \<mapsto> \<lparr>commits = [], staged = []\<rparr>]\<rparr>"
  let ?w5 = "?w2\<lparr>git := [repoDir0 @ ''/.git'' \<mapsto> \<lparr>commits = [(''c'', ''Initial commit'', [])], staged = []\<rparr>]\<rparr>"
  have g: "git ?w2 = Map.empty" by (simp add: project0_def)
  have "initialize git0 os0 service0 started =
     (Inr (), started\<lparr>world := with_file (repoDir0 @ ''/.gitignore'') (content_read (Inr ''node_modules\<newline>'')) ?w5,
               trace := trace started @
                 [Exec ''git --version'' None,
                  FsMkdir repoDir0 None,
                  FsWriteFile (repoDir0 @ ''/.gitconfig'') gitConfigContent None,
                  Git (simpleGit repoDir0) (CheckIsRepo IS_REPO_ROOT) (Inr (GBool False)),
                  Git (simpleGit repoDir0) (Init False [(''--initial-branch'', Some ''main'')]) (Inr GDone),
                  Git (simpleGit repoDir0) (Commit ''Initial commit'' [(''--allow-empty'', None)]) (Inr (GText ''c'')),
                  FsReadFile ''/work/app/.gitignore'' (Inr ''node_modules\<newline>''),
                  FsWriteFile (repoDir0 @ ''/.gitignore'') (content_read (Inr ''node_modules\<newline>'')) None]\<rparr>)"
  proof (rule initialize_fresh [where ?w3.0 = ?w2 and ?w4.0 = ?w4 and ?w5.0 = ?w5])
    show "repoDir0 = GitService_getHistoryDir os0 service0" by (simp add: history0)
    show "''/work/app/.gitignore'' = path_join [projectRoot service0, ''.gitignore'']"
      by (simp add: projectRoot0 userIgnore0)
    show "exec_error (world started) ''git --version'' = None" by (simp add: started_def project0_def)
    show "mkdir_error (world started) repoDir0 = None" by (simp add: started_def project0_mkdir)
    show "writeFile_error (with_dir repoDir0 (world started)) (repoDir0 @ ''/.gitconfig'') = None"
      by (simp add: started_def project0_config)
    show "checkIsRepo git0 (simpleGit repoDir0) IS_REPO_ROOT
            (with_file (repoDir0 @ ''/.gitconfig'') gitConfigContent (with_dir repoDir0 (world started)))
          = (Inr False, ?w2)"
      using g by (simp add: git0_def git_checkIsRepo_def started_def)
    show "init git0 (simpleGit repoDir0) False [(''--initial-branch'', Some ''main'')] ?w2 = (Inr (), ?w4)"
      using g by (simp add: git0_def git_init_def git_dir0)
    show "commit git0 (simpleGit repoDir0) ''Initial commit'' [(''--allow-empty'', None)] ?w4 = (Inr ''c'', ?w5)"
      by (simp add: git0_def git_commit_def git_dir0 Let_def)
    show "readFile_result ?w5 ''/work/app/.gitignore'' = Inr ''node_modules\<newline>''"
      by (rule project0_read)
    show "\<And>e. (Inr ''node_modules\<newline>'' :: thrown + string) = Inl e \<Longrightarrow> code_of e = ''ENOENT''" by simp
    show "writeFile_error ?w5 (repoDir0 @ ''/.gitignore'') = None" by (rule project0_ignore)
  qed
  then show ?thesis
    by (simp add: started_def initialised_def project1_def trace1_def content_read_def)
qed

lemma scan1: "scan names_match walk0 project1 ''/work/app'' [] = tree1"
  by code_simp

lemma scan2: "scan names_match walk0 project2 ''/work/app'' tree1 = tree1"
  by code_simp

lemma tree1_not_Nil: "tree1 \<noteq> []"
  by (simp add: tree1_def)

lemma project1_git:
  "git project1 = [repoDir0 @ ''/.git'' \<mapsto> \<lparr>commits = [(''c'', ''Initial commit'', [])], staged = []\<rparr>]"
  by (simp add: project1_def with_file_def)

lemma project1_root: "folder_exists project1 ''/work/app''"
  by (simp add: folder_exists_def project1_def with_file_def with_dir_def project0_def)

lemma project2_git:
  "git project2 = [repoDir0 @ ''/.git'' \<mapsto>
       \<lparr>commits = [(''c'', ''Initial commit'', []), (''c+'', ''before refactor'', tree1)], staged = tree1\<rparr>]"
  by (simp add: project2_def)

lemma project2_root: "folder_exists project2 ''/work/app''"
  using project1_root by (simp add: folder_exists_def project2_def)

lemma project3_root: "folder_exists project3 ''/work/app''"
  using project2_root by (simp add: folder_exists_def project3_def with_file_def with_dir_def)

lemma project3_git: "git project3 = git project2"
  by (simp add: project3_def with_file_def with_dir_def)

lemma snapshot1:
  "createFileSnapshot git0 os0 service0 ''before refactor'' initialised = (Inr ''c+'', snapshotted)"
  unfolding git0_def
  by (subst git_snapshot [where repo = "\<lparr>commits = [(''c'', ''Initial commit'', [])], staged = []\<rparr>" and t = tree1])
     (simp_all add: initialised_def projectRoot0 history0 project1_root project1_git scan1 head_tree_def
        snapshotted_def project2_def tree1_not_Nil)

text \<open>A second snapshot of the unchanged tree.\<close>

lemma snapshot_again:
  "createFileSnapshot git0 os0 service0 ''again'' snapshotted =
     (Inr [], snapshotted\<lparr>trace := trace snapshotted @
        [Git (shadow_repo os0 service0) (Add ''.'') (Inr GDone),
         Git (shadow_repo os0 service0) (Commit ''again'' []) (Inr (GText []))]\<rparr>)"
proof -
  have w: "world snapshotted = project2" by (simp add: snapshotted_def)
  have "project2\<lparr>git := (git project2)(repoDir0 @ ''/.git'' \<mapsto>
       \<lparr>commits = [(''c'', ''Initial commit'', []), (''c+'', ''before refactor'', tree1)], staged = tree1\<rparr>
         \<lparr>staged := tree1\<rparr>)\<rparr> = project2"
    by (simp add: project2_def)
  then show ?thesis
    unfolding git0_def
    by (subst git_snapshot [where repo = "\<lparr>commits = [(''c'', ''Initial commit'', []), (''c+'', ''before refactor'', tree1)], staged = tree1\<rparr>" and t = tree1])
       (simp_all add: w projectRoot0 history0 project2_root project2_git scan2 head_tree_def)
qed

lemma find1: "find_commit \<lparr>commits = [(''c'', ''Initial commit'', []), (''c+'', ''before refactor'', tree1)], staged = tree1\<rparr> ''c+'' = Some tree1"
  by (simp add: find_commit_def)

lemma restored_files:
  "map (files (sweep names_match walk0 ''/work/app'' tree1 (checkout ''/work/app'' tree1 tree1 project3))) walk0
     = [Some ''node_modules\<newline>'', Some ''v1'', None, Some ''lib'']"
  by code_simp

lemma edited_files:
  "map (files project3) walk0 = [Some ''node_modules\<newline>'', Some ''v2'', Some ''new'', Some ''lib'']"
  by code_simp

lemma restored_dirs:
  "''/work/app/tmp'' \<in> dirs project3 \<and>
   ''/work/app/tmp'' \<notin> dirs (sweep names_match walk0 ''/work/app'' tree1 (checkout ''/work/app'' tree1 tree1 project3)) \<and>
   ''/work/app/node_modules'' \<in> dirs (sweep names_match walk0 ''/work/app'' tree1 (checkout ''/work/app'' tree1 tree1 project3))"
  by code_simp

lemma restore1:
  "restoreProjectFromSnapshot git0 os0 service0 ''c+'' \<lparr>world = project3, trace = []\<rparr> =
     (Inr (), \<lparr>world = sweep names_match walk0 ''/work/app'' tree1 (checkout ''/work/app'' tree1 tree1 project3),
               trace = [Git (shadow_repo os0 service0) (Raw [''restore'', ''--source'', ''c+'', ''.'']) (Inr (GText [])),
                        Git (shadow_repo os0 service0) (Clean ''f'' [''-d'']) (Inr GDone)]\<rparr>)"
  unfolding git0_def
  by (subst git_restore [where repo = "\<lparr>commits = [(''c'', ''Initial commit'', []), (''c+'', ''before refactor'', tree1)], staged = tree1\<rparr>" and t = tree1])
     (simp_all add: projectRoot0 history0 project3_root project3_git project2_git find1)

lemma unignored_copy: "files project1_unignored (repoDir0 @ ''/.gitignore'') = Some ''node_modules\<newline>''"
  by code_simp

lemma unignored_scan:
  "scan names_match walk0 project1_unignored ''/work/app'' [] =
     [(''/work/app/.gitignore'', []), (''/work/app/a.txt'', ''v1''), (''/work/app/node_modules/x.js'', ''lib'')]"
  by code_simp

lemma unignored_root: "folder_exists project1_unignored ''/work/app''"
  using project1_root by (simp add: folder_exists_def project1_unignored_def with_file_def)

lemma unignored_git: "git project1_unignored = git project1"
  by (simp add: project1_unignored_def with_file_def)

lemma names_match0: "names_match ''node_modules\<newline>'' ''node_modules/x.js''"
  by code_simp

lemma snapshot_unignored:
  "createFileSnapshot git0 os0 service0 ''with dependencies'' \<lparr>world = project1_unignored, trace = []\<rparr> =
     (Inr ''c+'',
      \<lparr>world = project1_unignored\<lparr>git := [repoDir0 @ ''/.git'' \<mapsto>
          \<lparr>commits = [(''c'', ''Initial commit'', []),
             (''c+'', ''with dependencies'',
                [(''/work/app/.gitignore'', []), (''/work/app/a.txt'', ''v1''),
                 (''/work/app/node_modules/x.js'', ''lib'')])],
           staged = [(''/work/app/.gitignore'', []), (''/work/app/a.txt'', ''v1''),
                 (''/work/app/node_modules/x.js'', ''lib'')]\<rparr>]\<rparr>,
       trace = [Git (shadow_repo os0 service0) (Add ''.'') (Inr GDone),
         Git (shadow_repo os0 service0) (Commit ''with dependencies'' []) (Inr (GText ''c+''))]\<rparr>)"
  unfolding git0_def
  by (subst git_snapshot [where repo = "\<lparr>commits = [(''c'', ''Initial commit'', [])], staged = []\<rparr>"
        and t = "[(''/work/app/.gitignore'', []), (''/work/app/a.txt'', ''v1''), (''/work/app/node_modules/x.js'', ''lib'')]"])
     (simp_all add: projectRoot0 history0 unignored_root unignored_git project1_git unignored_scan head_tree_def)

section \<open>The head of the store, and a bootstrap that fails\<close>

lemma signing_engine_fields [simp]:
  "checkIsRepo signing_engine = toy_checkIsRepo" "init signing_engine = toy_init"
  "commit signing_engine = (\<lambda>g message options w.
      if envVars g = None then (Inl signing_fails, w) else toy_commit g message options w)"
  "add signing_engine = toy_add" "raw signing_engine = toy_raw" "clean signing_engine = toy_clean"
  by (simp_all add: signing_engine_def toy_engine_def)

lemma run_signing:
  "initialize signing_engine os0 service0 state0 = (Inl (CheckpointInitFailed signing_fails), state_half)"
proof -
  let ?w2 = "with_file (repoDir0 @ ''/.gitconfig'') gitConfigContent (with_dir repoDir0 world0)"
  let ?w4 = "?w2\<lparr>git := [repoDir0 @ ''/.git'' \<mapsto> []]\<rparr>"
  have "initialize signing_engine os0 service0 state0 =
     (Inl (CheckpointInitFailed signing_fails),
      state0\<lparr>world := ?w4,
        trace := trace state0 @
          [Exec ''git --version'' None,
           FsMkdir repoDir0 None,
           FsWriteFile (repoDir0 @ ''/.gitconfig'') gitConfigContent None,
           Git (simpleGit repoDir0) (CheckIsRepo IS_REPO_ROOT) (Inr (GBool False)),
           Git (simpleGit repoDir0) (Init False [(''--initial-branch'', Some ''main'')]) (Inr GDone),
           Git (simpleGit repoDir0) (Commit ''Initial commit'' [(''--allow-empty'', None)]) (Inl signing_fails)]\<rparr>)"
  proof (rule initialize_bootstrap_failed [where ?w3.0 = ?w2 and ?w4.0 = ?w4])
    show "repoDir0 = GitService_getHistoryDir os0 service0" by (simp add: history0)
    show "exec_error (world state0) ''git --version'' = None" by simp
    show "mkdir_error (world state0) repoDir0 = None" by (simp add: mkdir0)
    show "writeFile_error (with_dir repoDir0 (world state0)) (repoDir0 @ ''/.gitconfig'') = None"
      by (simp add: write_config0)
    show "checkIsRepo signing_engine (simpleGit repoDir0) IS_REPO_ROOT
            (with_file (repoDir0 @ ''/.gitconfig'') gitConfigContent (with_dir repoDir0 (world state0)))
          = (Inr False, ?w2)"
      by (simp add: toy_check0)
    show "init signing_engine (simpleGit repoDir0) False [(''--initial-branch'', Some ''main'')] ?w2 = (Inr (), ?w4)"
      by (simp add: toy_init0)
    show "commit signing_engine (simpleGit repoDir0) ''Initial commit'' [(''--allow-empty'', None)] ?w4
          = (Inl signing_fails, ?w4)"
      by simp
  qed
  then show ?thesis
    by (simp add: state0_def state_half_def world_half_def trace_half_def)
qed






lemma half_git: "git world_half = [repoDir0 @ ''/.git'' \<mapsto> []]"
  by (simp add: world_half_def)


lemma resumed_root: "folder_exists (world state_resumed) (projectRoot service0)"
  by (simp add: projectRoot0 folder_exists_def state_resumed_def world_half_def with_file_def with_dir_def)









lemma snapshot_signing:
  "fst (createFileSnapshot signing_engine os0 service0 ''first'' state_resumed) = Inr ''c''"
proof -
  have g: "git (world state_resumed) = [repoDir0 @ ''/.git'' \<mapsto> []]"
    by (simp add: state_resumed_def half_git)
  from resumed_root
  have "shadowGitRepository os0 service0 state_resumed = (Inr (shadow_repo os0 service0), state_resumed)"
    by (rule shadowGitRepository_eq)
  moreover have "envVars (shadow_repo os0 service0) \<noteq> None" by (simp add: shadow_repo_def)
  ultimately show ?thesis
    by (auto simp: createFileSnapshot_eq try_catch_def await_def repo_add_def repo_commit_def run_task_def
        emit_def resolved_def toy_add_def toy_commit_def shadow_git_dir0 g Let_def)
qed

section \<open>Claims on snapshots and restores\<close>

text \<open>
  Claim C8, as stated, fails in two places, shown on the example project with git as
  the engine. A snapshot of a tree that has not changed since the last one makes no
  commit, and what \<open>createFileSnapshot\<close> then returns is the empty string, not the
  reference of a new snapshot. And the rules that decide what is staged are those of
  the \<^verbatim>\<open>.gitignore\<close> in the working tree at the time of the snapshot; the copy that
  \<open>initialize\<close> wrote into the history directory is not read: once the user has
  emptied the project's rule file, the dependency file is staged although the copy
  still lists its directory.
\<close>

theorem snapshot_of_unchanged_tree:
  "createFileSnapshot git0 os0 service0 ''before refactor'' initialised = (Inr ''c+'', snapshotted) \<and>
   fst (createFileSnapshot git0 os0 service0 ''again'' snapshotted) = Inr [] \<and>
   git (world (snd (createFileSnapshot git0 os0 service0 ''again'' snapshotted))) = git (world snapshotted) \<and>
   files project1_unignored (repoDir0 @ ''/.gitignore'') = Some ''node_modules\<newline>'' \<and>
   names_match ''node_modules\<newline>'' ''node_modules/x.js'' \<and>
   map_option staged
     (git (world (snd (createFileSnapshot git0 os0 service0 ''with dependencies''
                         \<lparr>world = project1_unignored, trace = []\<rparr>))) (repoDir0 @ ''/.git'')) =
     Some [(''/work/app/.gitignore'', []), (''/work/app/a.txt'', ''v1''),
           (''/work/app/node_modules/x.js'', ''lib'')]"
  by (simp add: snapshot1 snapshot_again unignored_copy names_match0 snapshot_unignored)

text \<open>
  Claim C8, amended. \<open>createFileSnapshot\<close> gets the handle whose working tree is the
  project root and whose metadata and configuration are in the history directory,
  asks the engine to stage everything below the working tree (\<^verbatim>\<open>add('.')\<close>) and
  then to commit under the given message; it returns what the engine's commit
  reports and makes no other call. Each failure, of the handle (the project root is
  no directory: no call is made), of the staging or of the commit, is rejected as a
  new error that names the snapshot as the failed operation and holds the message of
  the cause; for every cause that is an \<^verbatim>\<open>Error\<close> this error wraps the cause.

  With git as the engine: staging puts into the index the files below the project
  root, leaving out those that the rules of the project's own \<^verbatim>\<open>.gitignore\<close>
  exclude and that are not tracked yet; a file outside the working tree, such as the
  copy of the rules in the history directory, has no part in it. The commit records
  the index under the message and its reference is returned, unless the index is the
  tree of the head: then no commit is made and the empty string is returned. Files
  and directories stay as they are. On a store that was never initialised the
  rejection wraps git's "not a git repository".
\<close>

theorem snapshot_stages_and_commits:
  "(\<forall>(eng :: 'a engine) s r s'. createFileSnapshot eng os this message s = (r, s') \<longrightarrow>
      (\<not> folder_exists (world s) (projectRoot this) \<and>
       r = Inl (CheckpointFailed cannot_use_directory) \<and> s' = s)
      \<or> (folder_exists (world s) (projectRoot this) \<and>
          ((\<exists>ref w1. add eng (shadow_repo os this) ''.'' (world s) = (Inr (), w1) \<and>
                commit eng (shadow_repo os this) message [] w1 = (Inr ref, world s') \<and>
                r = Inr ref \<and>
                events_since s s' =
                  [Git (shadow_repo os this) (Add ''.'') (Inr GDone),
                   Git (shadow_repo os this) (Commit message []) (Inr (GText ref))])
           \<or> (\<exists>cause. r = Inl (CheckpointFailed cause) \<and>
                (events_since s s' = [Git (shadow_repo os this) (Add ''.'') (Inl cause)] \<or>
                 events_since s s' =
                   [Git (shadow_repo os this) (Add ''.'') (Inr GDone),
                    Git (shadow_repo os this) (Commit message []) (Inl cause)])))))
   \<and> shadow_repo os this =
        \<lparr>baseDir = projectRoot this,
         envVars = Some [(''GIT_DIR'', GitService_getHistoryDir os this @ ''/.git''),
                         (''GIT_WORK_TREE'', projectRoot this),
                         (''HOME'', GitService_getHistoryDir os this),
                         (''XDG_CONFIG_HOME'', GitService_getHistoryDir os this)]\<rparr>
   \<and> (\<forall>cause. CheckpointFailed cause =
              Error (''Failed to create checkpoint snapshot: ''
                 @ (if instanceof_Error cause then message_of cause else ''Unknown error'')
                 @ ''. Checkpointing may not be working properly.'')
            \<and> (instanceof_Error cause \<longrightarrow> wraps (CheckpointFailed cause) cause))
   \<and> (\<forall>matches paths s repo.
        folder_exists (world s) (projectRoot this) \<and>
        git (world s) (GitService_getHistoryDir os this @ ''/.git'') = Some repo \<longrightarrow>
        (\<exists>ref s'. createFileSnapshot (git_model matches paths) os this message s = (Inr ref, s') \<and>
          files (world s') = files (world s) \<and> dirs (world s') = dirs (world s) \<and>
          (if scan matches paths (world s) (projectRoot this) (staged repo) = head_tree repo
           then ref = [] \<and>
                git (world s') (GitService_getHistoryDir os this @ ''/.git'') =
                  Some (repo\<lparr>staged := scan matches paths (world s) (projectRoot this) (staged repo)\<rparr>)
           else ref = ''c'' @ replicate (length (commits repo)) CHR ''+'' \<and>
                git (world s') (GitService_getHistoryDir os this @ ''/.git'') =
                  Some (repo\<lparr>staged := scan matches paths (world s) (projectRoot this) (staged repo),
                             commits := commits repo @
                               [(ref, message, scan matches paths (world s) (projectRoot this) (staged repo))]\<rparr>))))
   \<and> (\<forall>matches paths s.
        folder_exists (world s) (projectRoot this) \<and>
        git (world s) (GitService_getHistoryDir os this @ ''/.git'') = None \<longrightarrow>
        createFileSnapshot (git_model matches paths) os this message s =
          (Inl (CheckpointFailed not_a_repository),
           s\<lparr>trace := trace s @ [Git (shadow_repo os this) (Add ''.'') (Inl not_a_repository)]\<rparr>))
   \<and> (\<forall>matches paths (w :: 'a world) dir idx p data.
        ((p, data) \<in> set (scan matches paths w dir idx)) =
          (p \<in> set paths \<and> files w p = Some data \<and> below dir p \<and>
           (tracked idx p \<or> \<not> matches (ignore_rules w dir) (drop (Suc (length dir)) p))))
   \<and> (\<forall>(w :: 'a world) dir.
        ignore_rules w dir = (case files w (dir @ ''/.gitignore'') of None \<Rightarrow> [] | Some rules \<Rightarrow> rules))
   \<and> (\<forall>matches paths (w :: 'a world) dir idx q c.
        \<not> below dir q \<and> q \<noteq> dir @ ''/.gitignore'' \<longrightarrow>
        scan matches paths (with_file q c w) dir idx = scan matches paths w dir idx)"
proof (intro conjI allI impI)
  fix eng :: "'a engine" and s r s'
  assume run: "createFileSnapshot eng os this message s = (r, s')"
  then show "(\<not> folder_exists (world s) (projectRoot this) \<and>
       r = Inl (CheckpointFailed cannot_use_directory) \<and> s' = s)
      \<or> (folder_exists (world s) (projectRoot this) \<and>
          ((\<exists>ref w1. add eng (shadow_repo os this) ''.'' (world s) = (Inr (), w1) \<and>
                commit eng (shadow_repo os this) message [] w1 = (Inr ref, world s') \<and>
                r = Inr ref \<and>
                events_since s s' =
                  [Git (shadow_repo os this) (Add ''.'') (Inr GDone),
                   Git (shadow_repo os this) (Commit message []) (Inr (GText ref))])
           \<or> (\<exists>cause. r = Inl (CheckpointFailed cause) \<and>
                (events_since s s' = [Git (shadow_repo os this) (Add ''.'') (Inl cause)] \<or>
                 events_since s s' =
                   [Git (shadow_repo os this) (Add ''.'') (Inr GDone),
                    Git (shadow_repo os this) (Commit message []) (Inl cause)]))))"
  proof (cases rule: snapshot_cases)
    case no_directory
    then show ?thesis by blast
  next
    case (add_failed cause w1)
    from add_failed(5) have "events_since s s' = [Git (shadow_repo os this) (Add ''.'') (Inl cause)]"
      by (simp add: events_since_eq)
    with add_failed(1,3) show ?thesis by blast
  next
    case (commit_failed cause w1 w2)
    from commit_failed(6) have "events_since s s' =
        [Git (shadow_repo os this) (Add ''.'') (Inr GDone),
         Git (shadow_repo os this) (Commit message []) (Inl cause)]"
      by (simp add: events_since_eq)
    with commit_failed(1,4) show ?thesis by blast
  next
    case (committed ref w1 w2)
    from committed(6) have "events_since s s' =
        [Git (shadow_repo os this) (Add ''.'') (Inr GDone),
         Git (shadow_repo os this) (Commit message []) (Inr (GText ref))]"
      by (simp add: events_since_eq)
    with committed(1-5) show ?thesis by blast
  qed
next
  show "shadow_repo os this =
        \<lparr>baseDir = projectRoot this,
         envVars = Some [(''GIT_DIR'', GitService_getHistoryDir os this @ ''/.git''),
                         (''GIT_WORK_TREE'', projectRoot this),
                         (''HOME'', GitService_getHistoryDir os this),
                         (''XDG_CONFIG_HOME'', GitService_getHistoryDir os this)]\<rparr>"
    by (rule shadow_handle)
next
  fix cause
  show "CheckpointFailed cause =
              Error (''Failed to create checkpoint snapshot: ''
                 @ (if instanceof_Error cause then message_of cause else ''Unknown error'')
                 @ ''. Checkpointing may not be working properly.'')"
    unfolding CheckpointFailed_def by (rule refl)
  show "instanceof_Error cause \<Longrightarrow> wraps (CheckpointFailed cause) cause"
    by (rule CheckpointFailed_wraps)
next
  fix matches paths and s :: "git_store state" and repo
  assume "folder_exists (world s) (projectRoot this) \<and>
        git (world s) (GitService_getHistoryDir os this @ ''/.git'') = Some repo"
  then show "\<exists>ref s'. createFileSnapshot (git_model matches paths) os this message s = (Inr ref, s') \<and>
          files (world s') = files (world s) \<and> dirs (world s') = dirs (world s) \<and>
          (if scan matches paths (world s) (projectRoot this) (staged repo) = head_tree repo
           then ref = [] \<and>
                git (world s') (GitService_getHistoryDir os this @ ''/.git'') =
                  Some (repo\<lparr>staged := scan matches paths (world s) (projectRoot this) (staged repo)\<rparr>)
           else ref = ''c'' @ replicate (length (commits repo)) CHR ''+'' \<and>
                git (world s') (GitService_getHistoryDir os this @ ''/.git'') =
                  Some (repo\<lparr>staged := scan matches paths (world s) (projectRoot this) (staged repo),
                             commits := commits repo @
                               [(ref, message, scan matches paths (world s) (projectRoot this) (staged repo))]\<rparr>))"
    using git_snapshot_outcome by blast
next
  fix matches paths and s :: "git_store state"
  assume "folder_exists (world s) (projectRoot this) \<and>
        git (world s) (GitService_getHistoryDir os this @ ''/.git'') = None"
  then show "createFileSnapshot (git_model matches paths) os this message s =
          (Inl (CheckpointFailed not_a_repository),
           s\<lparr>trace := trace s @ [Git (shadow_repo os this) (Add ''.'') (Inl not_a_repository)]\<rparr>)"
    by (simp add: git_snapshot_uninitialised)
next
  fix matches paths and w :: "'a world" and dir idx p data
  show "((p, data) \<in> set (scan matches paths w dir idx)) =
          (p \<in> set paths \<and> files w p = Some data \<and> below dir p \<and>
           (tracked idx p \<or> \<not> matches (ignore_rules w dir) (drop (Suc (length dir)) p)))"
    by (rule set_scan)
next
  fix w :: "'a world" and dir
  show "ignore_rules w dir = (case files w (dir @ ''/.gitignore'') of None \<Rightarrow> [] | Some rules \<Rightarrow> rules)"
    by (rule ignore_rules_def)
next
  fix matches paths and w :: "'a world" and dir idx q c
  assume "\<not> below dir q \<and> q \<noteq> dir @ ''/.gitignore''"
  then show "scan matches paths (with_file q c w) dir idx = scan matches paths w dir idx"
    by (simp add: scan_with_file)
qed

theorem snapshot_stages_and_commits_witness:
  "createFileSnapshot git0 os0 service0 ''before refactor'' initialised = (Inr ''c+'', snapshotted) \<and>
   files (world initialised) ''/work/app/a.txt'' = Some ''v1'' \<and>
   files (world initialised) ''/work/app/node_modules/x.js'' = Some ''lib'' \<and>
   git (world snapshotted) (repoDir0 @ ''/.git'') =
     Some \<lparr>commits = [(''c'', ''Initial commit'', []),
                       (''c+'', ''before refactor'',
                        [(''/work/app/.gitignore'', ''node_modules\<newline>''), (''/work/app/a.txt'', ''v1'')])],
           staged = [(''/work/app/.gitignore'', ''node_modules\<newline>''), (''/work/app/a.txt'', ''v1'')]\<rparr> \<and>
   fst (createFileSnapshot git0 os0 service0 ''before refactor'' started) = Inl (CheckpointFailed not_a_repository) \<and>
   wraps (CheckpointFailed not_a_repository) not_a_repository"
proof -
  note t = snapshot_stages_and_commits [where 'a = git_store, of os0 service0 "''before refactor''"]
  have "wraps (CheckpointFailed not_a_repository) not_a_repository"
  proof -
    from t [THEN conjunct2, THEN conjunct2, THEN conjunct1, THEN spec, of not_a_repository]
    have "instanceof_Error not_a_repository \<longrightarrow> wraps (CheckpointFailed not_a_repository) not_a_repository"
      by (rule conjunct2)
    moreover have "instanceof_Error not_a_repository" by (simp add: not_a_repository_def)
    ultimately show ?thesis by blast
  qed
  moreover have "fst (createFileSnapshot git0 os0 service0 ''before refactor'' started) =
      Inl (CheckpointFailed not_a_repository)"
  proof -
    from t [THEN conjunct2, THEN conjunct2, THEN conjunct2, THEN conjunct2, THEN conjunct1,
        rule_format, where s = started and matches = names_match and paths = walk0]
    have "folder_exists (world started) (projectRoot service0) \<and>
        git (world started) (GitService_getHistoryDir os0 service0 @ ''/.git'') = None \<longrightarrow>
        createFileSnapshot (git_model names_match walk0) os0 service0 ''before refactor'' started =
          (Inl (CheckpointFailed not_a_repository),
           started\<lparr>trace := trace started @ [Git (shadow_repo os0 service0) (Add ''.'') (Inl not_a_repository)]\<rparr>)"
      by blast
    moreover have "folder_exists (world started) (projectRoot service0)"
      by (simp add: started_def projectRoot0 folder_exists_def project0_def)
    moreover have "git (world started) (GitService_getHistoryDir os0 service0 @ ''/.git'') = None"
      by (simp add: started_def project0_def)
    ultimately show ?thesis by (simp add: git0_def)
  qed
  moreover have "files (world initialised) ''/work/app/a.txt'' = Some ''v1''"
    "files (world initialised) ''/work/app/node_modules/x.js'' = Some ''lib''"
    by (simp_all add: initialised_def) code_simp+
  moreover have "git (world snapshotted) (repoDir0 @ ''/.git'') =
     Some \<lparr>commits = [(''c'', ''Initial commit'', []),
                       (''c+'', ''before refactor'',
                        [(''/work/app/.gitignore'', ''node_modules\<newline>''), (''/work/app/a.txt'', ''v1'')])],
           staged = [(''/work/app/.gitignore'', ''node_modules\<newline>''), (''/work/app/a.txt'', ''v1'')]\<rparr>"
    by (simp add: snapshotted_def project2_def tree1_def)
  ultimately show ?thesis using snapshot1 by simp
qed

text \<open>
  Claim C9, as stated, fails in its error handling. On the example project, initialised,
  restoring a reference the store does not know makes the engine's restore fail; what
  \<open>restoreProjectFromSnapshot\<close> rejects with is the engine's error itself, which wraps
  nothing.
\<close>

theorem restore_failure_is_not_wrapped:
  "fst (raw toy_engine (shadow_repo os0 service0) [''restore'', ''--source'', ''deadbeef'', ''.''] (world state1))
     = Inl no_such_ref \<and>
   fst (restoreProjectFromSnapshot toy_engine os0 service0 ''deadbeef'' state1) = Inl no_such_ref \<and>
   \<not> wraps no_such_ref no_such_ref"
proof -
  have "shadowGitRepository os0 service0 state1 = (Inr (shadow_repo os0 service0), state1)"
    by (rule shadowGitRepository_eq) (simp add: projectRoot0 folder_exists_def world1_def)
  then show ?thesis
    by (simp add: restoreProjectFromSnapshot_def await_def repo_raw_def
        run_task_def emit_def toy_raw_def shadow_git_dir0 world1_git no_such_ref_def wraps_def)
qed

text \<open>
  Claim C9, amended. \<open>restoreProjectFromSnapshot\<close> gets the handle and runs two phases
  in this order: it restores the contents tracked at the reference onto the working
  tree, and only if that succeeded removes the untracked files and directories. When
  the handle cannot be made (the project root is no directory) it rejects with
  simple-git's error before any call; when a phase fails it rejects with the engine's
  own error. In both cases the error is passed on unchanged (no \<^verbatim>\<open>RestoreFailed\<close>
  wrapper) and nothing more is done: the world is the one the failing phase left, and
  no later call is made.

  With git as the engine, for a reference the store knows: the first phase writes
  every file of the tree at the reference and removes the tracked files that the tree
  does not have; the second removes, below the project root, the files that are
  neither in the index nor excluded by the rules of the project's \<^verbatim>\<open>.gitignore\<close>
  as restored; the store itself is unchanged. For a reference the store does not know
  the first phase fails and no file changes.
\<close>

theorem restore_runs_two_phases:
  "(\<forall>(eng :: 'a engine) s r s'. restoreProjectFromSnapshot eng os this commitHash s = (r, s') \<longrightarrow>
      (\<not> folder_exists (world s) (projectRoot this) \<and> r = Inl cannot_use_directory \<and> s' = s)
      \<or> (folder_exists (world s) (projectRoot this) \<and>
          ((\<exists>e. raw eng (shadow_repo os this) [''restore'', ''--source'', commitHash, ''.''] (world s)
                  = (Inl e, world s') \<and>
                r = Inl e \<and>
                events_since s s' =
                  [Git (shadow_repo os this) (Raw [''restore'', ''--source'', commitHash, ''.'']) (Inl e)])
           \<or> (\<exists>out w1.
                raw eng (shadow_repo os this) [''restore'', ''--source'', commitHash, ''.''] (world s)
                  = (Inr out, w1) \<and>
                ((\<exists>e. clean eng (shadow_repo os this) ''f'' [''-d''] w1 = (Inl e, world s') \<and>
                      r = Inl e \<and>
                      events_since s s' =
                        [Git (shadow_repo os this) (Raw [''restore'', ''--source'', commitHash, ''.'']) (Inr (GText out)),
                         Git (shadow_repo os this) (Clean ''f'' [''-d'']) (Inl e)])
                 \<or> (clean eng (shadow_repo os this) ''f'' [''-d''] w1 = (Inr (), world s') \<and>
                      r = Inr () \<and>
                      events_since s s' =
                        [Git (shadow_repo os this) (Raw [''restore'', ''--source'', commitHash, ''.'']) (Inr (GText out)),
                         Git (shadow_repo os this) (Clean ''f'' [''-d'']) (Inr GDone)]))))))
   \<and> (\<forall>matches paths s repo t.
        folder_exists (world s) (projectRoot this) \<and>
        git (world s) (GitService_getHistoryDir os this @ ''/.git'') = Some repo \<and>
        find_commit repo commitHash = Some t \<longrightarrow>
        (\<exists>s'. restoreProjectFromSnapshot (git_model matches paths) os this commitHash s = (Inr (), s') \<and>
          world s' = sweep matches paths (projectRoot this) (staged repo)
                       (checkout (projectRoot this) t (staged repo) (world s)) \<and>
          git (world s') = git (world s)))
   \<and> (\<forall>matches paths s repo.
        folder_exists (world s) (projectRoot this) \<and>
        git (world s) (GitService_getHistoryDir os this @ ''/.git'') = Some repo \<and>
        find_commit repo commitHash = None \<longrightarrow>
        restoreProjectFromSnapshot (git_model matches paths) os this commitHash s =
          (Inl (GitError (''fatal: could not resolve '' @ commitHash)),
           s\<lparr>trace := trace s @
             [Git (shadow_repo os this) (Raw [''restore'', ''--source'', commitHash, ''.''])
                (Inl (GitError (''fatal: could not resolve '' @ commitHash)))]\<rparr>))
   \<and> (\<forall>dir t idx (w :: 'a world) p.
        files (checkout dir t idx w) p =
          (case map_of t p of
             Some data \<Rightarrow> Some data
           | None \<Rightarrow> if below dir p \<and> tracked idx p then None else files w p))
   \<and> (\<forall>matches paths dir idx (w :: 'a world) p.
        files (sweep matches paths dir idx w) p =
          (if below dir p \<and> \<not> tracked idx p \<and>
              \<not> matches (ignore_rules w dir) (drop (Suc (length dir)) p)
           then None else files w p))"
proof (intro conjI allI impI)
  fix eng :: "'a engine" and s r s'
  assume run: "restoreProjectFromSnapshot eng os this commitHash s = (r, s')"
  then show "(\<not> folder_exists (world s) (projectRoot this) \<and> r = Inl cannot_use_directory \<and> s' = s)
      \<or> (folder_exists (world s) (projectRoot this) \<and>
          ((\<exists>e. raw eng (shadow_repo os this) [''restore'', ''--source'', commitHash, ''.''] (world s)
                  = (Inl e, world s') \<and>
                r = Inl e \<and>
                events_since s s' =
                  [Git (shadow_repo os this) (Raw [''restore'', ''--source'', commitHash, ''.'']) (Inl e)])
           \<or> (\<exists>out w1.
                raw eng (shadow_repo os this) [''restore'', ''--source'', commitHash, ''.''] (world s)
                  = (Inr out, w1) \<and>
                ((\<exists>e. clean eng (shadow_repo os this) ''f'' [''-d''] w1 = (Inl e, world s') \<and>
                      r = Inl e \<and>
                      events_since s s' =
                        [Git (shadow_repo os this) (Raw [''restore'', ''--source'', commitHash, ''.'']) (Inr (GText out)),
                         Git (shadow_repo os this) (Clean ''f'' [''-d'']) (Inl e)])
                 \<or> (clean eng (shadow_repo os this) ''f'' [''-d''] w1 = (Inr (), world s') \<and>
                      r = Inr () \<and>
                      events_since s s' =
                        [Git (shadow_repo os this) (Raw [''restore'', ''--source'', commitHash, ''.'']) (Inr (GText out)),
                         Git (shadow_repo os this) (Clean ''f'' [''-d'']) (Inr GDone)])))))"
  proof (cases rule: restore_cases)
    case no_directory
    then show ?thesis by blast
  next
    case (restore_failed e w1)
    from restore_failed(5) have "events_since s s' =
        [Git (shadow_repo os this) (Raw [''restore'', ''--source'', commitHash, ''.'']) (Inl e)]"
      by (simp add: events_since_eq)
    with restore_failed(1-4) show ?thesis by blast
  next
    case (clean_failed e out w1 w2)
    from clean_failed(6) have "events_since s s' =
        [Git (shadow_repo os this) (Raw [''restore'', ''--source'', commitHash, ''.'']) (Inr (GText out)),
         Git (shadow_repo os this) (Clean ''f'' [''-d'']) (Inl e)]"
      by (simp add: events_since_eq)
    with clean_failed(1-5) show ?thesis by blast
  next
    case (restored out w1 w2)
    from restored(6) have "events_since s s' =
        [Git (shadow_repo os this) (Raw [''restore'', ''--source'', commitHash, ''.'']) (Inr (GText out)),
         Git (shadow_repo os this) (Clean ''f'' [''-d'']) (Inr GDone)]"
      by (simp add: events_since_eq)
    with restored(1-5) show ?thesis by blast
  qed
next
  fix matches paths and s :: "git_store state" and repo t
  assume "folder_exists (world s) (projectRoot this) \<and>
        git (world s) (GitService_getHistoryDir os this @ ''/.git'') = Some repo \<and>
        find_commit repo commitHash = Some t"
  then show "\<exists>s'. restoreProjectFromSnapshot (git_model matches paths) os this commitHash s = (Inr (), s') \<and>
          world s' = sweep matches paths (projectRoot this) (staged repo)
                       (checkout (projectRoot this) t (staged repo) (world s)) \<and>
          git (world s') = git (world s)"
    using git_restore_outcome by blast
next
  fix matches paths and s :: "git_store state" and repo
  assume "folder_exists (world s) (projectRoot this) \<and>
        git (world s) (GitService_getHistoryDir os this @ ''/.git'') = Some repo \<and>
        find_commit repo commitHash = None"
  then show "restoreProjectFromSnapshot (git_model matches paths) os this commitHash s =
          (Inl (GitError (''fatal: could not resolve '' @ commitHash)),
           s\<lparr>trace := trace s @
             [Git (shadow_repo os this) (Raw [''restore'', ''--source'', commitHash, ''.''])
                (Inl (GitError (''fatal: could not resolve '' @ commitHash)))]\<rparr>)"
    by (simp add: git_restore_unknown)
next
  fix dir t idx and w :: "'a world" and p
  show "files (checkout dir t idx w) p =
          (case map_of t p of
             Some data \<Rightarrow> Some data
           | None \<Rightarrow> if below dir p \<and> tracked idx p then None else files w p)"
    by (rule files_checkout)
next
  fix matches paths dir idx and w :: "'a world" and p
  show "files (sweep matches paths dir idx w) p =
          (if below dir p \<and> \<not> tracked idx p \<and>
              \<not> matches (ignore_rules w dir) (drop (Suc (length dir)) p)
           then None else files w p)"
    by (rule files_sweep)
qed

theorem restore_runs_two_phases_witness:
  "map (files project3) walk0 =
     [Some ''node_modules\<newline>'', Some ''v2'', Some ''new'', Some ''lib''] \<and>
   fst (restoreProjectFromSnapshot git0 os0 service0 ''c+'' \<lparr>world = project3, trace = []\<rparr>) = Inr () \<and>
   map (files (world (snd (restoreProjectFromSnapshot git0 os0 service0 ''c+'' \<lparr>world = project3, trace = []\<rparr>)))) walk0 =
     [Some ''node_modules\<newline>'', Some ''v1'', None, Some ''lib''] \<and>
   ''/work/app/tmp'' \<in> dirs project3 \<and>
   ''/work/app/tmp'' \<notin> dirs (world (snd (restoreProjectFromSnapshot git0 os0 service0 ''c+'' \<lparr>world = project3, trace = []\<rparr>)))"
proof -
  note t = restore_runs_two_phases [where 'a = git_store, of os0 service0 "''c+''"]
  let ?repo = "\<lparr>commits = [(''c'', ''Initial commit'', []), (''c+'', ''before refactor'', tree1)], staged = tree1\<rparr>"
  let ?s = "\<lparr>world = project3, trace = []\<rparr> :: git_store state"
  from t [THEN conjunct2, THEN conjunct1, rule_format,
      where s = ?s and repo = ?repo and t = tree1 and matches = names_match and paths = walk0]
  have "folder_exists (world ?s) (projectRoot service0) \<and>
        git (world ?s) (GitService_getHistoryDir os0 service0 @ ''/.git'') = Some ?repo \<and>
        find_commit ?repo ''c+'' = Some tree1 \<longrightarrow>
        (\<exists>s'. restoreProjectFromSnapshot (git_model names_match walk0) os0 service0 ''c+'' ?s = (Inr (), s') \<and>
          world s' = sweep names_match walk0 (projectRoot service0) (staged ?repo)
                       (checkout (projectRoot service0) tree1 (staged ?repo) (world ?s)) \<and>
          git (world s') = git (world ?s))"
    by blast
  moreover have "folder_exists (world ?s) (projectRoot service0)"
    by (simp add: projectRoot0 project3_root)
  moreover have "git (world ?s) (GitService_getHistoryDir os0 service0 @ ''/.git'') = Some ?repo"
    by (simp add: history0 project3_git project2_git)
  ultimately obtain s' where
    "restoreProjectFromSnapshot git0 os0 service0 ''c+'' ?s = (Inr (), s')"
    "world s' = sweep names_match walk0 ''/work/app'' tree1 (checkout ''/work/app'' tree1 tree1 project3)"
    using find1 by (auto simp: git0_def projectRoot0)
  with restored_files edited_files restored_dirs show ?thesis by simp
qed

section \<open>Claims on the head reference and on the configuration in use\<close>




text \<open>
  Claim C6 says that every commit into the shadow store, the bootstrap commit
  included, uses the configuration file written into the history directory and never
  the user's own. The code does this for the snapshot commits, whose handle sets
  \<^verbatim>\<open>HOME\<close> and \<^verbatim>\<open>XDG_CONFIG_HOME\<close> to the history directory, but it issues the
  bootstrap commit through \<^verbatim>\<open>simpleGit(repoDir)\<close>, a handle that inherits the
  environment of the process. On a machine where a commit under the user's own
  configuration fails, the first \<open>initialize\<close> of the example project therefore fails
  in its bootstrap commit, although the dedicated configuration file has been written
  and a snapshot commit on the same machine succeeds.
\<close>

theorem bootstrap_commit_reads_user_config:
  "initialize signing_engine os0 service0 state0 = (Inl (CheckpointInitFailed signing_fails), state_half) \<and>
   last (trace state_half) =
     Git (simpleGit repoDir0) (Commit ''Initial commit'' [(''--allow-empty'', None)]) (Inl signing_fails) \<and>
   envVars (simpleGit repoDir0) = None \<and>
   files (world state_half) (repoDir0 @ ''/.gitconfig'') = Some gitConfigContent \<and>
   map_of (case envVars (shadow_repo os0 service0) of None \<Rightarrow> [] | Some vars \<Rightarrow> vars) ''HOME'' = Some repoDir0 \<and>
   fst (createFileSnapshot signing_engine os0 service0 ''first'' state_resumed) = Inr ''c''"
  by (simp add: run_signing snapshot_signing state_half_def trace_half_def world_half_def simpleGit_def
      shadow_handle history0)

end
